theory Spec2Isabelle
  imports Complex_Main
begin

section \<open>Numbers and the JavaScript built-ins the engine calls\<close>

text \<open>
  The engine is the TypeScript class \<open>Gizmo\<close>. Its numbers are modelled as reals: a
  value stands for a finite number, and the rounding error of double arithmetic, the
  infinities and NaN are outside the model. Where the source divides or normalises, the
  theorems below say which inputs keep the computation inside the finite numbers.
\<close>

definition MAX_VALUE :: real where
  \<comment> \<open>\<open>Number.MAX_VALUE\<close>, the largest finite double.\<close>
  "MAX_VALUE = (2 ^ 53 - 1) * 2 ^ 971"

definition js_rem :: "real \<Rightarrow> real \<Rightarrow> real" where
  \<comment> \<open>\<open>a % b\<close>: the remainder takes the sign of the dividend (the quotient is truncated).\<close>
  "js_rem a b = a - b * of_int (if a / b < 0 then \<lceil>a / b\<rceil> else \<lfloor>a / b\<rfloor>)"

definition toFixed :: "nat \<Rightarrow> real \<Rightarrow> real" where
  \<comment> \<open>\<open>parseFloat(v.toFixed(d))\<close>: the decimal with \<open>d\<close> digits nearest to \<open>v\<close>, a tie
      going away from zero; from \<open>10^21\<close> on \<open>toFixed\<close> prints the number itself.\<close>
  "toFixed d v =
     (if 10 ^ 21 \<le> \<bar>v\<bar> then v
      else sgn v * of_int \<lfloor>\<bar>v\<bar> * 10 ^ d + 1 / 2\<rfloor> / 10 ^ d)"

definition clamp :: "real \<Rightarrow> real \<Rightarrow> real \<Rightarrow> real" where
  \<comment> \<open>\<open>Cesium.Math.clamp(value, min, max)\<close>.\<close>
  "clamp v lo hi = (if v < lo then lo else if v > hi then hi else v)"

definition atan2 :: "real \<Rightarrow> real \<Rightarrow> real" where
  \<comment> \<open>\<open>Math.atan2(y, x)\<close>, the angle of the point \<open>(x, y)\<close> in \<open>(-\<pi>, \<pi>]\<close>.\<close>
  "atan2 b a =
     (if 0 < a then arctan (b / a)
      else if a < 0 then (if 0 \<le> b then arctan (b / a) + pi else arctan (b / a) - pi)
      else if 0 < b then pi / 2
      else if b < 0 then - (pi / 2)
      else 0)"

definition toDegreesMath :: "real \<Rightarrow> real" where
  \<comment> \<open>\<open>Cesium.Math.toDegrees\<close>.\<close>
  "toDegreesMath rad = rad * (180 / pi)"

definition toRadians :: "real \<Rightarrow> real" where
  \<comment> \<open>\<open>Cesium.Math.toRadians\<close>.\<close>
  "toRadians deg = deg * (pi / 180)"

section \<open>Vectors and matrices\<close>

datatype Cartesian3 = Cartesian3 (cx: real) (cy: real) (cz: real)

datatype Cartesian4 = Cartesian4 (qx: real) (qy: real) (qz: real) (qw: real)

text \<open>A matrix is held by its columns, as Cesium stores it (column-major).\<close>

datatype Matrix3 = Matrix3 (m3c0: Cartesian3) (m3c1: Cartesian3) (m3c2: Cartesian3)

datatype Matrix4 = Matrix4 (m4c0: Cartesian4) (m4c1: Cartesian4) (m4c2: Cartesian4) (m4c3: Cartesian4)

type_synonym Cartesian2 = "real \<times> real"

definition UNIT_X :: Cartesian3 where "UNIT_X = Cartesian3 1 0 0"
definition UNIT_Y :: Cartesian3 where "UNIT_Y = Cartesian3 0 1 0"
definition UNIT_Z :: Cartesian3 where "UNIT_Z = Cartesian3 0 0 1"

definition add3 :: "Cartesian3 \<Rightarrow> Cartesian3 \<Rightarrow> Cartesian3" where
  "add3 a b = Cartesian3 (cx a + cx b) (cy a + cy b) (cz a + cz b)"

definition subtract :: "Cartesian3 \<Rightarrow> Cartesian3 \<Rightarrow> Cartesian3" where
  "subtract a b = Cartesian3 (cx a - cx b) (cy a - cy b) (cz a - cz b)"

definition negate :: "Cartesian3 \<Rightarrow> Cartesian3" where
  "negate a = Cartesian3 (- cx a) (- cy a) (- cz a)"

definition multiplyByScalar :: "Cartesian3 \<Rightarrow> real \<Rightarrow> Cartesian3" where
  "multiplyByScalar a k = Cartesian3 (cx a * k) (cy a * k) (cz a * k)"

definition dot :: "Cartesian3 \<Rightarrow> Cartesian3 \<Rightarrow> real" where
  "dot a b = cx a * cx b + cy a * cy b + cz a * cz b"

definition cross :: "Cartesian3 \<Rightarrow> Cartesian3 \<Rightarrow> Cartesian3" where
  "cross a b =
     Cartesian3 (cy a * cz b - cz a * cy b) (cz a * cx b - cx a * cz b) (cx a * cy b - cy a * cx b)"

definition magnitude :: "Cartesian3 \<Rightarrow> real" where
  "magnitude a = sqrt (cx a * cx a + cy a * cy a + cz a * cz a)"

definition normalizeRaises :: "Cartesian3 \<Rightarrow> bool" where
  \<comment> \<open>The case in which \<open>Cesium.Cartesian3.normalize\<close> raises a \<open>DeveloperError\<close>: the vector
      has length zero, so that the division gives NaN.\<close>
  "normalizeRaises a \<longleftrightarrow> magnitude a = 0"

definition normalize :: "Cartesian3 \<Rightarrow> Cartesian3" where
  \<comment> \<open>\<open>Cesium.Cartesian3.normalize\<close>: the vector divided by its length. For a vector of
      length zero the call raises (\<open>normalizeRaises\<close>) and returns nothing; the value that
      the model has there stands for no result of the code. The properties of the snapshot,
      of the quadrant snap and of the rotation tick are stated for vectors that
      \<open>normalize\<close> accepts.\<close>
  "normalize a = Cartesian3 (cx a / magnitude a) (cy a / magnitude a) (cz a / magnitude a)"

definition xyz :: "Cartesian4 \<Rightarrow> Cartesian3" where
  "xyz q = Cartesian3 (qx q) (qy q) (qz q)"

definition withW :: "Cartesian3 \<Rightarrow> real \<Rightarrow> Cartesian4" where
  "withW a k = Cartesian4 (cx a) (cy a) (cz a) k"

definition scale4 :: "real \<Rightarrow> Cartesian4 \<Rightarrow> Cartesian4" where
  "scale4 k q = Cartesian4 (k * qx q) (k * qy q) (k * qz q) (k * qw q)"

definition add4 :: "Cartesian4 \<Rightarrow> Cartesian4 \<Rightarrow> Cartesian4" where
  "add4 p q = Cartesian4 (qx p + qx q) (qy p + qy q) (qz p + qz q) (qw p + qw q)"

definition multiplyByVector :: "Matrix4 \<Rightarrow> Cartesian4 \<Rightarrow> Cartesian4" where
  "multiplyByVector m q =
     add4 (add4 (scale4 (qx q) (m4c0 m)) (scale4 (qy q) (m4c1 m)))
          (add4 (scale4 (qz q) (m4c2 m)) (scale4 (qw q) (m4c3 m)))"

definition multiply :: "Matrix4 \<Rightarrow> Matrix4 \<Rightarrow> Matrix4" where
  \<comment> \<open>\<open>Cesium.Matrix4.multiply(left, right, result)\<close>.\<close>
  "multiply l r =
     Matrix4 (multiplyByVector l (m4c0 r)) (multiplyByVector l (m4c1 r))
             (multiplyByVector l (m4c2 r)) (multiplyByVector l (m4c3 r))"

definition multiplyByPoint :: "Matrix4 \<Rightarrow> Cartesian3 \<Rightarrow> Cartesian3" where
  "multiplyByPoint m p = xyz (multiplyByVector m (withW p 1))"

definition multiplyByPointAsVector :: "Matrix4 \<Rightarrow> Cartesian3 \<Rightarrow> Cartesian3" where
  "multiplyByPointAsVector m p = xyz (multiplyByVector m (withW p 0))"

definition IDENTITY :: Matrix4 where
  "IDENTITY = Matrix4 (Cartesian4 1 0 0 0) (Cartesian4 0 1 0 0) (Cartesian4 0 0 1 0) (Cartesian4 0 0 0 1)"

definition fromTranslation :: "Cartesian3 \<Rightarrow> Matrix4" where
  "fromTranslation t =
     Matrix4 (Cartesian4 1 0 0 0) (Cartesian4 0 1 0 0) (Cartesian4 0 0 1 0) (withW t 1)"

definition fromScale :: "Cartesian3 \<Rightarrow> Matrix4" where
  "fromScale k =
     Matrix4 (Cartesian4 (cx k) 0 0 0) (Cartesian4 0 (cy k) 0 0) (Cartesian4 0 0 (cz k) 0)
             (Cartesian4 0 0 0 1)"

definition fromRotationTranslation :: "Matrix3 \<Rightarrow> Matrix4" where
  \<comment> \<open>\<open>Cesium.Matrix4.fromRotationTranslation(rotation)\<close>; the translation defaults to zero.\<close>
  "fromRotationTranslation r =
     Matrix4 (withW (m3c0 r) 0) (withW (m3c1 r) 0) (withW (m3c2 r) 0) (Cartesian4 0 0 0 1)"

definition getColumn :: "Matrix4 \<Rightarrow> nat \<Rightarrow> Cartesian3" where
  \<comment> \<open>\<open>Cesium.Matrix4.getColumn(m, i, v)\<close> written into a \<open>Cartesian3\<close>: its x, y, z.\<close>
  "getColumn m i =
     xyz (if i = 0 then m4c0 m else if i = 1 then m4c1 m else if i = 2 then m4c2 m else m4c3 m)"

definition getTranslation :: "Matrix4 \<Rightarrow> Cartesian3" where
  "getTranslation m = xyz (m4c3 m)"

definition getScale :: "Matrix4 \<Rightarrow> Cartesian3" where
  \<comment> \<open>\<open>Cesium.Matrix4.getScale\<close>: the lengths of the three columns of the upper block.\<close>
  "getScale m =
     Cartesian3 (magnitude (xyz (m4c0 m))) (magnitude (xyz (m4c1 m))) (magnitude (xyz (m4c2 m)))"

definition getMatrix3 :: "Matrix4 \<Rightarrow> Matrix3" where
  "getMatrix3 m = Matrix3 (xyz (m4c0 m)) (xyz (m4c1 m)) (xyz (m4c2 m))"

definition multiplyByVector3 :: "Matrix3 \<Rightarrow> Cartesian3 \<Rightarrow> Cartesian3" where
  "multiplyByVector3 m p =
     add3 (add3 (multiplyByScalar (m3c0 m) (cx p)) (multiplyByScalar (m3c1 m) (cy p)))
          (multiplyByScalar (m3c2 m) (cz p))"

definition multiply3 :: "Matrix3 \<Rightarrow> Matrix3 \<Rightarrow> Matrix3" where
  \<comment> \<open>\<open>Cesium.Matrix3.multiply\<close>.\<close>
  "multiply3 l r =
     Matrix3 (multiplyByVector3 l (m3c0 r)) (multiplyByVector3 l (m3c1 r)) (multiplyByVector3 l (m3c2 r))"

definition transpose3 :: "Matrix3 \<Rightarrow> Matrix3" where
  "transpose3 m =
     Matrix3 (Cartesian3 (cx (m3c0 m)) (cx (m3c1 m)) (cx (m3c2 m)))
             (Cartesian3 (cy (m3c0 m)) (cy (m3c1 m)) (cy (m3c2 m)))
             (Cartesian3 (cz (m3c0 m)) (cz (m3c1 m)) (cz (m3c2 m)))"

definition fromScale3 :: "Cartesian3 \<Rightarrow> Matrix3" where
  "fromScale3 k = Matrix3 (Cartesian3 (cx k) 0 0) (Cartesian3 0 (cy k) 0) (Cartesian3 0 0 (cz k))"

definition fromRotationX :: "real \<Rightarrow> Matrix3" where
  "fromRotationX a =
     Matrix3 (Cartesian3 1 0 0) (Cartesian3 0 (cos a) (sin a)) (Cartesian3 0 (- sin a) (cos a))"

definition fromRotationY :: "real \<Rightarrow> Matrix3" where
  "fromRotationY a =
     Matrix3 (Cartesian3 (cos a) 0 (- sin a)) (Cartesian3 0 1 0) (Cartesian3 (sin a) 0 (cos a))"

datatype Ray = Ray (origin: Cartesian3) (direction: Cartesian3)

definition getPoint :: "Ray \<Rightarrow> real \<Rightarrow> Cartesian3" where
  \<comment> \<open>\<open>Cesium.Ray.getPoint(ray, t)\<close>.\<close>
  "getPoint r t = add3 (origin r) (multiplyByScalar (direction r) t)"

datatype Plane = Plane (normal: Cartesian3) (distance: real)

definition fromPointNormal :: "Cartesian3 \<Rightarrow> Cartesian3 \<Rightarrow> Plane" where
  "fromPointNormal p n = Plane n (- dot n p)"

datatype Interval = Interval (start: real) (stop: real)

section \<open>The data model\<close>

datatype TransformMode = Translate | Rotate | Scale

datatype Axis = X | Y | Z | XY | YZ | ZX | CENTER

datatype IdType = ModeType TransformMode | CenterType

text \<open>
  \<open>GizmoId\<close> is the source's interface of that name. JavaScript compares ids by
  reference; \<open>ref\<close> stands for the identity of the id object: the number of the rebuild
  (\<open>createGizmo\<close>) that created it, names being distinct within one rebuild.
\<close>

datatype GizmoId = GizmoId (axis: Axis) (idType: IdType) (name: string) (ref: nat)

datatype ColliderType = BOX | SECTOR

record GizmoCollider =
  cid :: GizmoId
  ctype :: ColliderType
  localMin :: Cartesian3
  localMax :: Cartesian3
  primitiveKey :: string
  radius :: "real option"
  tube :: "real option"
  ringNormalAxis :: "nat option"
  startAngle :: "real option"
  endAngle :: "real option"

datatype HeadingPitchRoll = HeadingPitchRoll (heading: real) (pitch: real) (roll: real)

text \<open>
  \<open>TransformState\<close>: the source also stores the printed model matrix in the snapshot;
  the model keeps the matrix itself.
\<close>

record TransformState =
  position :: Cartesian3
  rotation :: HeadingPitchRoll
  scale :: Cartesian3
  stateMatrix :: Matrix4

datatype Color = Color string real

definition WHITE :: Color where "WHITE = Color ''WHITE'' 1"
definition YELLOW :: Color where "YELLOW = Color ''YELLOW'' 1"

fun withAlpha :: "Color \<Rightarrow> real \<Rightarrow> Color" where
  "withAlpha (Color c _) a = Color c a"

definition colors :: "Axis \<Rightarrow> Color option" where
  \<comment> \<open>The \<open>colors\<close> table of the class: entries for X, Y and Z only.\<close>
  "colors a =
     (if a = X then Some (Color ''#EA3323'' 1)
      else if a = Y then Some (Color ''#4CE600'' 1)
      else if a = Z then Some (Color ''#0036FF'' 1)
      else None)"

definition colorOf :: "Axis \<Rightarrow> Color" where
  "colorOf a = (case colors a of Some c \<Rightarrow> c | None \<Rightarrow> WHITE)"

text \<open>
  A rendered primitive, as far as the engine reads and writes it: the id of its geometry
  instance, its \<open>show\<close> flag, its placement matrix and the colour attribute of the
  instance. Geometry and appearance are render-only and not modelled.
\<close>

record Primitive =
  instanceId :: GizmoId
  pshow :: bool
  modelMatrix :: Matrix4
  pcolor :: Color

datatype SceneObject = Model nat | Cesium3DTileset nat

text \<open>
  The host: what the viewer, its camera and the Cesium library answer at the time of a
  call. These are not code of the repository, so they are parameters of the model.
  \<open>inverse4\<close> (\<open>Cesium.Matrix4.inverse\<close>) is \<open>None\<close> where Cesium raises; \<open>scenePick\<close> is the id
  of the picked primitive when the pick is defined and carries an id with a type;
  \<open>fromAxisAngle\<close> is \<open>Matrix3.fromQuaternion(Quaternion.fromAxisAngle(axis, angle))\<close>;
  \<open>hprFromRotation\<close> is
  \<open>HeadingPitchRoll.fromQuaternion(Quaternion.fromRotationMatrix(m))\<close>.
\<close>

record Host =
  cameraPosition :: Cartesian3
  cameraDirection :: Cartesian3
  cameraUp :: Cartesian3
  getPickRay :: "Cartesian2 \<Rightarrow> Ray option"
  getPixelSize :: "Cartesian3 \<Rightarrow> real \<Rightarrow> real \<Rightarrow> real"
  clientWidth :: real
  clientHeight :: real
  canvasWidth :: real
  canvasHeight :: real
  scenePick :: "Cartesian2 \<Rightarrow> GizmoId option"
  eastNorthUpToFixedFrame :: "Cartesian3 \<Rightarrow> Matrix4"
  inverse4 :: "Matrix4 \<Rightarrow> Matrix4 option"
  inverse3 :: "Matrix3 \<Rightarrow> Matrix3"
  fromAxisAngle :: "Cartesian3 \<Rightarrow> real \<Rightarrow> Matrix3"
  hprFromRotation :: "Matrix3 \<Rightarrow> HeadingPitchRoll"
  rayPlane :: "Ray \<Rightarrow> Plane \<Rightarrow> Cartesian3 option"
  rayAxisAlignedBoundingBox :: "Ray \<Rightarrow> Cartesian3 \<Rightarrow> Cartesian3 \<Rightarrow> Interval option"
  boundingSphereCenter :: "SceneObject \<Rightarrow> Cartesian3"
  isSilhouetteSupported :: bool

text \<open>
  The state of one \<open>Gizmo\<close> instance, followed by the parts of the host that the engine
  writes: the two flags of the camera controller, the model matrix of each scene object,
  the registrations in the scene, and the calls made to the \<open>onUpdate\<close> callback (newest
  last). \<open>primitives\<close> lists the keys of the primitives in the engine's collection;
  \<open>edgeDetectionStage\<close> is the \<open>selected\<close> list of the stage, \<open>None\<close> without a stage.
\<close>

record Gizmo =
  object :: "SceneObject option"
  center :: "Cartesian3 option"
  axisLength :: real
  width :: real
  centerRadius :: real
  mode :: TransformMode
  activeScale :: Cartesian3
  primitives :: "string list"
  axisPrimitives :: "string \<Rightarrow> Primitive option"
  colliders :: "GizmoCollider list"
  built :: nat
  handler :: bool
  isDragging :: bool
  dragAxisName :: string
  dragPlane :: "Plane option"
  dragStartPoint :: Cartesian3
  dragStartCenter :: Cartesian3
  dragVectorStart :: Cartesian3
  initialModelMatrix :: Matrix4
  highlightedId :: "GizmoId option"
  outlineStage :: bool
  edgeDetectionStage :: "SceneObject list option"
  hasOnUpdate :: bool
  enableRotate :: bool
  enableTranslate :: bool
  objectMatrix :: "SceneObject \<Rightarrow> Matrix4"
  preUpdateListener :: bool
  primitivesInScene :: bool
  outlineStageInScene :: bool
  updates :: "TransformState option list"

section \<open>Handles and colliders\<close>

definition axisLetter :: "Axis \<Rightarrow> string" where
  "axisLetter a =
     (case a of X \<Rightarrow> ''X'' | Y \<Rightarrow> ''Y'' | Z \<Rightarrow> ''Z'' | XY \<Rightarrow> ''XY'' | YZ \<Rightarrow> ''YZ''
      | ZX \<Rightarrow> ''ZX'' | CENTER \<Rightarrow> ''CENTER'')"

definition newPrimitive :: "GizmoId \<Rightarrow> Color \<Rightarrow> Primitive" where
  \<comment> \<open>\<open>new Cesium.Primitive\<close>: shown, placed by the identity matrix.\<close>
  "newPrimitive i c = \<lparr>instanceId = i, pshow = True, modelMatrix = IDENTITY, pcolor = c\<rparr>"

definition addPrimitive :: "string \<Rightarrow> Primitive \<Rightarrow> Gizmo \<Rightarrow> Gizmo" where
  \<comment> \<open>\<open>this._primitives.add(p)\<close> and \<open>this._axisPrimitives[key] = p\<close>.\<close>
  "addPrimitive key p s =
     s\<lparr>primitives := primitives s @ [key], axisPrimitives := (axisPrimitives s)(key \<mapsto> p)\<rparr>"

definition addCollider ::
  "string \<Rightarrow> GizmoId \<Rightarrow> Cartesian3 \<Rightarrow> Cartesian3 \<Rightarrow> ColliderType \<Rightarrow>
   real option \<Rightarrow> real option \<Rightarrow> nat option \<Rightarrow> real option \<Rightarrow> real option \<Rightarrow> Gizmo \<Rightarrow> Gizmo" where
  "addCollider key i mn mx ty rad tb rna sa ea s =
     s\<lparr>colliders := colliders s @
        [\<lparr>cid = i, ctype = ty, localMin = mn, localMax = mx, primitiveKey = key,
          radius = rad, tube = tb, ringNormalAxis = rna, startAngle = sa, endAngle = ea\<rparr>]\<rparr>"

definition addBoxCollider :: "string \<Rightarrow> GizmoId \<Rightarrow> Cartesian3 \<Rightarrow> Cartesian3 \<Rightarrow> Gizmo \<Rightarrow> Gizmo" where
  \<comment> \<open>\<open>addCollider(key, id, min, max, 'BOX')\<close>: no extra parameters.\<close>
  "addBoxCollider key i mn mx s = addCollider key i mn mx BOX None None None None None s"

definition createCenterGizmo :: "Gizmo \<Rightarrow> Gizmo" where
  "createCenterGizmo s =
     (let ty = (if mode s = Scale then ModeType Scale else CenterType);
          i = GizmoId CENTER ty ''CENTER'' (built s);
          r = centerRadius s;
          s1 = addPrimitive ''CENTER'' (newPrimitive i WHITE) s
      in addBoxCollider ''CENTER'' i (Cartesian3 (- r) (- r) (- r)) (Cartesian3 r r r) s1)"

definition axisBox :: "Axis \<Rightarrow> real \<Rightarrow> real \<Rightarrow> Cartesian3 \<times> Cartesian3" where
  \<comment> \<open>The prism of an axis handle: \<open>len\<close> along the axis, \<open>w\<close> to each side.\<close>
  "axisBox a w len =
     (if a = X then (Cartesian3 0 (- w) (- w), Cartesian3 len w w)
      else if a = Y then (Cartesian3 (- w) 0 (- w), Cartesian3 w len w)
      else (Cartesian3 (- w) (- w) 0, Cartesian3 w w len))"

definition translationAxis :: "Gizmo \<Rightarrow> Axis \<Rightarrow> Gizmo" where
  "translationAxis s a =
     (let gizmoId = GizmoId a (ModeType Translate) (''TRANS_'' @ axisLetter a) (built s);
          arrowLength = 0.15;
          lineLength = 1.0;
          keyLine = axisLetter a @ ''_line'';
          keyArrow = axisLetter a @ ''_arrow'';
          s1 = addPrimitive keyLine (newPrimitive gizmoId (colorOf a)) s;
          s2 = addPrimitive keyArrow (newPrimitive gizmoId (colorOf a)) s1;
          colliderWidth = 0.1;
          totalLen = lineLength + arrowLength;
          b = axisBox a colliderWidth totalLen
      in addBoxCollider keyLine gizmoId (fst b) (snd b) s2)"

definition translationPlane :: "Gizmo \<Rightarrow> Axis \<times> Color \<times> Cartesian3 \<times> Cartesian3 \<Rightarrow> Gizmo" where
  "translationPlane s pl =
     (case pl of (a, c, mn, mx) \<Rightarrow>
        let gizmoId = GizmoId a (ModeType Translate) (''PLANE_'' @ axisLetter a) (built s);
            key = ''PLANE_'' @ axisLetter a;
            s1 = addPrimitive key (newPrimitive gizmoId c) s
        in addBoxCollider key gizmoId mn mx s1)"

definition createTranslationGizmo :: "Gizmo \<Rightarrow> Gizmo" where
  "createTranslationGizmo s =
     (let s1 = foldl translationAxis s [X, Y, Z];
          start = 0.15;
          end = 0.45;
          thickness = 0.01;
          planes =
            [(XY, withAlpha (colorOf Z) 0.5, Cartesian3 start start (- thickness), Cartesian3 end end thickness),
             (YZ, withAlpha (colorOf X) 0.5, Cartesian3 (- thickness) start start, Cartesian3 thickness end end),
             (ZX, withAlpha (colorOf Y) 0.5, Cartesian3 start (- thickness) start, Cartesian3 end thickness end)]
      in foldl translationPlane s1 planes)"

definition rotationAxis :: "Gizmo \<Rightarrow> Axis \<Rightarrow> Gizmo" where
  \<comment> \<open>The fan and the rim are stored under \<open>X_fan\<close>, \<open>X_rim\<close>, ...; the collider is
      registered under the key \<open>axis\<close> itself, as the source passes it.\<close>
  "rotationAxis s a =
     (let gizmoId = GizmoId a (ModeType Rotate) (''ROT_'' @ axisLetter a) (built s);
          rad = 1.0;
          s1 = addPrimitive (axisLetter a @ ''_fan'') (newPrimitive gizmoId (withAlpha (colorOf a) 0.2)) s;
          s2 = addPrimitive (axisLetter a @ ''_rim'') (newPrimitive gizmoId (colorOf a)) s1;
          tb = 0.05;
          r = rad + tb;
          box = (if a = Z then (Cartesian3 0 0 (- tb), Cartesian3 r r tb, 2)
                 else if a = X then (Cartesian3 (- tb) 0 0, Cartesian3 tb r r, 0)
                 else if a = Y then (Cartesian3 0 (- tb) 0, Cartesian3 r tb r, 1)
                 else (Cartesian3 0 0 0, Cartesian3 0 0 0, 2))
      in case box of (mn, mx, ringNormal) \<Rightarrow>
           addCollider (axisLetter a) gizmoId mn mx SECTOR
             (Some rad) (Some tb) (Some ringNormal) (Some 0) (Some (pi / 2)) s2)"

definition createRotationGizmo :: "Gizmo \<Rightarrow> Gizmo" where
  "createRotationGizmo s = foldl rotationAxis s [X, Y, Z]"

definition scaleAxis :: "Gizmo \<Rightarrow> Axis \<Rightarrow> Gizmo" where
  "scaleAxis s a =
     (let gizmoId = GizmoId a (ModeType Scale) (''SCALE_'' @ axisLetter a) (built s);
          keyLine = axisLetter a @ ''_line'';
          keyBox = axisLetter a @ ''_box'';
          s1 = addPrimitive keyLine (newPrimitive gizmoId (colorOf a)) s;
          s2 = addPrimitive keyBox (newPrimitive gizmoId (colorOf a)) s1;
          colliderWidth = 0.1;
          b = axisBox a colliderWidth 1.1
      in addBoxCollider keyLine gizmoId (fst b) (snd b) s2)"

definition createScaleGizmo :: "Gizmo \<Rightarrow> Gizmo" where
  "createScaleGizmo s = foldl scaleAxis s [X, Y, Z]"

definition createGizmo :: "Gizmo \<Rightarrow> Gizmo" where
  \<comment> \<open>Clears the collection, the key table and the colliders, then rebuilds them for the
      mode; new id objects are created, hence the new \<open>built\<close>.\<close>
  "createGizmo s =
     (let s0 = s\<lparr>primitives := [], axisPrimitives := Map.empty, colliders := [], built := built s + 1\<rparr>;
          s1 = (if mode s0 = Translate then createTranslationGizmo s0
                else if mode s0 = Rotate then createRotationGizmo s0
                else createScaleGizmo s0)
      in createCenterGizmo s1)"

section \<open>Strings\<close>

fun startsWith :: "string \<Rightarrow> string \<Rightarrow> bool" where
  "startsWith s [] = True"
| "startsWith [] (p # ps) = False"
| "startsWith (c # cs) (p # ps) = (c = p \<and> startsWith cs ps)"

fun includesStr :: "string \<Rightarrow> string \<Rightarrow> bool" where
  \<comment> \<open>\<open>s.includes(sub)\<close>.\<close>
  "includesStr [] sub = (sub = [])"
| "includesStr (c # cs) sub = (startsWith (c # cs) sub \<or> includesStr cs sub)"

fun splitOn :: "char \<Rightarrow> string \<Rightarrow> string list" where
  \<comment> \<open>\<open>s.split(c)\<close> for a one-character separator.\<close>
  "splitOn c [] = [[]]"
| "splitOn c (d # ds) =
     (if d = c then [] # splitOn c ds
      else (case splitOn c ds of [] \<Rightarrow> [[d]] | w # ws \<Rightarrow> (d # w) # ws))"

definition nameAxis :: "string \<Rightarrow> string option" where
  \<comment> \<open>\<open>name.split('_')[1]\<close>; \<open>None\<close> is JavaScript's \<open>undefined\<close>.\<close>
  "nameAxis nm = (case splitOn (CHR ''_'') nm of _ # a # _ \<Rightarrow> Some a | _ \<Rightarrow> None)"

section \<open>Binding, state reset and the transform snapshot\<close>

definition recolor :: "string \<Rightarrow> GizmoId \<Rightarrow> Color \<Rightarrow> Gizmo \<Rightarrow> Gizmo" where
  \<comment> \<open>\<open>p.getGeometryInstanceAttributes(id)\<close> is defined when the primitive under the key
      exists and holds the instance \<open>id\<close>; then its colour is set.\<close>
  "recolor key i c s =
     (case axisPrimitives s key of
        None \<Rightarrow> s
      | Some p \<Rightarrow>
          if instanceId p = i then s\<lparr>axisPrimitives := (axisPrimitives s)(key \<mapsto> p\<lparr>pcolor := c\<rparr>)\<rparr>
          else s)"

definition restoreHighlight :: "Gizmo \<Rightarrow> Gizmo" where
  "restoreHighlight s =
     (case highlightedId s of
        None \<Rightarrow> s
      | Some i \<Rightarrow>
          let a = axis i;
              baseColor =
                (if a = CENTER then WHITE
                 else if a \<in> {XY, YZ, ZX} then
                   (if a = XY then colorOf Z else if a = YZ then colorOf X else colorOf Y)
                 else colorOf a);
              s1 = recolor (axisLetter a @ ''_fan'') i (withAlpha baseColor 0.2) s;
              s2 = recolor (axisLetter a @ ''_rim'') i baseColor s1;
              otherKeys = [axisLetter a @ ''_line'', axisLetter a @ ''_arrow'', axisLetter a @ ''_box'',
                           ''PLANE_'' @ axisLetter a, ''CENTER''];
              s3 = foldl (\<lambda>t key. recolor key i
                            (if includesStr key ''PLANE'' then withAlpha baseColor 0.5 else baseColor) t)
                     s2 otherKeys
          in s3\<lparr>highlightedId := None\<rparr>)"

definition highlightPrimitive :: "GizmoId \<Rightarrow> Gizmo \<Rightarrow> Gizmo" where
  "highlightPrimitive i s =
     (let a = axis i;
          targets =
            (if a = CENTER then [''CENTER'']
             else if a \<in> {XY, YZ, ZX} then [''PLANE_'' @ axisLetter a]
             else [axisLetter a @ ''_rim'', axisLetter a @ ''_line'', axisLetter a @ ''_arrow'',
                   axisLetter a @ ''_box''])
      in (foldl (\<lambda>t key. recolor key i YELLOW t) s targets)\<lparr>highlightedId := Some i\<rparr>)"

definition updateOutlineSelection :: "Gizmo \<Rightarrow> Gizmo" where
  \<comment> \<open>A bound object is a \<open>Model\<close> or a \<open>Cesium3DTileset\<close>, so it is selected; with no
      object the selection is emptied.\<close>
  "updateOutlineSelection s =
     (case edgeDetectionStage s of
        None \<Rightarrow> s
      | Some _ \<Rightarrow>
          (case object s of
             Some ob \<Rightarrow> s\<lparr>edgeDetectionStage := Some [ob]\<rparr>
           | None \<Rightarrow> s\<lparr>edgeDetectionStage := Some []\<rparr>))"

definition resetState :: "Gizmo \<Rightarrow> Gizmo" where
  "resetState s =
     (let s1 = s\<lparr>isDragging := False, dragAxisName := [], dragPlane := None,
                  activeScale := Cartesian3 1 1 1\<rparr>;
          s2 = (restoreHighlight s1)\<lparr>highlightedId := None\<rparr>;
          s3 = (if \<not> enableRotate s2 then s2\<lparr>enableRotate := True\<rparr> else s2)
      in if \<not> enableTranslate s3 then s3\<lparr>enableTranslate := True\<rparr> else s3)"

definition parseCenter :: "Host \<Rightarrow> Gizmo \<Rightarrow> Gizmo" where
  "parseCenter h s =
     (case object s of
        Some ob \<Rightarrow> s\<lparr>center := Some (boundingSphereCenter h ob)\<rparr>
      | None \<Rightarrow> s\<lparr>center := None\<rparr>)"

definition cleanScale :: "real \<Rightarrow> real" where
  "cleanScale val = (if \<bar>val - 1.0\<bar> < 0.00001 then 1.0 else toFixed 3 val)"

definition toDegrees :: "real \<Rightarrow> real" where
  \<comment> \<open>The local \<open>toDegrees\<close> of \<open>getTransformState\<close>.\<close>
  "toDegrees rad0 =
     (let rad = (if \<bar>rad0\<bar> < 1 / 10 ^ 10 then 0 else rad0);
          degree = toDegreesMath rad;
          degree = js_rem degree 360;
          degree = (if degree < 0 then degree + 360 else degree);
          degree = (if \<bar>degree - 360\<bar> < 0.01 then 0 else degree);
          degree = (if \<bar>degree\<bar> < 0.01 then 0 else degree)
      in toFixed 2 degree)"

definition getTransformState :: "Host \<Rightarrow> Gizmo \<Rightarrow> TransformState option" where
  "getTransformState h s =
     (case object s of
        None \<Rightarrow> None
      | Some ob \<Rightarrow>
          (case center s of
             None \<Rightarrow> None
           | Some c \<Rightarrow>
               let mm = objectMatrix s ob;
                   pos = getTranslation mm;
                   scl = getScale mm;
                   rotationMatrix = getMatrix3 mm;
                   rotationMatrix = Matrix3 (normalize (m3c0 rotationMatrix))
                                            (normalize (m3c1 rotationMatrix))
                                            (normalize (m3c2 rotationMatrix));
                   enuMatrix = eastNorthUpToFixedFrame h pos;
                   enuRotation = getMatrix3 enuMatrix;
                   enuRotationInverse = inverse3 h enuRotation;
                   localRotation = multiply3 enuRotationInverse rotationMatrix;
                   hpr = hprFromRotation h localRotation
               in Some \<lparr>position = Cartesian3 (toFixed 2 (cx pos)) (toFixed 2 (cy pos)) (toFixed 2 (cz pos)),
                        rotation = HeadingPitchRoll (toDegrees (heading hpr)) (toDegrees (pitch hpr))
                                     (toDegrees (roll hpr)),
                        scale = Cartesian3 (cleanScale (cx scl)) (cleanScale (cy scl)) (cleanScale (cz scl)),
                        stateMatrix = mm\<rparr>))"

definition fireUpdate :: "Host \<Rightarrow> Gizmo \<Rightarrow> Gizmo" where
  \<comment> \<open>\<open>this.onUpdate && this.onUpdate(this.getTransformState())\<close>.\<close>
  "fireUpdate h s = (if hasOnUpdate s then s\<lparr>updates := updates s @ [getTransformState h s]\<rparr> else s)"

definition detach :: "Gizmo \<Rightarrow> Gizmo" where
  "detach s =
     (let s1 = (resetState s)\<lparr>object := None, center := None, primitives := [], colliders := [],
                              axisPrimitives := Map.empty\<rparr>
      in case edgeDetectionStage s1 of
           Some _ \<Rightarrow> s1\<lparr>edgeDetectionStage := Some []\<rparr>
         | None \<Rightarrow> s1)"

definition bindObject :: "Host \<Rightarrow> SceneObject option \<Rightarrow> Gizmo \<Rightarrow> Gizmo" where
  "bindObject h ob s =
     (case ob of
        None \<Rightarrow> detach s
      | Some b \<Rightarrow>
          if object s = Some b then s
          else
            let s1 = resetState s;
                s2 = s1\<lparr>object := Some b\<rparr>;
                s3 = parseCenter h s2;
                s4 = createGizmo s3;
                s5 = updateOutlineSelection s4
            in fireUpdate h s5)"

definition set_mode :: "TransformMode \<Rightarrow> Gizmo \<Rightarrow> Gizmo" where
  \<comment> \<open>The setter of the \<open>mode\<close> property.\<close>
  "set_mode val s = (if mode s \<noteq> val then createGizmo (s\<lparr>mode := val\<rparr>) else s)"

section \<open>The per-frame update\<close>

definition setModelMatrix :: "string \<Rightarrow> Matrix4 \<Rightarrow> Gizmo \<Rightarrow> Gizmo" where
  \<comment> \<open>\<open>if (p) p.modelMatrix = m\<close> for the primitive under the key.\<close>
  "setModelMatrix key m s =
     (case axisPrimitives s key of
        None \<Rightarrow> s
      | Some p \<Rightarrow> s\<lparr>axisPrimitives := (axisPrimitives s)(key \<mapsto> p\<lparr>modelMatrix := m\<rparr>)\<rparr>)"

definition viewAngle :: "Axis \<Rightarrow> Cartesian3 \<Rightarrow> real" where
  \<comment> \<open>The angle of the local camera direction in the plane of a rotation handle.\<close>
  "viewAngle a localCameraDir =
     (if a = Z then atan2 (cy localCameraDir) (cx localCameraDir)
      else if a = X then atan2 (cz localCameraDir) (cy localCameraDir)
      else if a = Y then atan2 (cx localCameraDir) (cz localCameraDir)
      else 0)"

definition directions :: "Axis \<Rightarrow> Cartesian3" where
  \<comment> \<open>The \<open>directions\<close> table of \<open>update\<close>, read at X, Y and Z.\<close>
  "directions a = (if a = X then Cartesian3 1 0 0 else if a = Y then Cartesian3 0 1 0 else Cartesian3 0 0 1)"

definition quadrantAxis :: "Axis \<Rightarrow> Cartesian3" where
  \<comment> \<open>\<open>rotationAxis\<close> of the rotate branch: \<open>UNIT_Z\<close> unless set by the axis.\<close>
  "quadrantAxis a = (if a = Z then UNIT_Z else if a = X then UNIT_X else if a = Y then UNIT_Y else UNIT_Z)"

definition snapAngle :: "real \<Rightarrow> real" where
  \<comment> \<open>\<open>const step = Math.PI / 2; const snapAngle = Math.floor(angle / step) * step\<close>.\<close>
  "snapAngle angle = (let step = pi / 2 in of_int \<lfloor>angle / step\<rfloor> * step)"

definition updateAxis :: "Host \<Rightarrow> real \<Rightarrow> Matrix4 \<Rightarrow> Cartesian3 \<Rightarrow> Gizmo \<Rightarrow> Axis \<Rightarrow> Gizmo" where
  "updateAxis h baseScale enuMatrix localCameraDir s a =
     (let axisDragScale =
            (if a = X then cx (activeScale s) else if a = Y then cy (activeScale s)
             else if a = Z then cz (activeScale s) else 1.0);
          totalLen = baseScale * axisDragScale
      in if mode s = Rotate then
           (case axisPrimitives s (axisLetter a @ ''_fan'') of
              None \<Rightarrow> s
            | Some pFan \<Rightarrow>
                (case axisPrimitives s (axisLetter a @ ''_rim'') of
                   None \<Rightarrow> s
                 | Some pRim \<Rightarrow>
                     let angle = viewAngle a localCameraDir;
                         quat = fromAxisAngle h (quadrantAxis a) (snapAngle angle);
                         quadrantMatrix = fromRotationTranslation quat;
                         scaleM = fromScale (Cartesian3 baseScale baseScale baseScale);
                         m = multiply enuMatrix (multiply quadrantMatrix scaleM)
                     in setModelMatrix (axisLetter a @ ''_rim'') m
                          (setModelMatrix (axisLetter a @ ''_fan'') m s)))
         else
           (let lineModelMatrix = multiply enuMatrix (fromScale (Cartesian3 totalLen totalLen totalLen));
                rotateMatrix =
                  (if mode s = Translate then
                     (if a = X then fromRotationTranslation (fromRotationY (toRadians 90))
                      else if a = Y then fromRotationTranslation (fromRotationX (toRadians (- 90)))
                      else IDENTITY)
                   else IDENTITY);
                tipScaleMatrix = fromScale (Cartesian3 baseScale baseScale baseScale);
                tipOffsetDist = (if mode s = Translate then totalLen + 0.075 * baseScale else totalLen);
                offset = multiplyByScalar (directions a) tipOffsetDist;
                translateMatrix = fromTranslation offset;
                tipModelMatrix =
                  multiply enuMatrix (multiply translateMatrix (multiply rotateMatrix tipScaleMatrix));
                tipKey = (case axisPrimitives s (axisLetter a @ ''_arrow'') of
                            Some _ \<Rightarrow> axisLetter a @ ''_arrow''
                          | None \<Rightarrow> axisLetter a @ ''_box'')
            in setModelMatrix tipKey tipModelMatrix
                 (setModelMatrix (axisLetter a @ ''_line'') lineModelMatrix s)))"

definition update :: "Host \<Rightarrow> Gizmo \<Rightarrow> Gizmo" where
  \<comment> \<open>The \<open>preUpdate\<close> listener. Where \<open>Matrix4.inverse\<close> raises nothing has been written
      yet, so the state is the one before.\<close>
  "update h s =
     (case center s of
        None \<Rightarrow> s
      | Some c \<Rightarrow>
          let pixelSize = getPixelSize h c (clientWidth h) (clientHeight h);
              baseScale = pixelSize * axisLength s;
              enuMatrix = eastNorthUpToFixedFrame h c
          in case inverse4 h enuMatrix of
               None \<Rightarrow> s
             | Some inverseEnu \<Rightarrow>
                 let centerToCamera = subtract (cameraPosition h) c;
                     localCameraDir = normalize (multiplyByPointAsVector inverseEnu centerToCamera);
                     centerScale =
                       (if mode s = Scale \<and> isDragging s \<and> dragAxisName s = ''CENTER''
                        then baseScale * cx (activeScale s) else baseScale);
                     s1 = setModelMatrix ''CENTER''
                            (multiply enuMatrix (fromScale (Cartesian3 centerScale centerScale centerScale))) s;
                     s2 = foldl (updateAxis h baseScale enuMatrix localCameraDir) s1 [X, Y, Z]
                 in if mode s2 = Translate then
                      (let planeModelMatrix =
                             multiply enuMatrix (fromScale (Cartesian3 baseScale baseScale baseScale))
                       in foldl (\<lambda>t plane. setModelMatrix (''PLANE_'' @ plane) planeModelMatrix t) s2
                            [''XY'', ''YZ'', ''ZX''])
                    else s2)"

section \<open>Ray casting\<close>

definition sectorMiss :: "GizmoCollider \<Rightarrow> Ray \<Rightarrow> Interval \<Rightarrow> bool" where
  \<comment> \<open>The two \<open>continue\<close> tests of the SECTOR branch. A collider without a radius is not
      rejected by the first test (the comparison with \<open>undefined\<close> is false).\<close>
  "sectorMiss c localRay interval =
     (let t = start interval;
          hitPoint = getPoint localRay t;
          buffer = (case tube c of Some tb \<Rightarrow> (if tb = 0 then 0.05 else tb) | None \<Rightarrow> 0.05) * 4.0;
          dist = magnitude hitPoint
      in if (case radius c of Some r \<Rightarrow> dist > r + buffer | None \<Rightarrow> False) then True
         else
           (let uv0 = (0, 0);
                uv1 = (if ringNormalAxis c = Some 2 then (cx hitPoint, cy hitPoint) else uv0);
                uv2 = (if ringNormalAxis c = Some 0 then (cy hitPoint, cz hitPoint) else uv1);
                uv3 = (if ringNormalAxis c = Some 1 then (cz hitPoint, cx hitPoint) else uv2)
            in fst uv3 < - 0.05 \<or> snd uv3 < - 0.05))"

definition castStep ::
  "Host \<Rightarrow> Gizmo \<Rightarrow> Ray \<Rightarrow> real \<times> GizmoId option \<Rightarrow> GizmoCollider \<Rightarrow> real \<times> GizmoId option" where
  \<comment> \<open>One turn of the loop over the colliders; the pair is \<open>(minDistance, closestId)\<close>.\<close>
  "castStep h s ray acc collider =
     (case axisPrimitives s (primitiveKey collider) of
        None \<Rightarrow> acc
      | Some primitive \<Rightarrow>
          if \<not> pshow primitive then acc
          else
            (case inverse4 h (modelMatrix primitive) of
               None \<Rightarrow> acc
             | Some inverseModelMatrix \<Rightarrow>
                 let localRay = Ray (multiplyByPoint inverseModelMatrix (origin ray))
                                    (multiplyByPointAsVector inverseModelMatrix (direction ray))
                 in case rayAxisAlignedBoundingBox h localRay (localMin collider) (localMax collider) of
                      None \<Rightarrow> acc
                    | Some interval \<Rightarrow>
                        if ctype collider = SECTOR \<and> sectorMiss collider localRay interval then acc
                        else
                          (let dist = (if axis (cid collider) = CENTER then start interval - 1000.0
                                       else start interval)
                           in if dist < fst acc then (dist, Some (cid collider)) else acc)))"

definition rayCastGizmo :: "Host \<Rightarrow> Cartesian2 \<Rightarrow> Gizmo \<Rightarrow> GizmoId option" where
  "rayCastGizmo h pos s =
     (if colliders s = [] then None
      else
        (case getPickRay h pos of
           None \<Rightarrow> None
         | Some ray \<Rightarrow> snd (foldl (castStep h s ray) (MAX_VALUE, None) (colliders s))))"

section \<open>Pointer events and the drag session\<close>

definition handleHover :: "Host \<Rightarrow> Cartesian2 \<Rightarrow> Gizmo \<Rightarrow> Gizmo" where
  "handleHover h pos s =
     (let pickedId = (case rayCastGizmo h pos s of Some i \<Rightarrow> Some i | None \<Rightarrow> scenePick h pos)
      in case pickedId of
           Some i \<Rightarrow>
             if highlightedId s \<noteq> Some i then highlightPrimitive i (restoreHighlight s) else s
         | None \<Rightarrow> restoreHighlight s)"

definition axisColumn :: "Matrix4 \<Rightarrow> string option \<Rightarrow> Cartesian3" where
  \<comment> \<open>The three \<open>if (axis === ...) getColumn(enuMatrix, i, axisVector)\<close> lines on a fresh
      zero vector.\<close>
  "axisColumn enuMatrix a =
     (if a = Some ''X'' then getColumn enuMatrix 0
      else if a = Some ''Y'' then getColumn enuMatrix 1
      else if a = Some ''Z'' then getColumn enuMatrix 2
      else Cartesian3 0 0 0)"

definition startDrag :: "Host \<Rightarrow> GizmoId \<Rightarrow> Cartesian2 \<Rightarrow> Gizmo \<Rightarrow> Gizmo" where
  "startDrag h i pos s =
     (if axis i = CENTER \<and> mode s \<noteq> Scale then s
      else
        (let s1 = s\<lparr>enableRotate := False, enableTranslate := False, isDragging := True,
                     dragAxisName := name i\<rparr>;
             s2 = updateOutlineSelection s1
         in case center s2 of
              None \<Rightarrow> s2
            | Some c \<Rightarrow>
                let s3 = s2\<lparr>dragStartCenter := c,
                            initialModelMatrix :=
                              (case object s2 of Some ob \<Rightarrow> objectMatrix s2 ob | None \<Rightarrow> IDENTITY)\<rparr>;
                    axisName = axis i;
                    enuMatrix = eastNorthUpToFixedFrame h c;
                    byAxis = (if axisName = X then getColumn enuMatrix 0
                              else if axisName = Y then getColumn enuMatrix 1
                              else if axisName = Z then getColumn enuMatrix 2
                              else Cartesian3 0 0 0);
                    nrm =
                      (if mode s3 = Translate then
                         (if axisName = XY then getColumn enuMatrix 2
                          else if axisName = YZ then getColumn enuMatrix 0
                          else if axisName = ZX then getColumn enuMatrix 1
                          else cameraDirection h)
                       else if mode s3 = Scale \<or> axisName = CENTER then cameraDirection h
                       else if mode s3 = Rotate then byAxis
                       else byAxis);
                    pl = fromPointNormal c (normalize nrm);
                    s4 = s3\<lparr>dragPlane := Some pl\<rparr>
                in case getPickRay h pos of
                     None \<Rightarrow> s4
                   | Some ray \<Rightarrow>
                       (case rayPlane h ray pl of
                          None \<Rightarrow> s4
                        | Some intersect \<Rightarrow>
                            s4\<lparr>dragStartPoint := intersect,
                               dragVectorStart := normalize (subtract intersect c)\<rparr>)))"

definition handleDown :: "Host \<Rightarrow> Cartesian2 \<Rightarrow> Gizmo \<Rightarrow> Gizmo" where
  "handleDown h pos s =
     (let pickedId = (case rayCastGizmo h pos s of Some i \<Rightarrow> Some i | None \<Rightarrow> scenePick h pos)
      in case pickedId of
           Some i \<Rightarrow> startDrag h i pos s
         | None \<Rightarrow> s)"

definition handleUp :: "Gizmo \<Rightarrow> Gizmo" where
  "handleUp s =
     (if isDragging s then
        (let s1 = s\<lparr>isDragging := False, enableRotate := True, enableTranslate := True,
                     activeScale := Cartesian3 1 1 1\<rparr>
         in case edgeDetectionStage s1 of
              Some _ \<Rightarrow> s1\<lparr>edgeDetectionStage := Some []\<rparr>
            | None \<Rightarrow> s1)
      else s)"

definition setObjectMatrix :: "Matrix4 \<Rightarrow> Gizmo \<Rightarrow> Gizmo" where
  \<comment> \<open>Writes the model matrix of the bound object (a \<open>Model\<close> or a \<open>Cesium3DTileset\<close>).\<close>
  "setObjectMatrix m s =
     (case object s of
        Some ob \<Rightarrow> s\<lparr>objectMatrix := (objectMatrix s)(ob := m)\<rparr>
      | None \<Rightarrow> s)"

definition applyTransform :: "Matrix4 \<Rightarrow> Gizmo \<Rightarrow> Gizmo" where
  "applyTransform transformMatrix s =
     (case center s of
        None \<Rightarrow> s
      | Some c \<Rightarrow>
          let toOrigin = fromTranslation (negate c);
              toCenter = fromTranslation c;
              m = multiply toCenter (multiply transformMatrix toOrigin)
          in setObjectMatrix (multiply m (initialModelMatrix s)) s)"

definition updateTranslate :: "Host \<Rightarrow> Cartesian3 \<Rightarrow> Gizmo \<Rightarrow> Gizmo" where
  "updateTranslate h newPoint s =
     (let moveVector = subtract newPoint (dragStartPoint s);
          enuMatrix = eastNorthUpToFixedFrame h (dragStartCenter s);
          axisName = dragAxisName s;
          offset =
            (if includesStr axisName ''PLANE'' then moveVector
             else
               (let axisVector = normalize (axisColumn enuMatrix (nameAxis axisName));
                    scalar = dot moveVector axisVector
                in multiplyByScalar axisVector scalar));
          newCenter = add3 (dragStartCenter s) offset;
          s1 = s\<lparr>center := Some newCenter\<rparr>;
          translation = subtract newCenter (dragStartCenter s);
          m = fromTranslation translation
      in setObjectMatrix (multiply m (initialModelMatrix s1)) s1)"

definition rotateAngle :: "Cartesian3 \<Rightarrow> Cartesian3 \<Rightarrow> real" where
  \<comment> \<open>\<open>Math.acos(Cesium.Math.clamp(dot, -1.0, 1.0))\<close> of the start and current directions.\<close>
  "rotateAngle startVector currentVector = arccos (clamp (dot startVector currentVector) (- 1.0) 1.0)"

definition updateRotate :: "Host \<Rightarrow> Cartesian3 \<Rightarrow> Gizmo \<Rightarrow> Gizmo" where
  \<comment> \<open>Called by \<open>handleDrag\<close>, which has checked that the centre is defined.\<close>
  "updateRotate h newPoint s =
     (case center s of
        None \<Rightarrow> s
      | Some c \<Rightarrow>
          let currentVector = normalize (subtract newPoint c);
              angle = rotateAngle (dragVectorStart s) currentVector
          in if angle = 0 then s
             else
               (let crossV = cross (dragVectorStart s) currentVector;
                    enuMatrix = eastNorthUpToFixedFrame h c;
                    axisVector = normalize (axisColumn enuMatrix (nameAxis (dragAxisName s)));
                    sign = dot crossV axisVector;
                    angle = (if sign < 0 then - angle else angle);
                    rotationMatrix = fromRotationTranslation (fromAxisAngle h axisVector angle)
                in applyTransform rotationMatrix s))"

definition scaleFactorCenter :: "real \<Rightarrow> real \<Rightarrow> real" where
  \<comment> \<open>\<open>Math.max(0.01, 1.0 + dragDist * sensitivity * 2.0)\<close>.\<close>
  "scaleFactorCenter dragDist sensitivity = max 0.01 (1.0 + dragDist * sensitivity * 2.0)"

definition scaleFactorAxis :: "real \<Rightarrow> real \<Rightarrow> real" where
  \<comment> \<open>\<open>Math.max(0.01, 1.0 + dragDist * sensitivity)\<close>.\<close>
  "scaleFactorAxis dragDist sensitivity = max 0.01 (1.0 + dragDist * sensitivity)"

definition sensitivityAt :: "Host \<Rightarrow> Gizmo \<Rightarrow> Cartesian3 \<Rightarrow> real" where
  \<comment> \<open>\<open>1.0 / (this.axisLength * pixelSize)\<close>, the pixel size taken at the canvas size.\<close>
  "sensitivityAt h s c = 1.0 / (axisLength s * getPixelSize h c (canvasWidth h) (canvasHeight h))"

definition updateScale :: "Host \<Rightarrow> Cartesian3 \<Rightarrow> Gizmo \<Rightarrow> Gizmo" where
  \<comment> \<open>Called by \<open>handleDrag\<close>, which has checked that the centre is defined.\<close>
  "updateScale h newPoint s =
     (case center s of
        None \<Rightarrow> s
      | Some c \<Rightarrow>
          let moveVector = subtract newPoint (dragStartPoint s);
              enuMatrix = eastNorthUpToFixedFrame h c;
              sensitivity = sensitivityAt h s c
          in if dragAxisName s = ''CENTER'' then
               (let dragDist = dot moveVector (cameraUp h);
                    scaleFactor = scaleFactorCenter dragDist sensitivity;
                    s1 = s\<lparr>activeScale := Cartesian3 scaleFactor scaleFactor scaleFactor\<rparr>
                in applyTransform (fromScale (Cartesian3 scaleFactor scaleFactor scaleFactor)) s1)
             else
               (let a = nameAxis (dragAxisName s);
                    axisVector = normalize (axisColumn enuMatrix a);
                    dragDist = dot moveVector axisVector;
                    scaleFactor = scaleFactorAxis dragDist sensitivity;
                    pick = (\<lambda>l old. if a = Some l then scaleFactor else old);
                    s1 = s\<lparr>activeScale :=
                            Cartesian3 (pick ''X'' (cx (activeScale s))) (pick ''Y'' (cy (activeScale s)))
                                       (pick ''Z'' (cz (activeScale s)))\<rparr>;
                    rotationR = getMatrix3 enuMatrix;
                    scaleVec = Cartesian3 (pick ''X'' 1) (pick ''Y'' 1) (pick ''Z'' 1);
                    localScale = fromScale3 scaleVec;
                    rotationR_T = transpose3 rotationR;
                    temp = multiply3 localScale rotationR_T;
                    orientedScale = multiply3 rotationR temp
                in applyTransform (fromRotationTranslation orientedScale) s1))"

definition handleDrag :: "Host \<Rightarrow> Cartesian2 \<Rightarrow> Gizmo \<Rightarrow> Gizmo" where
  "handleDrag h pos s =
     (case dragPlane s of
        None \<Rightarrow> s
      | Some pl \<Rightarrow>
          (case center s of
             None \<Rightarrow> s
           | Some c \<Rightarrow>
               (case getPickRay h pos of
                  None \<Rightarrow> s
                | Some ray \<Rightarrow>
                    (case rayPlane h ray pl of
                       None \<Rightarrow> s
                     | Some newPoint \<Rightarrow>
                         let s1 = (if mode s = Translate then updateTranslate h newPoint s else s);
                             s2 = (if mode s1 = Rotate then updateRotate h newPoint s1 else s1);
                             s3 = (if mode s2 = Scale then updateScale h newPoint s2 else s2)
                         in fireUpdate h s3))))"

definition destroy :: "Gizmo \<Rightarrow> Gizmo" where
  "destroy s =
     (let s1 = s\<lparr>preUpdateListener := False, primitivesInScene := False\<rparr>;
          s2 = (if outlineStage s1 then s1\<lparr>outlineStageInScene := False\<rparr> else s1)
      in if handler s2 then s2\<lparr>handler := False\<rparr> else s2)"

text \<open>
  The three input actions registered by \<open>initControlEvents\<close>. They run while the handler
  exists and only respond while an object is bound.
\<close>

datatype PointerEvent = MOUSE_MOVE Cartesian2 | LEFT_DOWN Cartesian2 | LEFT_UP

definition inputAction :: "Host \<Rightarrow> PointerEvent \<Rightarrow> Gizmo \<Rightarrow> Gizmo" where
  "inputAction h e s =
     (if \<not> handler s then s
      else if object s = None then s
      else
        (case e of
           MOUSE_MOVE endPosition \<Rightarrow>
             if isDragging s then handleDrag h endPosition s else handleHover h endPosition s
         | LEFT_DOWN p \<Rightarrow> handleDown h p s
         | LEFT_UP \<Rightarrow> handleUp s))"

definition initOutlineStage :: "Host \<Rightarrow> Gizmo \<Rightarrow> Gizmo" where
  "initOutlineStage h s =
     (if \<not> isSilhouetteSupported h then s
      else s\<lparr>edgeDetectionStage := Some [], outlineStage := True, outlineStageInScene := True\<rparr>)"

definition initControlEvents :: "Gizmo \<Rightarrow> Gizmo" where
  "initControlEvents s = (if handler s then s else s\<lparr>handler := True\<rparr>)"

definition zeroMatrix :: Matrix4 where
  \<comment> \<open>\<open>new Cesium.Matrix4()\<close>.\<close>
  "zeroMatrix = Matrix4 (Cartesian4 0 0 0 0) (Cartesian4 0 0 0 0) (Cartesian4 0 0 0 0) (Cartesian4 0 0 0 0)"

definition newGizmo ::
  "Host \<Rightarrow> (SceneObject \<Rightarrow> Matrix4) \<Rightarrow> SceneObject option \<Rightarrow> real \<Rightarrow> TransformMode \<Rightarrow> bool \<Rightarrow> Gizmo" where
  \<comment> \<open>The constructor, in a scene whose camera controls are enabled: the model matrices of
      the scene's objects, then the options \<open>object\<close>, \<open>axisWidth\<close>, \<open>mode\<close> and whether an
      \<open>onUpdate\<close> callback is given.\<close>
  "newGizmo h matrices ob axisWidth md cb =
     (let s0 = \<lparr>object = None, center = None, axisLength = 120, width = axisWidth,
                 centerRadius = 0.05, mode = md, activeScale = Cartesian3 1 1 1,
                 primitives = [], axisPrimitives = Map.empty, colliders = [], built = 0,
                 handler = False, isDragging = False, dragAxisName = [], dragPlane = None,
                 dragStartPoint = Cartesian3 0 0 0, dragStartCenter = Cartesian3 0 0 0,
                 dragVectorStart = Cartesian3 0 0 0, initialModelMatrix = zeroMatrix,
                 highlightedId = None, outlineStage = False, edgeDetectionStage = None,
                 hasOnUpdate = False, enableRotate = True, enableTranslate = True,
                 objectMatrix = matrices, preUpdateListener = False, primitivesInScene = True,
                 outlineStageInScene = False, updates = []\<rparr>;
          s1 = initOutlineStage h s0;
          s2 = initControlEvents s1;
          s3 = s2\<lparr>preUpdateListener := True, hasOnUpdate := cb\<rparr>
      in case ob of
           Some b \<Rightarrow> bindObject h (Some b) s3
         | None \<Rightarrow> s3)"

section \<open>A sample host and sample sessions\<close>

text \<open>
  A small scene for the worked examples: the object sits at the origin, unrotated; the
  local frame at a point has the world's axes; the camera looks straight down from
  height 10 and every pick ray is vertical; one pixel is \<open>1/120\<close> long, so the handles
  have unit length. The box test of the sample host answers for vertical downward rays,
  the only rays of this host; the plane test is the usual ray/plane intersection.
\<close>

definition sampleInverse :: "Matrix4 \<Rightarrow> Matrix4 option" where
  \<comment> \<open>The inverse of a uniform scaling followed by a translation; other matrices do not
      occur in the sample sessions that call it.\<close>
  "sampleInverse m =
     (let k = qx (m4c0 m); t = xyz (m4c3 m)
      in if k \<noteq> 0 \<and> m = multiply (fromTranslation t) (fromScale (Cartesian3 k k k))
         then Some (multiply (fromScale (Cartesian3 (1 / k) (1 / k) (1 / k))) (fromTranslation (negate t)))
         else None)"

definition sampleRayPlane :: "Ray \<Rightarrow> Plane \<Rightarrow> Cartesian3 option" where
  "sampleRayPlane r pl =
     (let denominator = dot (normal pl) (direction r)
      in if \<bar>denominator\<bar> < 1 / 10 ^ 15 then None
         else
           (let t = (- distance pl - dot (normal pl) (origin r)) / denominator
            in if t < 0 then None else Some (getPoint r t)))"

definition sampleBoxTest :: "Ray \<Rightarrow> Cartesian3 \<Rightarrow> Cartesian3 \<Rightarrow> Interval option" where
  "sampleBoxTest r mn mx =
     (let p = origin r; d = direction r
      in if cx d = 0 \<and> cy d = 0 \<and> cz d < 0
            \<and> cx mn \<le> cx p \<and> cx p \<le> cx mx \<and> cy mn \<le> cy p \<and> cy p \<le> cy mx
            \<and> 0 \<le> (cz mn - cz p) / cz d
         then Some (Interval ((cz mx - cz p) / cz d) ((cz mn - cz p) / cz d))
         else None)"

definition sampleAxisAngle :: "Cartesian3 \<Rightarrow> real \<Rightarrow> Matrix3" where
  \<comment> \<open>The rotation by the angle \<open>t\<close> about the unit axis \<open>k\<close>.\<close>
  "sampleAxisAngle k t =
     (let c = cos t; sn = sin t; d = 1 - c
      in Matrix3
           (Cartesian3 (c + cx k * cx k * d) (cy k * cx k * d + cz k * sn) (cz k * cx k * d - cy k * sn))
           (Cartesian3 (cx k * cy k * d - cz k * sn) (c + cy k * cy k * d) (cz k * cy k * d + cx k * sn))
           (Cartesian3 (cx k * cz k * d + cy k * sn) (cy k * cz k * d - cx k * sn) (c + cz k * cz k * d)))"

definition sampleHost :: Host where
  "sampleHost =
     \<lparr>cameraPosition = Cartesian3 0 0 10,
      cameraDirection = Cartesian3 0 0 (- 1),
      cameraUp = Cartesian3 0 1 0,
      getPickRay = (\<lambda>p. Some (Ray (Cartesian3 (fst p) (snd p) 10) (Cartesian3 0 0 (- 1)))),
      getPixelSize = (\<lambda>c w hgt. 1 / 120),
      clientWidth = 800, clientHeight = 600, canvasWidth = 800, canvasHeight = 600,
      scenePick = (\<lambda>p. None),
      eastNorthUpToFixedFrame = fromTranslation,
      inverse4 = sampleInverse,
      inverse3 = transpose3,
      fromAxisAngle = sampleAxisAngle,
      hprFromRotation = (\<lambda>m. HeadingPitchRoll 0 0 0),
      rayPlane = sampleRayPlane,
      rayAxisAlignedBoundingBox = sampleBoxTest,
      boundingSphereCenter = (\<lambda>ob. Cartesian3 0 0 0),
      isSilhouetteSupported = True\<rparr>"

definition sampleSession :: "TransformMode \<Rightarrow> Gizmo" where
  \<comment> \<open>A gizmo constructed on the object \<open>Model 1\<close> with an \<open>onUpdate\<close> callback, after one
      frame update.\<close>
  "sampleSession md = update sampleHost (newGizmo sampleHost (\<lambda>ob. IDENTITY) (Some (Model 1)) 5 md True)"

definition builtSession :: "TransformMode \<Rightarrow> Gizmo" where
  \<comment> \<open>The sample gizmo as constructed, before the first frame update.\<close>
  "builtSession md = newGizmo sampleHost (\<lambda>ob. IDENTITY) (Some (Model 1)) 5 md True"

text \<open>
  A model that the host has placed at \<open>x = 1.2345\<close> and turned by an angle about the
  vertical axis. For a rotation about the vertical axis, Cesium's decomposition into
  heading, pitch and roll gives the heading as minus the angle of the first column, and
  pitch and roll zero; the host \<open>turnedHost\<close> decomposes in this way.
\<close>

definition fromRotationZ :: "real \<Rightarrow> Matrix3" where
  \<comment> \<open>\<open>Cesium.Matrix3.fromRotationZ\<close>.\<close>
  "fromRotationZ a =
     Matrix3 (Cartesian3 (cos a) (sin a) 0) (Cartesian3 (- sin a) (cos a) 0) (Cartesian3 0 0 1)"

definition verticalHpr :: "Matrix3 \<Rightarrow> HeadingPitchRoll" where
  "verticalHpr m = HeadingPitchRoll (- atan2 (cy (m3c0 m)) (cx (m3c0 m))) 0 0"

definition turnedHost :: Host where
  "turnedHost = sampleHost\<lparr>hprFromRotation := verticalHpr\<rparr>"

definition turnedSession :: "real \<Rightarrow> Gizmo" where
  \<comment> \<open>A gizmo constructed on a model at \<open>x = 1.2345\<close> with a heading of \<open>deg\<close> degrees.\<close>
  "turnedSession deg =
     newGizmo turnedHost
       (\<lambda>ob. multiply (fromTranslation (Cartesian3 1.2345 0 0))
                       (fromRotationTranslation (fromRotationZ (- toRadians deg))))
       (Some (Model 1)) 5 Translate True"

definition obliqueHost :: Host where
  \<comment> \<open>The sample host with the camera moved to \<open>(-3, 4, 12)\<close>.\<close>
  "obliqueHost = sampleHost\<lparr>cameraPosition := Cartesian3 (- 3) 4 12\<rparr>"

definition pickHost :: Host where
  \<comment> \<open>The sample host with a scene in which the pick at \<open>(1, 0)\<close> finds the rim of the Z
      rotation handle.\<close>
  "pickHost = sampleHost\<lparr>scenePick :=
     (\<lambda>p. if p = (1, 0) then Some (GizmoId Z (ModeType Rotate) ''ROT_Z'' 1) else None)\<rparr>"

definition pickSession :: Gizmo where
  \<comment> \<open>The sample rotate session in that scene.\<close>
  "pickSession = update pickHost (newGizmo pickHost (\<lambda>ob. IDENTITY) (Some (Model 1)) 5 Rotate True)"

definition rotateDrag :: Gizmo where
  \<comment> \<open>The session after a pointer-down at \<open>(1, 0)\<close>: a drag on the Z rotation handle.\<close>
  "rotateDrag = inputAction pickHost (LEFT_DOWN (1, 0)) pickSession"

section \<open>Notions used to state the properties\<close>

definition decimalDigits :: "nat \<Rightarrow> real \<Rightarrow> bool" where
  \<comment> \<open>The number is a decimal with at most \<open>d\<close> digits after the point.\<close>
  "decimalDigits d out \<longleftrightarrow> of_int \<lfloor>out * 10 ^ d\<rfloor> = out * 10 ^ d"

definition roundedTo :: "nat \<Rightarrow> real \<Rightarrow> real \<Rightarrow> bool" where
  \<comment> \<open>\<open>out\<close> is \<open>v\<close> rounded to \<open>d\<close> decimal digits: a decimal with \<open>d\<close> digits, at most
      half a unit of the last digit away from \<open>v\<close>.\<close>
  "roundedTo d v out \<longleftrightarrow> decimalDigits d out \<and> \<bar>out - v\<bar> \<le> 1 / (2 * 10 ^ d)"

definition wrapDegrees :: "real \<Rightarrow> real" where
  \<comment> \<open>An angle in degrees, floor-wrapped into \<open>[0, 360)\<close>.\<close>
  "wrapDegrees deg = deg - 360 * of_int \<lfloor>deg / 360\<rfloor>"

definition reportedAngle :: "real \<Rightarrow> real \<Rightarrow> bool" where
  \<comment> \<open>\<open>out\<close> reports the angle of \<open>rad\<close> radians: a decimal with 2 digits in \<open>[0, 360)\<close>
      that is 0 when the wrapped angle is less than 0.01 away from 0 or from 360, and is
      the wrapped angle rounded to 2 decimal digits otherwise.\<close>
  "reportedAngle rad out \<longleftrightarrow>
     (let w = wrapDegrees (toDegreesMath rad)
      in 0 \<le> out \<and> out < 360 \<and> decimalDigits 2 out
         \<and> (if w < 1 / 100 \<or> 35999 / 100 < w then out = 0 else roundedTo 2 w out))"

definition pickedHandle :: "Host \<Rightarrow> Cartesian2 \<Rightarrow> Gizmo \<Rightarrow> GizmoId option" where
  \<comment> \<open>The handle that a pointer-down resolves: the ray cast, else the pick of the host.\<close>
  "pickedHandle h pos s = (case rayCastGizmo h pos s of Some i \<Rightarrow> Some i | None \<Rightarrow> scenePick h pos)"

definition hitDistance :: "Host \<Rightarrow> Gizmo \<Rightarrow> Ray \<Rightarrow> GizmoCollider \<Rightarrow> real option" where
  \<comment> \<open>The entry distance \<open>interval.start\<close> of a collider that the ray hits: the loop body
      reaches the distance comparison with it. \<open>None\<close> for a collider that is skipped.\<close>
  "hitDistance h s ray collider =
     (case axisPrimitives s (primitiveKey collider) of
        None \<Rightarrow> None
      | Some primitive \<Rightarrow>
          if \<not> pshow primitive then None
          else
            (case inverse4 h (modelMatrix primitive) of
               None \<Rightarrow> None
             | Some inverseModelMatrix \<Rightarrow>
                 let localRay = Ray (multiplyByPoint inverseModelMatrix (origin ray))
                                    (multiplyByPointAsVector inverseModelMatrix (direction ray))
                 in case rayAxisAlignedBoundingBox h localRay (localMin collider) (localMax collider) of
                      None \<Rightarrow> None
                    | Some interval \<Rightarrow>
                        if ctype collider = SECTOR \<and> sectorMiss collider localRay interval then None
                        else Some (start interval)))"

definition adjustedDistance :: "GizmoCollider \<Rightarrow> real \<Rightarrow> real" where
  \<comment> \<open>The distance that the loop compares: the entry distance, less 1000 for CENTER.\<close>
  "adjustedDistance collider t = (if axis (cid collider) = CENTER then t - 1000.0 else t)"

section \<open>Which fields each operation leaves alone\<close>

lemma addPrimitive_fields [simp]:
  "object (addPrimitive key p s) = object s"
  "center (addPrimitive key p s) = center s"
  "axisLength (addPrimitive key p s) = axisLength s"
  "width (addPrimitive key p s) = width s"
  "centerRadius (addPrimitive key p s) = centerRadius s"
  "mode (addPrimitive key p s) = mode s"
  "activeScale (addPrimitive key p s) = activeScale s"
  "colliders (addPrimitive key p s) = colliders s"
  "built (addPrimitive key p s) = built s"
  "handler (addPrimitive key p s) = handler s"
  "isDragging (addPrimitive key p s) = isDragging s"
  "dragAxisName (addPrimitive key p s) = dragAxisName s"
  "dragPlane (addPrimitive key p s) = dragPlane s"
  "dragStartPoint (addPrimitive key p s) = dragStartPoint s"
  "dragStartCenter (addPrimitive key p s) = dragStartCenter s"
  "dragVectorStart (addPrimitive key p s) = dragVectorStart s"
  "initialModelMatrix (addPrimitive key p s) = initialModelMatrix s"
  "highlightedId (addPrimitive key p s) = highlightedId s"
  "outlineStage (addPrimitive key p s) = outlineStage s"
  "edgeDetectionStage (addPrimitive key p s) = edgeDetectionStage s"
  "hasOnUpdate (addPrimitive key p s) = hasOnUpdate s"
  "enableRotate (addPrimitive key p s) = enableRotate s"
  "enableTranslate (addPrimitive key p s) = enableTranslate s"
  "objectMatrix (addPrimitive key p s) = objectMatrix s"
  "preUpdateListener (addPrimitive key p s) = preUpdateListener s"
  "primitivesInScene (addPrimitive key p s) = primitivesInScene s"
  "outlineStageInScene (addPrimitive key p s) = outlineStageInScene s"
  "updates (addPrimitive key p s) = updates s"
  by (simp_all add: addPrimitive_def)

lemma addCollider_fields [simp]:
  "object (addCollider key i mn mx ty rad tb rna sa ea s) = object s"
  "center (addCollider key i mn mx ty rad tb rna sa ea s) = center s"
  "axisLength (addCollider key i mn mx ty rad tb rna sa ea s) = axisLength s"
  "width (addCollider key i mn mx ty rad tb rna sa ea s) = width s"
  "centerRadius (addCollider key i mn mx ty rad tb rna sa ea s) = centerRadius s"
  "mode (addCollider key i mn mx ty rad tb rna sa ea s) = mode s"
  "activeScale (addCollider key i mn mx ty rad tb rna sa ea s) = activeScale s"
  "primitives (addCollider key i mn mx ty rad tb rna sa ea s) = primitives s"
  "axisPrimitives (addCollider key i mn mx ty rad tb rna sa ea s) = axisPrimitives s"
  "built (addCollider key i mn mx ty rad tb rna sa ea s) = built s"
  "handler (addCollider key i mn mx ty rad tb rna sa ea s) = handler s"
  "isDragging (addCollider key i mn mx ty rad tb rna sa ea s) = isDragging s"
  "dragAxisName (addCollider key i mn mx ty rad tb rna sa ea s) = dragAxisName s"
  "dragPlane (addCollider key i mn mx ty rad tb rna sa ea s) = dragPlane s"
  "dragStartPoint (addCollider key i mn mx ty rad tb rna sa ea s) = dragStartPoint s"
  "dragStartCenter (addCollider key i mn mx ty rad tb rna sa ea s) = dragStartCenter s"
  "dragVectorStart (addCollider key i mn mx ty rad tb rna sa ea s) = dragVectorStart s"
  "initialModelMatrix (addCollider key i mn mx ty rad tb rna sa ea s) = initialModelMatrix s"
  "highlightedId (addCollider key i mn mx ty rad tb rna sa ea s) = highlightedId s"
  "outlineStage (addCollider key i mn mx ty rad tb rna sa ea s) = outlineStage s"
  "edgeDetectionStage (addCollider key i mn mx ty rad tb rna sa ea s) = edgeDetectionStage s"
  "hasOnUpdate (addCollider key i mn mx ty rad tb rna sa ea s) = hasOnUpdate s"
  "enableRotate (addCollider key i mn mx ty rad tb rna sa ea s) = enableRotate s"
  "enableTranslate (addCollider key i mn mx ty rad tb rna sa ea s) = enableTranslate s"
  "objectMatrix (addCollider key i mn mx ty rad tb rna sa ea s) = objectMatrix s"
  "preUpdateListener (addCollider key i mn mx ty rad tb rna sa ea s) = preUpdateListener s"
  "primitivesInScene (addCollider key i mn mx ty rad tb rna sa ea s) = primitivesInScene s"
  "outlineStageInScene (addCollider key i mn mx ty rad tb rna sa ea s) = outlineStageInScene s"
  "updates (addCollider key i mn mx ty rad tb rna sa ea s) = updates s"
  by (simp_all add: addCollider_def)

lemma addBoxCollider_fields [simp]:
  "object (addBoxCollider key i mn mx s) = object s"
  "center (addBoxCollider key i mn mx s) = center s"
  "axisLength (addBoxCollider key i mn mx s) = axisLength s"
  "width (addBoxCollider key i mn mx s) = width s"
  "centerRadius (addBoxCollider key i mn mx s) = centerRadius s"
  "mode (addBoxCollider key i mn mx s) = mode s"
  "activeScale (addBoxCollider key i mn mx s) = activeScale s"
  "primitives (addBoxCollider key i mn mx s) = primitives s"
  "axisPrimitives (addBoxCollider key i mn mx s) = axisPrimitives s"
  "built (addBoxCollider key i mn mx s) = built s"
  "handler (addBoxCollider key i mn mx s) = handler s"
  "isDragging (addBoxCollider key i mn mx s) = isDragging s"
  "dragAxisName (addBoxCollider key i mn mx s) = dragAxisName s"
  "dragPlane (addBoxCollider key i mn mx s) = dragPlane s"
  "dragStartPoint (addBoxCollider key i mn mx s) = dragStartPoint s"
  "dragStartCenter (addBoxCollider key i mn mx s) = dragStartCenter s"
  "dragVectorStart (addBoxCollider key i mn mx s) = dragVectorStart s"
  "initialModelMatrix (addBoxCollider key i mn mx s) = initialModelMatrix s"
  "highlightedId (addBoxCollider key i mn mx s) = highlightedId s"
  "outlineStage (addBoxCollider key i mn mx s) = outlineStage s"
  "edgeDetectionStage (addBoxCollider key i mn mx s) = edgeDetectionStage s"
  "hasOnUpdate (addBoxCollider key i mn mx s) = hasOnUpdate s"
  "enableRotate (addBoxCollider key i mn mx s) = enableRotate s"
  "enableTranslate (addBoxCollider key i mn mx s) = enableTranslate s"
  "objectMatrix (addBoxCollider key i mn mx s) = objectMatrix s"
  "preUpdateListener (addBoxCollider key i mn mx s) = preUpdateListener s"
  "primitivesInScene (addBoxCollider key i mn mx s) = primitivesInScene s"
  "outlineStageInScene (addBoxCollider key i mn mx s) = outlineStageInScene s"
  "updates (addBoxCollider key i mn mx s) = updates s"
  by (simp_all add: addBoxCollider_def)

lemma createCenterGizmo_fields [simp]:
  "object (createCenterGizmo s) = object s"
  "center (createCenterGizmo s) = center s"
  "axisLength (createCenterGizmo s) = axisLength s"
  "width (createCenterGizmo s) = width s"
  "centerRadius (createCenterGizmo s) = centerRadius s"
  "mode (createCenterGizmo s) = mode s"
  "activeScale (createCenterGizmo s) = activeScale s"
  "built (createCenterGizmo s) = built s"
  "handler (createCenterGizmo s) = handler s"
  "isDragging (createCenterGizmo s) = isDragging s"
  "dragAxisName (createCenterGizmo s) = dragAxisName s"
  "dragPlane (createCenterGizmo s) = dragPlane s"
  "dragStartPoint (createCenterGizmo s) = dragStartPoint s"
  "dragStartCenter (createCenterGizmo s) = dragStartCenter s"
  "dragVectorStart (createCenterGizmo s) = dragVectorStart s"
  "initialModelMatrix (createCenterGizmo s) = initialModelMatrix s"
  "highlightedId (createCenterGizmo s) = highlightedId s"
  "outlineStage (createCenterGizmo s) = outlineStage s"
  "edgeDetectionStage (createCenterGizmo s) = edgeDetectionStage s"
  "hasOnUpdate (createCenterGizmo s) = hasOnUpdate s"
  "enableRotate (createCenterGizmo s) = enableRotate s"
  "enableTranslate (createCenterGizmo s) = enableTranslate s"
  "objectMatrix (createCenterGizmo s) = objectMatrix s"
  "preUpdateListener (createCenterGizmo s) = preUpdateListener s"
  "primitivesInScene (createCenterGizmo s) = primitivesInScene s"
  "outlineStageInScene (createCenterGizmo s) = outlineStageInScene s"
  "updates (createCenterGizmo s) = updates s"
  by (simp_all add: createCenterGizmo_def Let_def)

lemma translationAxis_fields [simp]:
  "object (translationAxis s a) = object s"
  "center (translationAxis s a) = center s"
  "axisLength (translationAxis s a) = axisLength s"
  "width (translationAxis s a) = width s"
  "centerRadius (translationAxis s a) = centerRadius s"
  "mode (translationAxis s a) = mode s"
  "activeScale (translationAxis s a) = activeScale s"
  "built (translationAxis s a) = built s"
  "handler (translationAxis s a) = handler s"
  "isDragging (translationAxis s a) = isDragging s"
  "dragAxisName (translationAxis s a) = dragAxisName s"
  "dragPlane (translationAxis s a) = dragPlane s"
  "dragStartPoint (translationAxis s a) = dragStartPoint s"
  "dragStartCenter (translationAxis s a) = dragStartCenter s"
  "dragVectorStart (translationAxis s a) = dragVectorStart s"
  "initialModelMatrix (translationAxis s a) = initialModelMatrix s"
  "highlightedId (translationAxis s a) = highlightedId s"
  "outlineStage (translationAxis s a) = outlineStage s"
  "edgeDetectionStage (translationAxis s a) = edgeDetectionStage s"
  "hasOnUpdate (translationAxis s a) = hasOnUpdate s"
  "enableRotate (translationAxis s a) = enableRotate s"
  "enableTranslate (translationAxis s a) = enableTranslate s"
  "objectMatrix (translationAxis s a) = objectMatrix s"
  "preUpdateListener (translationAxis s a) = preUpdateListener s"
  "primitivesInScene (translationAxis s a) = primitivesInScene s"
  "outlineStageInScene (translationAxis s a) = outlineStageInScene s"
  "updates (translationAxis s a) = updates s"
  by (simp_all add: translationAxis_def Let_def)

lemma translationPlane_fields [simp]:
  "object (translationPlane s pl) = object s"
  "center (translationPlane s pl) = center s"
  "axisLength (translationPlane s pl) = axisLength s"
  "width (translationPlane s pl) = width s"
  "centerRadius (translationPlane s pl) = centerRadius s"
  "mode (translationPlane s pl) = mode s"
  "activeScale (translationPlane s pl) = activeScale s"
  "built (translationPlane s pl) = built s"
  "handler (translationPlane s pl) = handler s"
  "isDragging (translationPlane s pl) = isDragging s"
  "dragAxisName (translationPlane s pl) = dragAxisName s"
  "dragPlane (translationPlane s pl) = dragPlane s"
  "dragStartPoint (translationPlane s pl) = dragStartPoint s"
  "dragStartCenter (translationPlane s pl) = dragStartCenter s"
  "dragVectorStart (translationPlane s pl) = dragVectorStart s"
  "initialModelMatrix (translationPlane s pl) = initialModelMatrix s"
  "highlightedId (translationPlane s pl) = highlightedId s"
  "outlineStage (translationPlane s pl) = outlineStage s"
  "edgeDetectionStage (translationPlane s pl) = edgeDetectionStage s"
  "hasOnUpdate (translationPlane s pl) = hasOnUpdate s"
  "enableRotate (translationPlane s pl) = enableRotate s"
  "enableTranslate (translationPlane s pl) = enableTranslate s"
  "objectMatrix (translationPlane s pl) = objectMatrix s"
  "preUpdateListener (translationPlane s pl) = preUpdateListener s"
  "primitivesInScene (translationPlane s pl) = primitivesInScene s"
  "outlineStageInScene (translationPlane s pl) = outlineStageInScene s"
  "updates (translationPlane s pl) = updates s"
  by (simp_all add: translationPlane_def Let_def split: prod.splits)

lemma rotationAxis_fields [simp]:
  "object (rotationAxis s a) = object s"
  "center (rotationAxis s a) = center s"
  "axisLength (rotationAxis s a) = axisLength s"
  "width (rotationAxis s a) = width s"
  "centerRadius (rotationAxis s a) = centerRadius s"
  "mode (rotationAxis s a) = mode s"
  "activeScale (rotationAxis s a) = activeScale s"
  "built (rotationAxis s a) = built s"
  "handler (rotationAxis s a) = handler s"
  "isDragging (rotationAxis s a) = isDragging s"
  "dragAxisName (rotationAxis s a) = dragAxisName s"
  "dragPlane (rotationAxis s a) = dragPlane s"
  "dragStartPoint (rotationAxis s a) = dragStartPoint s"
  "dragStartCenter (rotationAxis s a) = dragStartCenter s"
  "dragVectorStart (rotationAxis s a) = dragVectorStart s"
  "initialModelMatrix (rotationAxis s a) = initialModelMatrix s"
  "highlightedId (rotationAxis s a) = highlightedId s"
  "outlineStage (rotationAxis s a) = outlineStage s"
  "edgeDetectionStage (rotationAxis s a) = edgeDetectionStage s"
  "hasOnUpdate (rotationAxis s a) = hasOnUpdate s"
  "enableRotate (rotationAxis s a) = enableRotate s"
  "enableTranslate (rotationAxis s a) = enableTranslate s"
  "objectMatrix (rotationAxis s a) = objectMatrix s"
  "preUpdateListener (rotationAxis s a) = preUpdateListener s"
  "primitivesInScene (rotationAxis s a) = primitivesInScene s"
  "outlineStageInScene (rotationAxis s a) = outlineStageInScene s"
  "updates (rotationAxis s a) = updates s"
  by (simp_all add: rotationAxis_def Let_def)

lemma scaleAxis_fields [simp]:
  "object (scaleAxis s a) = object s"
  "center (scaleAxis s a) = center s"
  "axisLength (scaleAxis s a) = axisLength s"
  "width (scaleAxis s a) = width s"
  "centerRadius (scaleAxis s a) = centerRadius s"
  "mode (scaleAxis s a) = mode s"
  "activeScale (scaleAxis s a) = activeScale s"
  "built (scaleAxis s a) = built s"
  "handler (scaleAxis s a) = handler s"
  "isDragging (scaleAxis s a) = isDragging s"
  "dragAxisName (scaleAxis s a) = dragAxisName s"
  "dragPlane (scaleAxis s a) = dragPlane s"
  "dragStartPoint (scaleAxis s a) = dragStartPoint s"
  "dragStartCenter (scaleAxis s a) = dragStartCenter s"
  "dragVectorStart (scaleAxis s a) = dragVectorStart s"
  "initialModelMatrix (scaleAxis s a) = initialModelMatrix s"
  "highlightedId (scaleAxis s a) = highlightedId s"
  "outlineStage (scaleAxis s a) = outlineStage s"
  "edgeDetectionStage (scaleAxis s a) = edgeDetectionStage s"
  "hasOnUpdate (scaleAxis s a) = hasOnUpdate s"
  "enableRotate (scaleAxis s a) = enableRotate s"
  "enableTranslate (scaleAxis s a) = enableTranslate s"
  "objectMatrix (scaleAxis s a) = objectMatrix s"
  "preUpdateListener (scaleAxis s a) = preUpdateListener s"
  "primitivesInScene (scaleAxis s a) = primitivesInScene s"
  "outlineStageInScene (scaleAxis s a) = outlineStageInScene s"
  "updates (scaleAxis s a) = updates s"
  by (simp_all add: scaleAxis_def Let_def)

lemma createTranslationGizmo_fields [simp]:
  "object (createTranslationGizmo s) = object s"
  "center (createTranslationGizmo s) = center s"
  "axisLength (createTranslationGizmo s) = axisLength s"
  "width (createTranslationGizmo s) = width s"
  "centerRadius (createTranslationGizmo s) = centerRadius s"
  "mode (createTranslationGizmo s) = mode s"
  "activeScale (createTranslationGizmo s) = activeScale s"
  "built (createTranslationGizmo s) = built s"
  "handler (createTranslationGizmo s) = handler s"
  "isDragging (createTranslationGizmo s) = isDragging s"
  "dragAxisName (createTranslationGizmo s) = dragAxisName s"
  "dragPlane (createTranslationGizmo s) = dragPlane s"
  "dragStartPoint (createTranslationGizmo s) = dragStartPoint s"
  "dragStartCenter (createTranslationGizmo s) = dragStartCenter s"
  "dragVectorStart (createTranslationGizmo s) = dragVectorStart s"
  "initialModelMatrix (createTranslationGizmo s) = initialModelMatrix s"
  "highlightedId (createTranslationGizmo s) = highlightedId s"
  "outlineStage (createTranslationGizmo s) = outlineStage s"
  "edgeDetectionStage (createTranslationGizmo s) = edgeDetectionStage s"
  "hasOnUpdate (createTranslationGizmo s) = hasOnUpdate s"
  "enableRotate (createTranslationGizmo s) = enableRotate s"
  "enableTranslate (createTranslationGizmo s) = enableTranslate s"
  "objectMatrix (createTranslationGizmo s) = objectMatrix s"
  "preUpdateListener (createTranslationGizmo s) = preUpdateListener s"
  "primitivesInScene (createTranslationGizmo s) = primitivesInScene s"
  "outlineStageInScene (createTranslationGizmo s) = outlineStageInScene s"
  "updates (createTranslationGizmo s) = updates s"
  by (simp_all add: createTranslationGizmo_def Let_def)

lemma createRotationGizmo_fields [simp]:
  "object (createRotationGizmo s) = object s"
  "center (createRotationGizmo s) = center s"
  "axisLength (createRotationGizmo s) = axisLength s"
  "width (createRotationGizmo s) = width s"
  "centerRadius (createRotationGizmo s) = centerRadius s"
  "mode (createRotationGizmo s) = mode s"
  "activeScale (createRotationGizmo s) = activeScale s"
  "built (createRotationGizmo s) = built s"
  "handler (createRotationGizmo s) = handler s"
  "isDragging (createRotationGizmo s) = isDragging s"
  "dragAxisName (createRotationGizmo s) = dragAxisName s"
  "dragPlane (createRotationGizmo s) = dragPlane s"
  "dragStartPoint (createRotationGizmo s) = dragStartPoint s"
  "dragStartCenter (createRotationGizmo s) = dragStartCenter s"
  "dragVectorStart (createRotationGizmo s) = dragVectorStart s"
  "initialModelMatrix (createRotationGizmo s) = initialModelMatrix s"
  "highlightedId (createRotationGizmo s) = highlightedId s"
  "outlineStage (createRotationGizmo s) = outlineStage s"
  "edgeDetectionStage (createRotationGizmo s) = edgeDetectionStage s"
  "hasOnUpdate (createRotationGizmo s) = hasOnUpdate s"
  "enableRotate (createRotationGizmo s) = enableRotate s"
  "enableTranslate (createRotationGizmo s) = enableTranslate s"
  "objectMatrix (createRotationGizmo s) = objectMatrix s"
  "preUpdateListener (createRotationGizmo s) = preUpdateListener s"
  "primitivesInScene (createRotationGizmo s) = primitivesInScene s"
  "outlineStageInScene (createRotationGizmo s) = outlineStageInScene s"
  "updates (createRotationGizmo s) = updates s"
  by (simp_all add: createRotationGizmo_def)

lemma createScaleGizmo_fields [simp]:
  "object (createScaleGizmo s) = object s"
  "center (createScaleGizmo s) = center s"
  "axisLength (createScaleGizmo s) = axisLength s"
  "width (createScaleGizmo s) = width s"
  "centerRadius (createScaleGizmo s) = centerRadius s"
  "mode (createScaleGizmo s) = mode s"
  "activeScale (createScaleGizmo s) = activeScale s"
  "built (createScaleGizmo s) = built s"
  "handler (createScaleGizmo s) = handler s"
  "isDragging (createScaleGizmo s) = isDragging s"
  "dragAxisName (createScaleGizmo s) = dragAxisName s"
  "dragPlane (createScaleGizmo s) = dragPlane s"
  "dragStartPoint (createScaleGizmo s) = dragStartPoint s"
  "dragStartCenter (createScaleGizmo s) = dragStartCenter s"
  "dragVectorStart (createScaleGizmo s) = dragVectorStart s"
  "initialModelMatrix (createScaleGizmo s) = initialModelMatrix s"
  "highlightedId (createScaleGizmo s) = highlightedId s"
  "outlineStage (createScaleGizmo s) = outlineStage s"
  "edgeDetectionStage (createScaleGizmo s) = edgeDetectionStage s"
  "hasOnUpdate (createScaleGizmo s) = hasOnUpdate s"
  "enableRotate (createScaleGizmo s) = enableRotate s"
  "enableTranslate (createScaleGizmo s) = enableTranslate s"
  "objectMatrix (createScaleGizmo s) = objectMatrix s"
  "preUpdateListener (createScaleGizmo s) = preUpdateListener s"
  "primitivesInScene (createScaleGizmo s) = primitivesInScene s"
  "outlineStageInScene (createScaleGizmo s) = outlineStageInScene s"
  "updates (createScaleGizmo s) = updates s"
  by (simp_all add: createScaleGizmo_def)

lemma createGizmo_fields [simp]:
  "object (createGizmo s) = object s"
  "center (createGizmo s) = center s"
  "axisLength (createGizmo s) = axisLength s"
  "width (createGizmo s) = width s"
  "centerRadius (createGizmo s) = centerRadius s"
  "mode (createGizmo s) = mode s"
  "activeScale (createGizmo s) = activeScale s"
  "handler (createGizmo s) = handler s"
  "isDragging (createGizmo s) = isDragging s"
  "dragAxisName (createGizmo s) = dragAxisName s"
  "dragPlane (createGizmo s) = dragPlane s"
  "dragStartPoint (createGizmo s) = dragStartPoint s"
  "dragStartCenter (createGizmo s) = dragStartCenter s"
  "dragVectorStart (createGizmo s) = dragVectorStart s"
  "initialModelMatrix (createGizmo s) = initialModelMatrix s"
  "highlightedId (createGizmo s) = highlightedId s"
  "outlineStage (createGizmo s) = outlineStage s"
  "edgeDetectionStage (createGizmo s) = edgeDetectionStage s"
  "hasOnUpdate (createGizmo s) = hasOnUpdate s"
  "enableRotate (createGizmo s) = enableRotate s"
  "enableTranslate (createGizmo s) = enableTranslate s"
  "objectMatrix (createGizmo s) = objectMatrix s"
  "preUpdateListener (createGizmo s) = preUpdateListener s"
  "primitivesInScene (createGizmo s) = primitivesInScene s"
  "outlineStageInScene (createGizmo s) = outlineStageInScene s"
  "updates (createGizmo s) = updates s"
  by (simp_all add: createGizmo_def Let_def)

lemma recolor_fields [simp]:
  "object (recolor key i c s) = object s"
  "center (recolor key i c s) = center s"
  "axisLength (recolor key i c s) = axisLength s"
  "width (recolor key i c s) = width s"
  "centerRadius (recolor key i c s) = centerRadius s"
  "mode (recolor key i c s) = mode s"
  "activeScale (recolor key i c s) = activeScale s"
  "primitives (recolor key i c s) = primitives s"
  "colliders (recolor key i c s) = colliders s"
  "built (recolor key i c s) = built s"
  "handler (recolor key i c s) = handler s"
  "isDragging (recolor key i c s) = isDragging s"
  "dragAxisName (recolor key i c s) = dragAxisName s"
  "dragPlane (recolor key i c s) = dragPlane s"
  "dragStartPoint (recolor key i c s) = dragStartPoint s"
  "dragStartCenter (recolor key i c s) = dragStartCenter s"
  "dragVectorStart (recolor key i c s) = dragVectorStart s"
  "initialModelMatrix (recolor key i c s) = initialModelMatrix s"
  "highlightedId (recolor key i c s) = highlightedId s"
  "outlineStage (recolor key i c s) = outlineStage s"
  "edgeDetectionStage (recolor key i c s) = edgeDetectionStage s"
  "hasOnUpdate (recolor key i c s) = hasOnUpdate s"
  "enableRotate (recolor key i c s) = enableRotate s"
  "enableTranslate (recolor key i c s) = enableTranslate s"
  "objectMatrix (recolor key i c s) = objectMatrix s"
  "preUpdateListener (recolor key i c s) = preUpdateListener s"
  "primitivesInScene (recolor key i c s) = primitivesInScene s"
  "outlineStageInScene (recolor key i c s) = outlineStageInScene s"
  "updates (recolor key i c s) = updates s"
  by (simp_all add: recolor_def split: option.splits)

lemma restoreHighlight_fields [simp]:
  "object (restoreHighlight s) = object s"
  "center (restoreHighlight s) = center s"
  "axisLength (restoreHighlight s) = axisLength s"
  "width (restoreHighlight s) = width s"
  "centerRadius (restoreHighlight s) = centerRadius s"
  "mode (restoreHighlight s) = mode s"
  "activeScale (restoreHighlight s) = activeScale s"
  "primitives (restoreHighlight s) = primitives s"
  "colliders (restoreHighlight s) = colliders s"
  "built (restoreHighlight s) = built s"
  "handler (restoreHighlight s) = handler s"
  "isDragging (restoreHighlight s) = isDragging s"
  "dragAxisName (restoreHighlight s) = dragAxisName s"
  "dragPlane (restoreHighlight s) = dragPlane s"
  "dragStartPoint (restoreHighlight s) = dragStartPoint s"
  "dragStartCenter (restoreHighlight s) = dragStartCenter s"
  "dragVectorStart (restoreHighlight s) = dragVectorStart s"
  "initialModelMatrix (restoreHighlight s) = initialModelMatrix s"
  "outlineStage (restoreHighlight s) = outlineStage s"
  "edgeDetectionStage (restoreHighlight s) = edgeDetectionStage s"
  "hasOnUpdate (restoreHighlight s) = hasOnUpdate s"
  "enableRotate (restoreHighlight s) = enableRotate s"
  "enableTranslate (restoreHighlight s) = enableTranslate s"
  "objectMatrix (restoreHighlight s) = objectMatrix s"
  "preUpdateListener (restoreHighlight s) = preUpdateListener s"
  "primitivesInScene (restoreHighlight s) = primitivesInScene s"
  "outlineStageInScene (restoreHighlight s) = outlineStageInScene s"
  "updates (restoreHighlight s) = updates s"
  by (simp_all add: restoreHighlight_def Let_def split: option.splits)

lemma highlightPrimitive_fields [simp]:
  "object (highlightPrimitive i s) = object s"
  "center (highlightPrimitive i s) = center s"
  "axisLength (highlightPrimitive i s) = axisLength s"
  "width (highlightPrimitive i s) = width s"
  "centerRadius (highlightPrimitive i s) = centerRadius s"
  "mode (highlightPrimitive i s) = mode s"
  "activeScale (highlightPrimitive i s) = activeScale s"
  "primitives (highlightPrimitive i s) = primitives s"
  "colliders (highlightPrimitive i s) = colliders s"
  "built (highlightPrimitive i s) = built s"
  "handler (highlightPrimitive i s) = handler s"
  "isDragging (highlightPrimitive i s) = isDragging s"
  "dragAxisName (highlightPrimitive i s) = dragAxisName s"
  "dragPlane (highlightPrimitive i s) = dragPlane s"
  "dragStartPoint (highlightPrimitive i s) = dragStartPoint s"
  "dragStartCenter (highlightPrimitive i s) = dragStartCenter s"
  "dragVectorStart (highlightPrimitive i s) = dragVectorStart s"
  "initialModelMatrix (highlightPrimitive i s) = initialModelMatrix s"
  "outlineStage (highlightPrimitive i s) = outlineStage s"
  "edgeDetectionStage (highlightPrimitive i s) = edgeDetectionStage s"
  "hasOnUpdate (highlightPrimitive i s) = hasOnUpdate s"
  "enableRotate (highlightPrimitive i s) = enableRotate s"
  "enableTranslate (highlightPrimitive i s) = enableTranslate s"
  "objectMatrix (highlightPrimitive i s) = objectMatrix s"
  "preUpdateListener (highlightPrimitive i s) = preUpdateListener s"
  "primitivesInScene (highlightPrimitive i s) = primitivesInScene s"
  "outlineStageInScene (highlightPrimitive i s) = outlineStageInScene s"
  "updates (highlightPrimitive i s) = updates s"
  by (simp_all add: highlightPrimitive_def Let_def)

lemma updateOutlineSelection_fields [simp]:
  "object (updateOutlineSelection s) = object s"
  "center (updateOutlineSelection s) = center s"
  "axisLength (updateOutlineSelection s) = axisLength s"
  "width (updateOutlineSelection s) = width s"
  "centerRadius (updateOutlineSelection s) = centerRadius s"
  "mode (updateOutlineSelection s) = mode s"
  "activeScale (updateOutlineSelection s) = activeScale s"
  "primitives (updateOutlineSelection s) = primitives s"
  "axisPrimitives (updateOutlineSelection s) = axisPrimitives s"
  "colliders (updateOutlineSelection s) = colliders s"
  "built (updateOutlineSelection s) = built s"
  "handler (updateOutlineSelection s) = handler s"
  "isDragging (updateOutlineSelection s) = isDragging s"
  "dragAxisName (updateOutlineSelection s) = dragAxisName s"
  "dragPlane (updateOutlineSelection s) = dragPlane s"
  "dragStartPoint (updateOutlineSelection s) = dragStartPoint s"
  "dragStartCenter (updateOutlineSelection s) = dragStartCenter s"
  "dragVectorStart (updateOutlineSelection s) = dragVectorStart s"
  "initialModelMatrix (updateOutlineSelection s) = initialModelMatrix s"
  "highlightedId (updateOutlineSelection s) = highlightedId s"
  "outlineStage (updateOutlineSelection s) = outlineStage s"
  "hasOnUpdate (updateOutlineSelection s) = hasOnUpdate s"
  "enableRotate (updateOutlineSelection s) = enableRotate s"
  "enableTranslate (updateOutlineSelection s) = enableTranslate s"
  "objectMatrix (updateOutlineSelection s) = objectMatrix s"
  "preUpdateListener (updateOutlineSelection s) = preUpdateListener s"
  "primitivesInScene (updateOutlineSelection s) = primitivesInScene s"
  "outlineStageInScene (updateOutlineSelection s) = outlineStageInScene s"
  "updates (updateOutlineSelection s) = updates s"
  by (simp_all add: updateOutlineSelection_def split: option.splits)

lemma resetState_fields [simp]:
  "object (resetState s) = object s"
  "center (resetState s) = center s"
  "axisLength (resetState s) = axisLength s"
  "width (resetState s) = width s"
  "centerRadius (resetState s) = centerRadius s"
  "mode (resetState s) = mode s"
  "primitives (resetState s) = primitives s"
  "colliders (resetState s) = colliders s"
  "built (resetState s) = built s"
  "handler (resetState s) = handler s"
  "dragStartPoint (resetState s) = dragStartPoint s"
  "dragStartCenter (resetState s) = dragStartCenter s"
  "dragVectorStart (resetState s) = dragVectorStart s"
  "initialModelMatrix (resetState s) = initialModelMatrix s"
  "outlineStage (resetState s) = outlineStage s"
  "edgeDetectionStage (resetState s) = edgeDetectionStage s"
  "hasOnUpdate (resetState s) = hasOnUpdate s"
  "objectMatrix (resetState s) = objectMatrix s"
  "preUpdateListener (resetState s) = preUpdateListener s"
  "primitivesInScene (resetState s) = primitivesInScene s"
  "outlineStageInScene (resetState s) = outlineStageInScene s"
  "updates (resetState s) = updates s"
  by (simp_all add: resetState_def Let_def)

lemma parseCenter_fields [simp]:
  "object (parseCenter h s) = object s"
  "axisLength (parseCenter h s) = axisLength s"
  "width (parseCenter h s) = width s"
  "centerRadius (parseCenter h s) = centerRadius s"
  "mode (parseCenter h s) = mode s"
  "activeScale (parseCenter h s) = activeScale s"
  "primitives (parseCenter h s) = primitives s"
  "axisPrimitives (parseCenter h s) = axisPrimitives s"
  "colliders (parseCenter h s) = colliders s"
  "built (parseCenter h s) = built s"
  "handler (parseCenter h s) = handler s"
  "isDragging (parseCenter h s) = isDragging s"
  "dragAxisName (parseCenter h s) = dragAxisName s"
  "dragPlane (parseCenter h s) = dragPlane s"
  "dragStartPoint (parseCenter h s) = dragStartPoint s"
  "dragStartCenter (parseCenter h s) = dragStartCenter s"
  "dragVectorStart (parseCenter h s) = dragVectorStart s"
  "initialModelMatrix (parseCenter h s) = initialModelMatrix s"
  "highlightedId (parseCenter h s) = highlightedId s"
  "outlineStage (parseCenter h s) = outlineStage s"
  "edgeDetectionStage (parseCenter h s) = edgeDetectionStage s"
  "hasOnUpdate (parseCenter h s) = hasOnUpdate s"
  "enableRotate (parseCenter h s) = enableRotate s"
  "enableTranslate (parseCenter h s) = enableTranslate s"
  "objectMatrix (parseCenter h s) = objectMatrix s"
  "preUpdateListener (parseCenter h s) = preUpdateListener s"
  "primitivesInScene (parseCenter h s) = primitivesInScene s"
  "outlineStageInScene (parseCenter h s) = outlineStageInScene s"
  "updates (parseCenter h s) = updates s"
  by (simp_all add: parseCenter_def split: option.splits)

lemma fireUpdate_fields [simp]:
  "object (fireUpdate h s) = object s"
  "center (fireUpdate h s) = center s"
  "axisLength (fireUpdate h s) = axisLength s"
  "width (fireUpdate h s) = width s"
  "centerRadius (fireUpdate h s) = centerRadius s"
  "mode (fireUpdate h s) = mode s"
  "activeScale (fireUpdate h s) = activeScale s"
  "primitives (fireUpdate h s) = primitives s"
  "axisPrimitives (fireUpdate h s) = axisPrimitives s"
  "colliders (fireUpdate h s) = colliders s"
  "built (fireUpdate h s) = built s"
  "handler (fireUpdate h s) = handler s"
  "isDragging (fireUpdate h s) = isDragging s"
  "dragAxisName (fireUpdate h s) = dragAxisName s"
  "dragPlane (fireUpdate h s) = dragPlane s"
  "dragStartPoint (fireUpdate h s) = dragStartPoint s"
  "dragStartCenter (fireUpdate h s) = dragStartCenter s"
  "dragVectorStart (fireUpdate h s) = dragVectorStart s"
  "initialModelMatrix (fireUpdate h s) = initialModelMatrix s"
  "highlightedId (fireUpdate h s) = highlightedId s"
  "outlineStage (fireUpdate h s) = outlineStage s"
  "edgeDetectionStage (fireUpdate h s) = edgeDetectionStage s"
  "hasOnUpdate (fireUpdate h s) = hasOnUpdate s"
  "enableRotate (fireUpdate h s) = enableRotate s"
  "enableTranslate (fireUpdate h s) = enableTranslate s"
  "objectMatrix (fireUpdate h s) = objectMatrix s"
  "preUpdateListener (fireUpdate h s) = preUpdateListener s"
  "primitivesInScene (fireUpdate h s) = primitivesInScene s"
  "outlineStageInScene (fireUpdate h s) = outlineStageInScene s"
  by (simp_all add: fireUpdate_def)

lemma setModelMatrix_fields [simp]:
  "object (setModelMatrix key m s) = object s"
  "center (setModelMatrix key m s) = center s"
  "axisLength (setModelMatrix key m s) = axisLength s"
  "width (setModelMatrix key m s) = width s"
  "centerRadius (setModelMatrix key m s) = centerRadius s"
  "mode (setModelMatrix key m s) = mode s"
  "activeScale (setModelMatrix key m s) = activeScale s"
  "primitives (setModelMatrix key m s) = primitives s"
  "colliders (setModelMatrix key m s) = colliders s"
  "built (setModelMatrix key m s) = built s"
  "handler (setModelMatrix key m s) = handler s"
  "isDragging (setModelMatrix key m s) = isDragging s"
  "dragAxisName (setModelMatrix key m s) = dragAxisName s"
  "dragPlane (setModelMatrix key m s) = dragPlane s"
  "dragStartPoint (setModelMatrix key m s) = dragStartPoint s"
  "dragStartCenter (setModelMatrix key m s) = dragStartCenter s"
  "dragVectorStart (setModelMatrix key m s) = dragVectorStart s"
  "initialModelMatrix (setModelMatrix key m s) = initialModelMatrix s"
  "highlightedId (setModelMatrix key m s) = highlightedId s"
  "outlineStage (setModelMatrix key m s) = outlineStage s"
  "edgeDetectionStage (setModelMatrix key m s) = edgeDetectionStage s"
  "hasOnUpdate (setModelMatrix key m s) = hasOnUpdate s"
  "enableRotate (setModelMatrix key m s) = enableRotate s"
  "enableTranslate (setModelMatrix key m s) = enableTranslate s"
  "objectMatrix (setModelMatrix key m s) = objectMatrix s"
  "preUpdateListener (setModelMatrix key m s) = preUpdateListener s"
  "primitivesInScene (setModelMatrix key m s) = primitivesInScene s"
  "outlineStageInScene (setModelMatrix key m s) = outlineStageInScene s"
  "updates (setModelMatrix key m s) = updates s"
  by (simp_all add: setModelMatrix_def split: option.splits)

lemma updateAxis_fields [simp]:
  "object (updateAxis h b e d s a) = object s"
  "center (updateAxis h b e d s a) = center s"
  "axisLength (updateAxis h b e d s a) = axisLength s"
  "width (updateAxis h b e d s a) = width s"
  "centerRadius (updateAxis h b e d s a) = centerRadius s"
  "mode (updateAxis h b e d s a) = mode s"
  "activeScale (updateAxis h b e d s a) = activeScale s"
  "primitives (updateAxis h b e d s a) = primitives s"
  "colliders (updateAxis h b e d s a) = colliders s"
  "built (updateAxis h b e d s a) = built s"
  "handler (updateAxis h b e d s a) = handler s"
  "isDragging (updateAxis h b e d s a) = isDragging s"
  "dragAxisName (updateAxis h b e d s a) = dragAxisName s"
  "dragPlane (updateAxis h b e d s a) = dragPlane s"
  "dragStartPoint (updateAxis h b e d s a) = dragStartPoint s"
  "dragStartCenter (updateAxis h b e d s a) = dragStartCenter s"
  "dragVectorStart (updateAxis h b e d s a) = dragVectorStart s"
  "initialModelMatrix (updateAxis h b e d s a) = initialModelMatrix s"
  "highlightedId (updateAxis h b e d s a) = highlightedId s"
  "outlineStage (updateAxis h b e d s a) = outlineStage s"
  "edgeDetectionStage (updateAxis h b e d s a) = edgeDetectionStage s"
  "hasOnUpdate (updateAxis h b e d s a) = hasOnUpdate s"
  "enableRotate (updateAxis h b e d s a) = enableRotate s"
  "enableTranslate (updateAxis h b e d s a) = enableTranslate s"
  "objectMatrix (updateAxis h b e d s a) = objectMatrix s"
  "preUpdateListener (updateAxis h b e d s a) = preUpdateListener s"
  "primitivesInScene (updateAxis h b e d s a) = primitivesInScene s"
  "outlineStageInScene (updateAxis h b e d s a) = outlineStageInScene s"
  "updates (updateAxis h b e d s a) = updates s"
  by (simp_all add: updateAxis_def Let_def split: option.splits)

lemma update_fields [simp]:
  "object (update h s) = object s"
  "center (update h s) = center s"
  "axisLength (update h s) = axisLength s"
  "width (update h s) = width s"
  "centerRadius (update h s) = centerRadius s"
  "mode (update h s) = mode s"
  "activeScale (update h s) = activeScale s"
  "primitives (update h s) = primitives s"
  "colliders (update h s) = colliders s"
  "built (update h s) = built s"
  "handler (update h s) = handler s"
  "isDragging (update h s) = isDragging s"
  "dragAxisName (update h s) = dragAxisName s"
  "dragPlane (update h s) = dragPlane s"
  "dragStartPoint (update h s) = dragStartPoint s"
  "dragStartCenter (update h s) = dragStartCenter s"
  "dragVectorStart (update h s) = dragVectorStart s"
  "initialModelMatrix (update h s) = initialModelMatrix s"
  "highlightedId (update h s) = highlightedId s"
  "outlineStage (update h s) = outlineStage s"
  "edgeDetectionStage (update h s) = edgeDetectionStage s"
  "hasOnUpdate (update h s) = hasOnUpdate s"
  "enableRotate (update h s) = enableRotate s"
  "enableTranslate (update h s) = enableTranslate s"
  "objectMatrix (update h s) = objectMatrix s"
  "preUpdateListener (update h s) = preUpdateListener s"
  "primitivesInScene (update h s) = primitivesInScene s"
  "outlineStageInScene (update h s) = outlineStageInScene s"
  "updates (update h s) = updates s"
  by (simp_all add: update_def Let_def split: option.splits)

lemma setObjectMatrix_fields [simp]:
  "object (setObjectMatrix m s) = object s"
  "center (setObjectMatrix m s) = center s"
  "axisLength (setObjectMatrix m s) = axisLength s"
  "width (setObjectMatrix m s) = width s"
  "centerRadius (setObjectMatrix m s) = centerRadius s"
  "mode (setObjectMatrix m s) = mode s"
  "activeScale (setObjectMatrix m s) = activeScale s"
  "primitives (setObjectMatrix m s) = primitives s"
  "axisPrimitives (setObjectMatrix m s) = axisPrimitives s"
  "colliders (setObjectMatrix m s) = colliders s"
  "built (setObjectMatrix m s) = built s"
  "handler (setObjectMatrix m s) = handler s"
  "isDragging (setObjectMatrix m s) = isDragging s"
  "dragAxisName (setObjectMatrix m s) = dragAxisName s"
  "dragPlane (setObjectMatrix m s) = dragPlane s"
  "dragStartPoint (setObjectMatrix m s) = dragStartPoint s"
  "dragStartCenter (setObjectMatrix m s) = dragStartCenter s"
  "dragVectorStart (setObjectMatrix m s) = dragVectorStart s"
  "initialModelMatrix (setObjectMatrix m s) = initialModelMatrix s"
  "highlightedId (setObjectMatrix m s) = highlightedId s"
  "outlineStage (setObjectMatrix m s) = outlineStage s"
  "edgeDetectionStage (setObjectMatrix m s) = edgeDetectionStage s"
  "hasOnUpdate (setObjectMatrix m s) = hasOnUpdate s"
  "enableRotate (setObjectMatrix m s) = enableRotate s"
  "enableTranslate (setObjectMatrix m s) = enableTranslate s"
  "preUpdateListener (setObjectMatrix m s) = preUpdateListener s"
  "primitivesInScene (setObjectMatrix m s) = primitivesInScene s"
  "outlineStageInScene (setObjectMatrix m s) = outlineStageInScene s"
  "updates (setObjectMatrix m s) = updates s"
  by (simp_all add: setObjectMatrix_def split: option.splits)

lemma applyTransform_fields [simp]:
  "object (applyTransform t s) = object s"
  "center (applyTransform t s) = center s"
  "axisLength (applyTransform t s) = axisLength s"
  "width (applyTransform t s) = width s"
  "centerRadius (applyTransform t s) = centerRadius s"
  "mode (applyTransform t s) = mode s"
  "activeScale (applyTransform t s) = activeScale s"
  "primitives (applyTransform t s) = primitives s"
  "axisPrimitives (applyTransform t s) = axisPrimitives s"
  "colliders (applyTransform t s) = colliders s"
  "built (applyTransform t s) = built s"
  "handler (applyTransform t s) = handler s"
  "isDragging (applyTransform t s) = isDragging s"
  "dragAxisName (applyTransform t s) = dragAxisName s"
  "dragPlane (applyTransform t s) = dragPlane s"
  "dragStartPoint (applyTransform t s) = dragStartPoint s"
  "dragStartCenter (applyTransform t s) = dragStartCenter s"
  "dragVectorStart (applyTransform t s) = dragVectorStart s"
  "initialModelMatrix (applyTransform t s) = initialModelMatrix s"
  "highlightedId (applyTransform t s) = highlightedId s"
  "outlineStage (applyTransform t s) = outlineStage s"
  "edgeDetectionStage (applyTransform t s) = edgeDetectionStage s"
  "hasOnUpdate (applyTransform t s) = hasOnUpdate s"
  "enableRotate (applyTransform t s) = enableRotate s"
  "enableTranslate (applyTransform t s) = enableTranslate s"
  "preUpdateListener (applyTransform t s) = preUpdateListener s"
  "primitivesInScene (applyTransform t s) = primitivesInScene s"
  "outlineStageInScene (applyTransform t s) = outlineStageInScene s"
  "updates (applyTransform t s) = updates s"
  by (simp_all add: applyTransform_def Let_def split: option.splits)

lemma set_mode_fields [simp]:
  "object (set_mode val s) = object s"
  "center (set_mode val s) = center s"
  "axisLength (set_mode val s) = axisLength s"
  "width (set_mode val s) = width s"
  "centerRadius (set_mode val s) = centerRadius s"
  "activeScale (set_mode val s) = activeScale s"
  "handler (set_mode val s) = handler s"
  "isDragging (set_mode val s) = isDragging s"
  "dragAxisName (set_mode val s) = dragAxisName s"
  "dragPlane (set_mode val s) = dragPlane s"
  "dragStartPoint (set_mode val s) = dragStartPoint s"
  "dragStartCenter (set_mode val s) = dragStartCenter s"
  "dragVectorStart (set_mode val s) = dragVectorStart s"
  "initialModelMatrix (set_mode val s) = initialModelMatrix s"
  "highlightedId (set_mode val s) = highlightedId s"
  "outlineStage (set_mode val s) = outlineStage s"
  "edgeDetectionStage (set_mode val s) = edgeDetectionStage s"
  "hasOnUpdate (set_mode val s) = hasOnUpdate s"
  "enableRotate (set_mode val s) = enableRotate s"
  "enableTranslate (set_mode val s) = enableTranslate s"
  "objectMatrix (set_mode val s) = objectMatrix s"
  "preUpdateListener (set_mode val s) = preUpdateListener s"
  "primitivesInScene (set_mode val s) = primitivesInScene s"
  "outlineStageInScene (set_mode val s) = outlineStageInScene s"
  "updates (set_mode val s) = updates s"
  by (simp_all add: set_mode_def)

lemma destroy_fields [simp]:
  "object (destroy s) = object s"
  "center (destroy s) = center s"
  "axisLength (destroy s) = axisLength s"
  "width (destroy s) = width s"
  "centerRadius (destroy s) = centerRadius s"
  "mode (destroy s) = mode s"
  "activeScale (destroy s) = activeScale s"
  "primitives (destroy s) = primitives s"
  "axisPrimitives (destroy s) = axisPrimitives s"
  "colliders (destroy s) = colliders s"
  "built (destroy s) = built s"
  "isDragging (destroy s) = isDragging s"
  "dragAxisName (destroy s) = dragAxisName s"
  "dragPlane (destroy s) = dragPlane s"
  "dragStartPoint (destroy s) = dragStartPoint s"
  "dragStartCenter (destroy s) = dragStartCenter s"
  "dragVectorStart (destroy s) = dragVectorStart s"
  "initialModelMatrix (destroy s) = initialModelMatrix s"
  "highlightedId (destroy s) = highlightedId s"
  "outlineStage (destroy s) = outlineStage s"
  "edgeDetectionStage (destroy s) = edgeDetectionStage s"
  "hasOnUpdate (destroy s) = hasOnUpdate s"
  "enableRotate (destroy s) = enableRotate s"
  "enableTranslate (destroy s) = enableTranslate s"
  "objectMatrix (destroy s) = objectMatrix s"
  "updates (destroy s) = updates s"
  by (simp_all add: destroy_def Let_def)


section \<open>What the operations write\<close>

lemma addPrimitive_values [simp]:
  "primitives (addPrimitive key p s) = primitives s @ [key]"
  "axisPrimitives (addPrimitive key p s) = (axisPrimitives s)(key \<mapsto> p)"
  by (simp_all add: addPrimitive_def)

lemma addCollider_values [simp]:
  "colliders (addCollider key i mn mx ty rad tb rna sa ea s) = colliders s @
        [\<lparr>cid = i, ctype = ty, localMin = mn, localMax = mx, primitiveKey = key,
          radius = rad, tube = tb, ringNormalAxis = rna, startAngle = sa, endAngle = ea\<rparr>]"
  "primitives (addCollider key i mn mx ty rad tb rna sa ea s) = primitives s"
  "axisPrimitives (addCollider key i mn mx ty rad tb rna sa ea s) = axisPrimitives s"
  by (simp_all add: addCollider_def)

lemma resetState_values [simp]:
  "isDragging (resetState s) = False"
  "dragAxisName (resetState s) = []"
  "dragPlane (resetState s) = None"
  "activeScale (resetState s) = Cartesian3 1 1 1"
  "highlightedId (resetState s) = None"
  "enableRotate (resetState s) = True"
  "enableTranslate (resetState s) = True"
  by (simp_all add: resetState_def Let_def)

lemma createGizmo_built [simp]: "built (createGizmo s) = built s + 1"
  by (simp add: createGizmo_def Let_def)

lemma updateOutlineSelection_value [simp]:
  "edgeDetectionStage (updateOutlineSelection s) =
     (case edgeDetectionStage s of
        None \<Rightarrow> None
      | Some old \<Rightarrow> Some (case object s of Some ob \<Rightarrow> [ob] | None \<Rightarrow> []))"
  by (simp add: updateOutlineSelection_def split: option.splits)

lemma parseCenter_value [simp]:
  "center (parseCenter h s) = map_option (boundingSphereCenter h) (object s)"
  by (simp add: parseCenter_def split: option.splits)

lemma fireUpdate_value [simp]:
  "updates (fireUpdate h s) = (if hasOnUpdate s then updates s @ [getTransformState h s] else updates s)"
  by (simp add: fireUpdate_def)

lemma getTransformState_cong:
  "object t = object s \<Longrightarrow> center t = center s \<Longrightarrow> objectMatrix t = objectMatrix s \<Longrightarrow>
   getTransformState h t = getTransformState h s"
  by (simp add: getTransformState_def split: option.splits)

lemma getTransformState_fireUpdate [simp]:
  "getTransformState h (fireUpdate h2 s) = getTransformState h s"
  by (rule getTransformState_cong) simp_all

lemma setModelMatrix_lookup [simp]:
  "axisPrimitives (setModelMatrix key m s) k =
     (if k = key then map_option (\<lambda>p. p\<lparr>modelMatrix := m\<rparr>) (axisPrimitives s k) else axisPrimitives s k)"
  by (simp add: setModelMatrix_def split: option.splits)

section \<open>The handles and colliders of each mode\<close>

lemmas vec_defs = add3_def subtract_def negate_def multiplyByScalar_def dot_def cross_def magnitude_def
  normalize_def xyz_def withW_def scale4_def add4_def multiplyByVector_def multiply_def
  multiplyByPoint_def multiplyByPointAsVector_def IDENTITY_def fromTranslation_def fromScale_def
  fromRotationTranslation_def getColumn_def getTranslation_def getScale_def getMatrix3_def
  multiplyByVector3_def multiply3_def transpose3_def fromScale3_def getPoint_def fromPointNormal_def

lemmas registry_defs = createGizmo_def createTranslationGizmo_def createRotationGizmo_def
  createScaleGizmo_def createCenterGizmo_def translationAxis_def translationPlane_def rotationAxis_def
  scaleAxis_def addBoxCollider_def axisBox_def axisLetter_def

lemmas fresh_defs = newGizmo_def bindObject_def initOutlineStage_def initControlEvents_def

lemma createGizmo_prims_Scale:
  "mode s = Scale \<Longrightarrow> axisPrimitives (createGizmo s) =
     [''X_line'' \<mapsto> newPrimitive (GizmoId X (ModeType Scale) ''SCALE_X'' (built s + 1)) (colorOf X),
      ''X_box'' \<mapsto> newPrimitive (GizmoId X (ModeType Scale) ''SCALE_X'' (built s + 1)) (colorOf X),
      ''Y_line'' \<mapsto> newPrimitive (GizmoId Y (ModeType Scale) ''SCALE_Y'' (built s + 1)) (colorOf Y),
      ''Y_box'' \<mapsto> newPrimitive (GizmoId Y (ModeType Scale) ''SCALE_Y'' (built s + 1)) (colorOf Y),
      ''Z_line'' \<mapsto> newPrimitive (GizmoId Z (ModeType Scale) ''SCALE_Z'' (built s + 1)) (colorOf Z),
      ''Z_box'' \<mapsto> newPrimitive (GizmoId Z (ModeType Scale) ''SCALE_Z'' (built s + 1)) (colorOf Z),
      ''CENTER'' \<mapsto> newPrimitive (GizmoId CENTER (ModeType Scale) ''CENTER'' (built s + 1)) WHITE]"
  by (simp add: registry_defs Let_def)

lemma createGizmo_prims_Translate:
  "mode s = Translate \<Longrightarrow> axisPrimitives (createGizmo s) =
     [''X_line'' \<mapsto> newPrimitive (GizmoId X (ModeType Translate) ''TRANS_X'' (built s + 1)) (colorOf X),
      ''X_arrow'' \<mapsto> newPrimitive (GizmoId X (ModeType Translate) ''TRANS_X'' (built s + 1)) (colorOf X),
      ''Y_line'' \<mapsto> newPrimitive (GizmoId Y (ModeType Translate) ''TRANS_Y'' (built s + 1)) (colorOf Y),
      ''Y_arrow'' \<mapsto> newPrimitive (GizmoId Y (ModeType Translate) ''TRANS_Y'' (built s + 1)) (colorOf Y),
      ''Z_line'' \<mapsto> newPrimitive (GizmoId Z (ModeType Translate) ''TRANS_Z'' (built s + 1)) (colorOf Z),
      ''Z_arrow'' \<mapsto> newPrimitive (GizmoId Z (ModeType Translate) ''TRANS_Z'' (built s + 1)) (colorOf Z),
      ''PLANE_XY'' \<mapsto> newPrimitive (GizmoId XY (ModeType Translate) ''PLANE_XY'' (built s + 1)) (withAlpha (colorOf Z) 0.5),
      ''PLANE_YZ'' \<mapsto> newPrimitive (GizmoId YZ (ModeType Translate) ''PLANE_YZ'' (built s + 1)) (withAlpha (colorOf X) 0.5),
      ''PLANE_ZX'' \<mapsto> newPrimitive (GizmoId ZX (ModeType Translate) ''PLANE_ZX'' (built s + 1)) (withAlpha (colorOf Y) 0.5),
      ''CENTER'' \<mapsto> newPrimitive (GizmoId CENTER CenterType ''CENTER'' (built s + 1)) WHITE]"
  by (simp add: registry_defs Let_def)

lemma createGizmo_prims_Rotate:
  "mode s = Rotate \<Longrightarrow> axisPrimitives (createGizmo s) =
     [''X_fan'' \<mapsto> newPrimitive (GizmoId X (ModeType Rotate) ''ROT_X'' (built s + 1)) (withAlpha (colorOf X) 0.2),
      ''X_rim'' \<mapsto> newPrimitive (GizmoId X (ModeType Rotate) ''ROT_X'' (built s + 1)) (colorOf X),
      ''Y_fan'' \<mapsto> newPrimitive (GizmoId Y (ModeType Rotate) ''ROT_Y'' (built s + 1)) (withAlpha (colorOf Y) 0.2),
      ''Y_rim'' \<mapsto> newPrimitive (GizmoId Y (ModeType Rotate) ''ROT_Y'' (built s + 1)) (colorOf Y),
      ''Z_fan'' \<mapsto> newPrimitive (GizmoId Z (ModeType Rotate) ''ROT_Z'' (built s + 1)) (withAlpha (colorOf Z) 0.2),
      ''Z_rim'' \<mapsto> newPrimitive (GizmoId Z (ModeType Rotate) ''ROT_Z'' (built s + 1)) (colorOf Z),
      ''CENTER'' \<mapsto> newPrimitive (GizmoId CENTER CenterType ''CENTER'' (built s + 1)) WHITE]"
  by (simp add: registry_defs Let_def)

lemma createGizmo_colliders_Scale:
  "mode s = Scale \<Longrightarrow> colliders (createGizmo s) =
     [\<lparr>cid = GizmoId X (ModeType Scale) ''SCALE_X'' (built s + 1), ctype = BOX,
        localMin = Cartesian3 0 (- 0.1) (- 0.1), localMax = Cartesian3 1.1 0.1 0.1,
        primitiveKey = ''X_line'', radius = None, tube = None,
        ringNormalAxis = None, startAngle = None, endAngle = None\<rparr>,
      \<lparr>cid = GizmoId Y (ModeType Scale) ''SCALE_Y'' (built s + 1), ctype = BOX,
        localMin = Cartesian3 (- 0.1) 0 (- 0.1), localMax = Cartesian3 0.1 1.1 0.1,
        primitiveKey = ''Y_line'', radius = None, tube = None,
        ringNormalAxis = None, startAngle = None, endAngle = None\<rparr>,
      \<lparr>cid = GizmoId Z (ModeType Scale) ''SCALE_Z'' (built s + 1), ctype = BOX,
        localMin = Cartesian3 (- 0.1) (- 0.1) 0, localMax = Cartesian3 0.1 0.1 1.1,
        primitiveKey = ''Z_line'', radius = None, tube = None,
        ringNormalAxis = None, startAngle = None, endAngle = None\<rparr>,
      \<lparr>cid = GizmoId CENTER (ModeType Scale) ''CENTER'' (built s + 1), ctype = BOX,
        localMin = Cartesian3 (- centerRadius s) (- centerRadius s) (- centerRadius s),
        localMax = Cartesian3 (centerRadius s) (centerRadius s) (centerRadius s),
        primitiveKey = ''CENTER'', radius = None, tube = None,
        ringNormalAxis = None, startAngle = None, endAngle = None\<rparr>]"
  by (simp add: registry_defs Let_def)

lemma createGizmo_colliders_Translate:
  "mode s = Translate \<Longrightarrow> colliders (createGizmo s) =
     [\<lparr>cid = GizmoId X (ModeType Translate) ''TRANS_X'' (built s + 1), ctype = BOX,
        localMin = Cartesian3 0 (- 0.1) (- 0.1), localMax = Cartesian3 1.15 0.1 0.1,
        primitiveKey = ''X_line'', radius = None, tube = None,
        ringNormalAxis = None, startAngle = None, endAngle = None\<rparr>,
      \<lparr>cid = GizmoId Y (ModeType Translate) ''TRANS_Y'' (built s + 1), ctype = BOX,
        localMin = Cartesian3 (- 0.1) 0 (- 0.1), localMax = Cartesian3 0.1 1.15 0.1,
        primitiveKey = ''Y_line'', radius = None, tube = None,
        ringNormalAxis = None, startAngle = None, endAngle = None\<rparr>,
      \<lparr>cid = GizmoId Z (ModeType Translate) ''TRANS_Z'' (built s + 1), ctype = BOX,
        localMin = Cartesian3 (- 0.1) (- 0.1) 0, localMax = Cartesian3 0.1 0.1 1.15,
        primitiveKey = ''Z_line'', radius = None, tube = None,
        ringNormalAxis = None, startAngle = None, endAngle = None\<rparr>,
      \<lparr>cid = GizmoId XY (ModeType Translate) ''PLANE_XY'' (built s + 1), ctype = BOX,
        localMin = Cartesian3 0.15 0.15 (- 0.01), localMax = Cartesian3 0.45 0.45 0.01,
        primitiveKey = ''PLANE_XY'', radius = None, tube = None,
        ringNormalAxis = None, startAngle = None, endAngle = None\<rparr>,
      \<lparr>cid = GizmoId YZ (ModeType Translate) ''PLANE_YZ'' (built s + 1), ctype = BOX,
        localMin = Cartesian3 (- 0.01) 0.15 0.15, localMax = Cartesian3 0.01 0.45 0.45,
        primitiveKey = ''PLANE_YZ'', radius = None, tube = None,
        ringNormalAxis = None, startAngle = None, endAngle = None\<rparr>,
      \<lparr>cid = GizmoId ZX (ModeType Translate) ''PLANE_ZX'' (built s + 1), ctype = BOX,
        localMin = Cartesian3 0.15 (- 0.01) 0.15, localMax = Cartesian3 0.45 0.01 0.45,
        primitiveKey = ''PLANE_ZX'', radius = None, tube = None,
        ringNormalAxis = None, startAngle = None, endAngle = None\<rparr>,
      \<lparr>cid = GizmoId CENTER CenterType ''CENTER'' (built s + 1), ctype = BOX,
        localMin = Cartesian3 (- centerRadius s) (- centerRadius s) (- centerRadius s),
        localMax = Cartesian3 (centerRadius s) (centerRadius s) (centerRadius s),
        primitiveKey = ''CENTER'', radius = None, tube = None,
        ringNormalAxis = None, startAngle = None, endAngle = None\<rparr>]"
  by (simp add: registry_defs Let_def)

lemma createGizmo_colliders_Rotate:
  "mode s = Rotate \<Longrightarrow> colliders (createGizmo s) =
     [\<lparr>cid = GizmoId X (ModeType Rotate) ''ROT_X'' (built s + 1), ctype = SECTOR,
        localMin = Cartesian3 (- 0.05) 0 0, localMax = Cartesian3 0.05 1.05 1.05,
        primitiveKey = ''X'', radius = Some 1, tube = Some 0.05,
        ringNormalAxis = Some 0, startAngle = Some 0, endAngle = Some (pi / 2)\<rparr>,
      \<lparr>cid = GizmoId Y (ModeType Rotate) ''ROT_Y'' (built s + 1), ctype = SECTOR,
        localMin = Cartesian3 0 (- 0.05) 0, localMax = Cartesian3 1.05 0.05 1.05,
        primitiveKey = ''Y'', radius = Some 1, tube = Some 0.05,
        ringNormalAxis = Some 1, startAngle = Some 0, endAngle = Some (pi / 2)\<rparr>,
      \<lparr>cid = GizmoId Z (ModeType Rotate) ''ROT_Z'' (built s + 1), ctype = SECTOR,
        localMin = Cartesian3 0 0 (- 0.05), localMax = Cartesian3 1.05 1.05 0.05,
        primitiveKey = ''Z'', radius = Some 1, tube = Some 0.05,
        ringNormalAxis = Some 2, startAngle = Some 0, endAngle = Some (pi / 2)\<rparr>,
      \<lparr>cid = GizmoId CENTER CenterType ''CENTER'' (built s + 1), ctype = BOX,
        localMin = Cartesian3 (- centerRadius s) (- centerRadius s) (- centerRadius s),
        localMax = Cartesian3 (centerRadius s) (centerRadius s) (centerRadius s),
        primitiveKey = ''CENTER'', radius = None, tube = None,
        ringNormalAxis = None, startAngle = None, endAngle = None\<rparr>]"
  by (simp add: registry_defs Let_def)

section \<open>The loop of the ray cast\<close>

lemma castStep_hit:
  "castStep h s ray acc c =
     (case hitDistance h s ray c of
        None \<Rightarrow> acc
      | Some t \<Rightarrow> if adjustedDistance c t < fst acc then (adjustedDistance c t, Some (cid c)) else acc)"
  by (simp add: castStep_def hitDistance_def adjustedDistance_def Let_def split: option.splits)

lemma castLoop_le_start: "fst (foldl (castStep h s ray) acc cs) \<le> fst acc"
proof (induction cs arbitrary: acc)
  case Nil
  show ?case by simp
next
  case (Cons c cs)
  have "fst (castStep h s ray acc c) \<le> fst acc"
    by (simp add: castStep_hit split: option.splits)
  with Cons.IH [of "castStep h s ray acc c"] show ?case by simp
qed

lemma castLoop_le_hits:
  "c \<in> set cs \<Longrightarrow> hitDistance h s ray c = Some t \<Longrightarrow>
   fst (foldl (castStep h s ray) acc cs) \<le> adjustedDistance c t"
proof (induction cs arbitrary: acc)
  case Nil
  then show ?case by simp
next
  case (Cons d cs)
  show ?case
  proof (cases "c = d")
    case True
    have "fst (castStep h s ray acc d) \<le> adjustedDistance c t"
      using Cons.prems(2) True by (simp add: castStep_hit)
    with castLoop_le_start [of h s ray "castStep h s ray acc d" cs] show ?thesis by simp
  next
    case False
    with Cons.prems have "c \<in> set cs" by simp
    from Cons.IH [OF this Cons.prems(2)] show ?thesis by simp
  qed
qed

lemma castLoop_result:
  "foldl (castStep h s ray) acc cs = acc \<or>
   (\<exists>c \<in> set cs. \<exists>t. hitDistance h s ray c = Some t \<and> adjustedDistance c t < fst acc
      \<and> foldl (castStep h s ray) acc cs = (adjustedDistance c t, Some (cid c)))"
proof (induction cs arbitrary: acc)
  case Nil
  show ?case by simp
next
  case (Cons d cs)
  let ?a = "castStep h s ray acc d"
  have step: "?a = acc \<or> (\<exists>t. hitDistance h s ray d = Some t \<and> adjustedDistance d t < fst acc
      \<and> ?a = (adjustedDistance d t, Some (cid d)))"
    by (simp add: castStep_hit split: option.splits)
  have le: "fst ?a \<le> fst acc"
    by (simp add: castStep_hit split: option.splits)
  from Cons.IH [of ?a] show ?case
  proof
    assume "foldl (castStep h s ray) ?a cs = ?a"
    with step show ?thesis by auto
  next
    assume "\<exists>c \<in> set cs. \<exists>t. hitDistance h s ray c = Some t \<and> adjustedDistance c t < fst ?a
      \<and> foldl (castStep h s ray) ?a cs = (adjustedDistance c t, Some (cid c))"
    then obtain c t where "c \<in> set cs" "hitDistance h s ray c = Some t" "adjustedDistance c t < fst ?a"
      "foldl (castStep h s ray) ?a cs = (adjustedDistance c t, Some (cid c))" by blast
    with le show ?thesis by (intro disjI2 bexI [of _ c] exI [of _ t]) auto
  qed
qed

section \<open>The sample host and the sample sessions, evaluated\<close>

lemma sampleHost_simps [simp]:
  "cameraPosition sampleHost = Cartesian3 0 0 10"
  "cameraDirection sampleHost = Cartesian3 0 0 (- 1)"
  "cameraUp sampleHost = Cartesian3 0 1 0"
  "getPickRay sampleHost p = Some (Ray (Cartesian3 (fst p) (snd p) 10) (Cartesian3 0 0 (- 1)))"
  "getPixelSize sampleHost c w hgt = 1 / 120"
  "scenePick sampleHost p = None"
  "eastNorthUpToFixedFrame sampleHost = fromTranslation"
  "inverse4 sampleHost = sampleInverse"
  "inverse3 sampleHost = transpose3"
  "fromAxisAngle sampleHost = sampleAxisAngle"
  "hprFromRotation sampleHost m3 = HeadingPitchRoll 0 0 0"
  "rayPlane sampleHost = sampleRayPlane"
  "rayAxisAlignedBoundingBox sampleHost = sampleBoxTest"
  "boundingSphereCenter sampleHost ob = Cartesian3 0 0 0"
  "isSilhouetteSupported sampleHost = True"
  by (simp_all add: sampleHost_def)

lemma fresh_fields:
  "object (newGizmo h mats (Some b) w md cb) = Some b"
  "center (newGizmo h mats (Some b) w md cb) = Some (boundingSphereCenter h b)"
  "objectMatrix (newGizmo h mats (Some b) w md cb) = mats"
  "mode (newGizmo h mats (Some b) w md cb) = md"
  "isDragging (newGizmo h mats (Some b) w md cb) = False"
  "dragPlane (newGizmo h mats (Some b) w md cb) = None"
  "highlightedId (newGizmo h mats (Some b) w md cb) = None"
  "enableRotate (newGizmo h mats (Some b) w md cb) = True"
  "enableTranslate (newGizmo h mats (Some b) w md cb) = True"
  "handler (newGizmo h mats (Some b) w md cb) = True"
  "activeScale (newGizmo h mats (Some b) w md cb) = Cartesian3 1 1 1"
  "axisLength (newGizmo h mats (Some b) w md cb) = 120"
  "centerRadius (newGizmo h mats (Some b) w md cb) = 0.05"
  "built (newGizmo h mats (Some b) w md cb) = 1"
  "hasOnUpdate (newGizmo h mats (Some b) w md cb) = cb"
  "edgeDetectionStage (newGizmo h mats (Some b) w md cb) = (if isSilhouetteSupported h then Some [b] else None)"
  by (simp_all add: fresh_defs Let_def)

lemma sample_fields [simp]:
  "object (sampleSession md) = Some (Model 1)"
  "center (sampleSession md) = Some (Cartesian3 0 0 0)"
  "objectMatrix (sampleSession md) = (\<lambda>ob. IDENTITY)"
  "mode (sampleSession md) = md"
  "isDragging (sampleSession md) = False"
  "dragPlane (sampleSession md) = None"
  "highlightedId (sampleSession md) = None"
  "enableRotate (sampleSession md) = True"
  "enableTranslate (sampleSession md) = True"
  "handler (sampleSession md) = True"
  "activeScale (sampleSession md) = Cartesian3 1 1 1"
  "axisLength (sampleSession md) = 120"
  "built (sampleSession md) = 1"
  "hasOnUpdate (sampleSession md) = True"
  "edgeDetectionStage (sampleSession md) = Some [Model 1]"
  by (simp_all add: sampleSession_def fresh_fields)

lemma sampleInverse_IDENTITY [simp]: "sampleInverse IDENTITY = Some IDENTITY"
  by (simp add: sampleInverse_def vec_defs)

lemma IDENTITY_point [simp]:
  "multiplyByPoint IDENTITY p = p" "multiplyByPointAsVector IDENTITY p = p"
  by (cases p; simp add: vec_defs)+

lemma sampleInverse_origin [simp]: "sampleInverse (fromTranslation (Cartesian3 0 0 0)) = Some IDENTITY"
  by (simp add: sampleInverse_def vec_defs)

lemma sample_placement [simp]:
  "multiply (fromTranslation (Cartesian3 0 0 0)) (fromScale (Cartesian3 1 1 1)) = IDENTITY"
  by (simp add: vec_defs)

lemma sample_colliders_Scale:
  "colliders (sampleSession Scale) =
     [\<lparr>cid = GizmoId X (ModeType Scale) ''SCALE_X'' 1, ctype = BOX,
        localMin = Cartesian3 0 (- 0.1) (- 0.1), localMax = Cartesian3 1.1 0.1 0.1,
        primitiveKey = ''X_line'', radius = None, tube = None,
        ringNormalAxis = None, startAngle = None, endAngle = None\<rparr>,
      \<lparr>cid = GizmoId Y (ModeType Scale) ''SCALE_Y'' 1, ctype = BOX,
        localMin = Cartesian3 (- 0.1) 0 (- 0.1), localMax = Cartesian3 0.1 1.1 0.1,
        primitiveKey = ''Y_line'', radius = None, tube = None,
        ringNormalAxis = None, startAngle = None, endAngle = None\<rparr>,
      \<lparr>cid = GizmoId Z (ModeType Scale) ''SCALE_Z'' 1, ctype = BOX,
        localMin = Cartesian3 (- 0.1) (- 0.1) 0, localMax = Cartesian3 0.1 0.1 1.1,
        primitiveKey = ''Z_line'', radius = None, tube = None,
        ringNormalAxis = None, startAngle = None, endAngle = None\<rparr>,
      \<lparr>cid = GizmoId CENTER (ModeType Scale) ''CENTER'' 1, ctype = BOX,
        localMin = Cartesian3 (- 0.05) (- 0.05) (- 0.05),
        localMax = Cartesian3 0.05 0.05 0.05,
        primitiveKey = ''CENTER'', radius = None, tube = None,
        ringNormalAxis = None, startAngle = None, endAngle = None\<rparr>]"
  by (simp add: sampleSession_def fresh_defs Let_def createGizmo_colliders_Scale)

lemma sample_prims_Scale:
  "axisPrimitives (sampleSession Scale) ''X_line'' =
     Some \<lparr>instanceId = GizmoId X (ModeType Scale) ''SCALE_X'' 1, pshow = True,
            modelMatrix = IDENTITY, pcolor = Color ''#EA3323'' 1\<rparr>"
  "axisPrimitives (sampleSession Scale) ''Y_line'' =
     Some \<lparr>instanceId = GizmoId Y (ModeType Scale) ''SCALE_Y'' 1, pshow = True,
            modelMatrix = IDENTITY, pcolor = Color ''#4CE600'' 1\<rparr>"
  "axisPrimitives (sampleSession Scale) ''Z_line'' =
     Some \<lparr>instanceId = GizmoId Z (ModeType Scale) ''SCALE_Z'' 1, pshow = True,
            modelMatrix = IDENTITY, pcolor = Color ''#0036FF'' 1\<rparr>"
  "axisPrimitives (sampleSession Scale) ''CENTER'' =
     Some \<lparr>instanceId = GizmoId CENTER (ModeType Scale) ''CENTER'' 1, pshow = True,
            modelMatrix = IDENTITY, pcolor = WHITE\<rparr>"
  by (simp_all add: sampleSession_def update_def fresh_fields fresh_defs createGizmo_prims_Scale
      Let_def updateAxis_def axisLetter_def newPrimitive_def colorOf_def colors_def)


lemma sample_hits_Scale:
  "hitDistance sampleHost (sampleSession Scale) (Ray (Cartesian3 0 0 10) (Cartesian3 0 0 (- 1)))
     (colliders (sampleSession Scale) ! 0) = Some 9.9"
  "hitDistance sampleHost (sampleSession Scale) (Ray (Cartesian3 0 0 10) (Cartesian3 0 0 (- 1)))
     (colliders (sampleSession Scale) ! Suc 0) = Some 9.9"
  "hitDistance sampleHost (sampleSession Scale) (Ray (Cartesian3 0 0 10) (Cartesian3 0 0 (- 1)))
     (colliders (sampleSession Scale) ! 2) = Some 8.9"
  "hitDistance sampleHost (sampleSession Scale) (Ray (Cartesian3 0 0 10) (Cartesian3 0 0 (- 1)))
     (colliders (sampleSession Scale) ! 3) = Some 9.95"
     apply (simp_all add: sample_colliders_Scale)
     apply (simp_all add: hitDistance_def sample_prims_Scale)
     apply (simp_all add: sampleBoxTest_def)
  done


lemma sample_ids_Scale:
  "cid (colliders (sampleSession Scale) ! 0) = GizmoId X (ModeType Scale) ''SCALE_X'' 1"
  "cid (colliders (sampleSession Scale) ! Suc 0) = GizmoId Y (ModeType Scale) ''SCALE_Y'' 1"
  "cid (colliders (sampleSession Scale) ! 2) = GizmoId Z (ModeType Scale) ''SCALE_Z'' 1"
  "cid (colliders (sampleSession Scale) ! 3) = GizmoId CENTER (ModeType Scale) ''CENTER'' 1"
  by (simp_all add: sample_colliders_Scale)

lemma MAX_VALUE_large: "10000 < MAX_VALUE"
proof -
  have a: "(1::real) \<le> 2 ^ 53 - 1" by simp
  have b: "(10000::real) < 2 ^ 971"
  proof -
    have "(10000::real) < 2 ^ 14" by simp
    also have "(2::real) ^ 14 \<le> 2 ^ 971" by (rule power_increasing) simp_all
    finally show ?thesis .
  qed
  have "(10000::real) < 1 * 2 ^ 971" using b by simp
  also have "\<dots> \<le> (2 ^ 53 - 1) * 2 ^ 971"
    using a by (intro mult_right_mono) simp_all
  finally show ?thesis unfolding MAX_VALUE_def .
qed

lemma sample_cast_Scale:
  "rayCastGizmo sampleHost (0, 0) (sampleSession Scale) = Some (GizmoId CENTER (ModeType Scale) ''CENTER'' 1)"
proof -
  let ?S = "sampleSession Scale"
  let ?ray = "Ray (Cartesian3 0 0 10) (Cartesian3 0 0 (- 1))"
  have c: "colliders ?S = [colliders ?S ! 0, colliders ?S ! Suc 0, colliders ?S ! 2, colliders ?S ! 3]"
    by (simp add: sample_colliders_Scale)
  have ne: "colliders ?S \<noteq> []" by (simp add: sample_colliders_Scale)
  have s1: "castStep sampleHost ?S ?ray (MAX_VALUE, None) (colliders ?S ! 0)
              = (9.9, Some (GizmoId X (ModeType Scale) ''SCALE_X'' 1))"
    using MAX_VALUE_large by (simp add: castStep_hit sample_hits_Scale sample_ids_Scale adjustedDistance_def)
  have s2: "castStep sampleHost ?S ?ray (9.9, Some (GizmoId X (ModeType Scale) ''SCALE_X'' 1)) (colliders ?S ! Suc 0)
              = (9.9, Some (GizmoId X (ModeType Scale) ''SCALE_X'' 1))"
    by (simp add: castStep_hit sample_hits_Scale sample_ids_Scale adjustedDistance_def)
  have s3: "castStep sampleHost ?S ?ray (9.9, Some (GizmoId X (ModeType Scale) ''SCALE_X'' 1)) (colliders ?S ! 2)
              = (8.9, Some (GizmoId Z (ModeType Scale) ''SCALE_Z'' 1))"
    by (simp add: castStep_hit sample_hits_Scale sample_ids_Scale adjustedDistance_def)
  have s4: "castStep sampleHost ?S ?ray (8.9, Some (GizmoId Z (ModeType Scale) ''SCALE_Z'' 1)) (colliders ?S ! 3)
              = (9.95 - 1000, Some (GizmoId CENTER (ModeType Scale) ''CENTER'' 1))"
    by (simp add: castStep_hit sample_hits_Scale sample_ids_Scale adjustedDistance_def)
  have "foldl (castStep sampleHost ?S ?ray) (MAX_VALUE, None) (colliders ?S)
          = (9.95 - 1000, Some (GizmoId CENTER (ModeType Scale) ''CENTER'' 1))"
    by (subst c) (simp only: foldl.simps s1 s2 s3 s4)
  then show ?thesis
    by (simp add: rayCastGizmo_def ne)
qed

lemma updateAxis_dom:
  "axisPrimitives (updateAxis h b e d s a) k = None \<longleftrightarrow> axisPrimitives s k = None"
  by (simp add: updateAxis_def Let_def split: option.splits)

lemma update_dom:
  "axisPrimitives (update h s) k = None \<longleftrightarrow> axisPrimitives s k = None"
  by (simp add: update_def Let_def updateAxis_dom split: option.splits)

lemma sample_colliders_Rotate:
  "colliders (sampleSession Rotate) =
     [\<lparr>cid = GizmoId X (ModeType Rotate) ''ROT_X'' 1, ctype = SECTOR,
        localMin = Cartesian3 (- 0.05) 0 0, localMax = Cartesian3 0.05 1.05 1.05,
        primitiveKey = ''X'', radius = Some 1, tube = Some 0.05,
        ringNormalAxis = Some 0, startAngle = Some 0, endAngle = Some (pi / 2)\<rparr>,
      \<lparr>cid = GizmoId Y (ModeType Rotate) ''ROT_Y'' 1, ctype = SECTOR,
        localMin = Cartesian3 0 (- 0.05) 0, localMax = Cartesian3 1.05 0.05 1.05,
        primitiveKey = ''Y'', radius = Some 1, tube = Some 0.05,
        ringNormalAxis = Some 1, startAngle = Some 0, endAngle = Some (pi / 2)\<rparr>,
      \<lparr>cid = GizmoId Z (ModeType Rotate) ''ROT_Z'' 1, ctype = SECTOR,
        localMin = Cartesian3 0 0 (- 0.05), localMax = Cartesian3 1.05 1.05 0.05,
        primitiveKey = ''Z'', radius = Some 1, tube = Some 0.05,
        ringNormalAxis = Some 2, startAngle = Some 0, endAngle = Some (pi / 2)\<rparr>,
      \<lparr>cid = GizmoId CENTER CenterType ''CENTER'' 1, ctype = BOX,
        localMin = Cartesian3 (- 0.05) (- 0.05) (- 0.05),
        localMax = Cartesian3 0.05 0.05 0.05,
        primitiveKey = ''CENTER'', radius = None, tube = None,
        ringNormalAxis = None, startAngle = None, endAngle = None\<rparr>]"
  by (simp add: sampleSession_def fresh_defs Let_def createGizmo_colliders_Rotate)

lemma sample_prims_Rotate:
  "axisPrimitives (sampleSession Rotate) ''X'' = None"
  "axisPrimitives (sampleSession Rotate) ''Y'' = None"
  "axisPrimitives (sampleSession Rotate) ''Z'' = None"
  by (simp_all add: sampleSession_def update_dom fresh_defs Let_def createGizmo_prims_Rotate)

lemma sample_center_Rotate:
  "axisPrimitives (sampleSession Rotate) ''CENTER'' =
     Some \<lparr>instanceId = GizmoId CENTER CenterType ''CENTER'' 1, pshow = True,
            modelMatrix = IDENTITY, pcolor = WHITE\<rparr>"
  by (simp add: sampleSession_def update_def fresh_fields fresh_defs createGizmo_prims_Rotate
      Let_def updateAxis_def axisLetter_def newPrimitive_def)


lemma rayCast_four:
  "colliders s = [a, b, c, d] \<Longrightarrow> getPickRay h pos = Some ray \<Longrightarrow>
   rayCastGizmo h pos s =
     snd (castStep h s ray (castStep h s ray (castStep h s ray (castStep h s ray (MAX_VALUE, None) a) b) c) d)"
  by (simp add: rayCastGizmo_def)

lemma sample_four:
  "colliders (sampleSession Scale) =
     [colliders (sampleSession Scale) ! 0, colliders (sampleSession Scale) ! Suc 0,
      colliders (sampleSession Scale) ! 2, colliders (sampleSession Scale) ! 3]"
  "colliders (sampleSession Rotate) =
     [colliders (sampleSession Rotate) ! 0, colliders (sampleSession Rotate) ! Suc 0,
      colliders (sampleSession Rotate) ! 2, colliders (sampleSession Rotate) ! 3]"
  by (simp_all add: sample_colliders_Scale sample_colliders_Rotate)

lemma sample_ids_Rotate:
  "cid (colliders (sampleSession Rotate) ! 0) = GizmoId X (ModeType Rotate) ''ROT_X'' 1"
  "cid (colliders (sampleSession Rotate) ! Suc 0) = GizmoId Y (ModeType Rotate) ''ROT_Y'' 1"
  "cid (colliders (sampleSession Rotate) ! 2) = GizmoId Z (ModeType Rotate) ''ROT_Z'' 1"
  "cid (colliders (sampleSession Rotate) ! 3) = GizmoId CENTER CenterType ''CENTER'' 1"
  by (simp_all add: sample_colliders_Rotate)

lemma sample_hits_Scale_X:
  "hitDistance sampleHost (sampleSession Scale) (Ray (Cartesian3 (1 / 2) 0 10) (Cartesian3 0 0 (- 1)))
     (colliders (sampleSession Scale) ! 0) = Some 9.9"
  "hitDistance sampleHost (sampleSession Scale) (Ray (Cartesian3 (1 / 2) 0 10) (Cartesian3 0 0 (- 1)))
     (colliders (sampleSession Scale) ! Suc 0) = None"
  "hitDistance sampleHost (sampleSession Scale) (Ray (Cartesian3 (1 / 2) 0 10) (Cartesian3 0 0 (- 1)))
     (colliders (sampleSession Scale) ! 2) = None"
  "hitDistance sampleHost (sampleSession Scale) (Ray (Cartesian3 (1 / 2) 0 10) (Cartesian3 0 0 (- 1)))
     (colliders (sampleSession Scale) ! 3) = None"
     apply (simp_all add: sample_colliders_Scale)
     apply (simp_all add: hitDistance_def sample_prims_Scale)
     apply (simp_all add: sampleBoxTest_def)
  done

lemma sample_hits_Scale_far:
  "hitDistance sampleHost (sampleSession Scale) (Ray (Cartesian3 5 5 10) (Cartesian3 0 0 (- 1)))
     (colliders (sampleSession Scale) ! 0) = None"
  "hitDistance sampleHost (sampleSession Scale) (Ray (Cartesian3 5 5 10) (Cartesian3 0 0 (- 1)))
     (colliders (sampleSession Scale) ! Suc 0) = None"
  "hitDistance sampleHost (sampleSession Scale) (Ray (Cartesian3 5 5 10) (Cartesian3 0 0 (- 1)))
     (colliders (sampleSession Scale) ! 2) = None"
  "hitDistance sampleHost (sampleSession Scale) (Ray (Cartesian3 5 5 10) (Cartesian3 0 0 (- 1)))
     (colliders (sampleSession Scale) ! 3) = None"
     apply (simp_all add: sample_colliders_Scale)
     apply (simp_all add: hitDistance_def sample_prims_Scale)
     apply (simp_all add: sampleBoxTest_def)
  done

lemma sample_hits_Rotate_origin:
  "hitDistance sampleHost (sampleSession Rotate) (Ray (Cartesian3 0 0 10) (Cartesian3 0 0 (- 1)))
     (colliders (sampleSession Rotate) ! 0) = None"
  "hitDistance sampleHost (sampleSession Rotate) (Ray (Cartesian3 0 0 10) (Cartesian3 0 0 (- 1)))
     (colliders (sampleSession Rotate) ! Suc 0) = None"
  "hitDistance sampleHost (sampleSession Rotate) (Ray (Cartesian3 0 0 10) (Cartesian3 0 0 (- 1)))
     (colliders (sampleSession Rotate) ! 2) = None"
  "hitDistance sampleHost (sampleSession Rotate) (Ray (Cartesian3 0 0 10) (Cartesian3 0 0 (- 1)))
     (colliders (sampleSession Rotate) ! 3) = Some 9.95"
     apply (simp_all add: sample_colliders_Rotate)
     apply (simp_all add: hitDistance_def sample_prims_Rotate sample_center_Rotate)
     apply (simp_all add: sampleBoxTest_def)
  done

lemma sample_hits_Rotate_wedge:
  "hitDistance sampleHost (sampleSession Rotate) (Ray (Cartesian3 (7 / 10) (7 / 10) 10) (Cartesian3 0 0 (- 1)))
     (colliders (sampleSession Rotate) ! 0) = None"
  "hitDistance sampleHost (sampleSession Rotate) (Ray (Cartesian3 (7 / 10) (7 / 10) 10) (Cartesian3 0 0 (- 1)))
     (colliders (sampleSession Rotate) ! Suc 0) = None"
  "hitDistance sampleHost (sampleSession Rotate) (Ray (Cartesian3 (7 / 10) (7 / 10) 10) (Cartesian3 0 0 (- 1)))
     (colliders (sampleSession Rotate) ! 2) = None"
  "hitDistance sampleHost (sampleSession Rotate) (Ray (Cartesian3 (7 / 10) (7 / 10) 10) (Cartesian3 0 0 (- 1)))
     (colliders (sampleSession Rotate) ! 3) = None"
     apply (simp_all add: sample_colliders_Rotate)
     apply (simp_all add: hitDistance_def sample_prims_Rotate sample_center_Rotate)
     apply (simp_all add: sampleBoxTest_def)
  done

lemma sample_cast_Scale_X:
  "rayCastGizmo sampleHost (1 / 2, 0) (sampleSession Scale) = Some (GizmoId X (ModeType Scale) ''SCALE_X'' 1)"
  using MAX_VALUE_large
  by (subst rayCast_four [OF sample_four(1), of sampleHost _ "Ray (Cartesian3 (1 / 2) 0 10) (Cartesian3 0 0 (- 1))"])
     (simp_all add: castStep_hit sample_hits_Scale_X sample_ids_Scale adjustedDistance_def)

lemma sample_cast_Scale_far:
  "rayCastGizmo sampleHost (5, 5) (sampleSession Scale) = None"
  by (subst rayCast_four [OF sample_four(1), of sampleHost _ "Ray (Cartesian3 5 5 10) (Cartesian3 0 0 (- 1))"])
     (simp_all add: castStep_hit sample_hits_Scale_far)

lemma sample_cast_Rotate_origin:
  "rayCastGizmo sampleHost (0, 0) (sampleSession Rotate) = Some (GizmoId CENTER CenterType ''CENTER'' 1)"
  using MAX_VALUE_large
  by (subst rayCast_four [OF sample_four(2), of sampleHost _ "Ray (Cartesian3 0 0 10) (Cartesian3 0 0 (- 1))"])
     (simp_all add: castStep_hit sample_hits_Rotate_origin sample_ids_Rotate adjustedDistance_def)

lemma sample_cast_Rotate_wedge:
  "rayCastGizmo sampleHost (7 / 10, 7 / 10) (sampleSession Rotate) = None"
  by (subst rayCast_four [OF sample_four(2), of sampleHost _ "Ray (Cartesian3 (7 / 10) (7 / 10) 10) (Cartesian3 0 0 (- 1))"])
     (simp_all add: castStep_hit sample_hits_Rotate_wedge)

section \<open>The handle chosen by the ray cast\<close>

text \<open>
  C1, as the code has it. With a pick ray, \<open>rayCastGizmo\<close> returns no handle exactly when
  no collider is hit at an adjusted distance below \<open>MAX_VALUE\<close>; a returned handle belongs
  to a hit collider whose adjusted distance is the least among all hit colliders. The
  adjusted distance of an axis or plane handle is its entry distance \<open>t\<close>, that of the
  CENTER handle is \<open>t - 1000\<close>: the constant is subtracted, so CENTER is preferred. When
  the CENTER collider is hit at \<open>t\<close> and every other hit collider has an entry distance
  above \<open>t - 1000\<close>, the returned handle is CENTER.
\<close>

theorem rayCastGizmo_nearest_adjusted:
  assumes ray: "getPickRay h pos = Some ray"
  shows "(rayCastGizmo h pos s = None \<longleftrightarrow>
            (\<forall>c \<in> set (colliders s). \<forall>t. hitDistance h s ray c = Some t \<longrightarrow> MAX_VALUE \<le> adjustedDistance c t))
         \<and> (\<forall>i. rayCastGizmo h pos s = Some i \<longrightarrow>
              (\<exists>c \<in> set (colliders s). \<exists>t. hitDistance h s ray c = Some t \<and> cid c = i
                 \<and> (\<forall>c' \<in> set (colliders s). \<forall>t'. hitDistance h s ray c' = Some t' \<longrightarrow>
                       adjustedDistance c t \<le> adjustedDistance c' t')))
         \<and> (\<forall>c \<in> set (colliders s). \<forall>t.
               axis (cid c) = CENTER \<and> hitDistance h s ray c = Some t \<and> t - 1000 < MAX_VALUE
               \<and> (\<forall>c' \<in> set (colliders s). \<forall>t'. axis (cid c') \<noteq> CENTER \<and> hitDistance h s ray c' = Some t'
                      \<longrightarrow> t - 1000 < t')
               \<longrightarrow> (\<exists>i. rayCastGizmo h pos s = Some i \<and> axis i = CENTER))"
proof -
  let ?F = "foldl (castStep h s ray) (MAX_VALUE, None) (colliders s)"
  have rc: "rayCastGizmo h pos s = snd ?F"
    using ray by (cases "colliders s = []") (simp_all add: rayCastGizmo_def)
  have le: "\<And>c t. c \<in> set (colliders s) \<Longrightarrow> hitDistance h s ray c = Some t \<Longrightarrow> fst ?F \<le> adjustedDistance c t"
    by (rule castLoop_le_hits)
  have res: "?F = (MAX_VALUE, None) \<or>
    (\<exists>c \<in> set (colliders s). \<exists>t. hitDistance h s ray c = Some t \<and> adjustedDistance c t < MAX_VALUE
       \<and> ?F = (adjustedDistance c t, Some (cid c)))"
    using castLoop_result [of h s ray "(MAX_VALUE, None)" "colliders s"] by simp
  have none_iff: "rayCastGizmo h pos s = None \<longleftrightarrow>
     (\<forall>c \<in> set (colliders s). \<forall>t. hitDistance h s ray c = Some t \<longrightarrow> MAX_VALUE \<le> adjustedDistance c t)"
  proof
    assume n: "rayCastGizmo h pos s = None"
    from res n rc have "?F = (MAX_VALUE, None)" by auto
    with le show "\<forall>c \<in> set (colliders s). \<forall>t. hitDistance h s ray c = Some t \<longrightarrow> MAX_VALUE \<le> adjustedDistance c t"
      by (metis fst_conv)
  next
    assume a: "\<forall>c \<in> set (colliders s). \<forall>t. hitDistance h s ray c = Some t \<longrightarrow> MAX_VALUE \<le> adjustedDistance c t"
    with res have "?F = (MAX_VALUE, None)" by fastforce
    with rc show "rayCastGizmo h pos s = None" by simp
  qed
  have some: "\<And>i. rayCastGizmo h pos s = Some i \<Longrightarrow>
              (\<exists>c \<in> set (colliders s). \<exists>t. hitDistance h s ray c = Some t \<and> cid c = i
                 \<and> (\<forall>c' \<in> set (colliders s). \<forall>t'. hitDistance h s ray c' = Some t' \<longrightarrow>
                       adjustedDistance c t \<le> adjustedDistance c' t'))"
  proof -
    fix i assume i: "rayCastGizmo h pos s = Some i"
    with res rc obtain c t where c: "c \<in> set (colliders s)" "hitDistance h s ray c = Some t"
      "?F = (adjustedDistance c t, Some (cid c))" by auto
    from c(3) i rc have "cid c = i" by simp
    moreover have "\<forall>c' \<in> set (colliders s). \<forall>t'. hitDistance h s ray c' = Some t' \<longrightarrow>
                       adjustedDistance c t \<le> adjustedDistance c' t'"
      using le c(3) by (metis fst_conv)
    ultimately show "\<exists>c \<in> set (colliders s). \<exists>t. hitDistance h s ray c = Some t \<and> cid c = i
                 \<and> (\<forall>c' \<in> set (colliders s). \<forall>t'. hitDistance h s ray c' = Some t' \<longrightarrow>
                       adjustedDistance c t \<le> adjustedDistance c' t')"
      using c(1,2) by blast
  qed
  have pref: "\<And>c t. c \<in> set (colliders s) \<Longrightarrow> axis (cid c) = CENTER \<Longrightarrow> hitDistance h s ray c = Some t
      \<Longrightarrow> t - 1000 < MAX_VALUE
      \<Longrightarrow> (\<forall>c' \<in> set (colliders s). \<forall>t'. axis (cid c') \<noteq> CENTER \<and> hitDistance h s ray c' = Some t'
                      \<longrightarrow> t - 1000 < t')
      \<Longrightarrow> \<exists>i. rayCastGizmo h pos s = Some i \<and> axis i = CENTER"
  proof -
    fix c t
    assume c: "c \<in> set (colliders s)" "axis (cid c) = CENTER" "hitDistance h s ray c = Some t"
      "t - 1000 < MAX_VALUE"
      and others: "\<forall>c' \<in> set (colliders s). \<forall>t'. axis (cid c') \<noteq> CENTER \<and> hitDistance h s ray c' = Some t'
                      \<longrightarrow> t - 1000 < t'"
    have adj: "adjustedDistance c t = t - 1000" using c(2) by (simp add: adjustedDistance_def)
    have "rayCastGizmo h pos s \<noteq> None"
      using none_iff c adj by auto
    then obtain i where i: "rayCastGizmo h pos s = Some i" by auto
    from some [OF i] obtain d u where d: "d \<in> set (colliders s)" "hitDistance h s ray d = Some u" "cid d = i"
      "\<forall>c' \<in> set (colliders s). \<forall>t'. hitDistance h s ray c' = Some t' \<longrightarrow>
                       adjustedDistance d u \<le> adjustedDistance c' t'" by blast
    have "adjustedDistance d u \<le> t - 1000" using d(4) c(1,3) adj by auto
    have "axis (cid d) = CENTER"
    proof (rule ccontr)
      assume nc: "axis (cid d) \<noteq> CENTER"
      then have "adjustedDistance d u = u" by (simp add: adjustedDistance_def)
      moreover have "t - 1000 < u" using others d(1,2) nc by blast
      ultimately show False using \<open>adjustedDistance d u \<le> t - 1000\<close> by simp
    qed
    with d(3) i show "\<exists>i. rayCastGizmo h pos s = Some i \<and> axis i = CENTER" by auto
  qed
  show ?thesis
    using none_iff some pref by blast
qed

text \<open>
  In the sample scale session the vertical ray through the origin enters the prisms of X
  and Y at 9.9, that of Z at 8.9 and the centre box at 9.95.
\<close>

theorem rayCastGizmo_nearest_adjusted_witness:
  "getPickRay sampleHost (0, 0) = Some (Ray (Cartesian3 0 0 10) (Cartesian3 0 0 (- 1)))
   \<and> rayCastGizmo sampleHost (0, 0) (sampleSession Scale) \<noteq> None
   \<and> (\<exists>i. rayCastGizmo sampleHost (0, 0) (sampleSession Scale) = Some i \<and> axis i = CENTER)"
proof -
  let ?S = "sampleSession Scale"
  let ?ray = "Ray (Cartesian3 0 0 10) (Cartesian3 0 0 (- 1))"
  have ray: "getPickRay sampleHost (0, 0) = Some ?ray" by simp
  have c: "colliders ?S = [colliders ?S ! 0, colliders ?S ! Suc 0, colliders ?S ! 2, colliders ?S ! 3]"
    by (simp add: sample_colliders_Scale)
  have mem: "colliders ?S ! 3 \<in> set (colliders ?S)"
    by (subst (2) c) simp
  have cen: "axis (cid (colliders ?S ! 3)) = CENTER"
    by (simp add: sample_ids_Scale)
  have big: "199 / 20 - 1000 < MAX_VALUE"
    using MAX_VALUE_large by simp
  have others: "\<forall>c' \<in> set (colliders ?S). \<forall>t'.
      axis (cid c') \<noteq> CENTER \<and> hitDistance sampleHost ?S ?ray c' = Some t' \<longrightarrow> 199 / 20 - 1000 < t'"
    by (subst c) (auto simp: sample_hits_Scale)
  have hit: "hitDistance sampleHost ?S ?ray (colliders ?S ! 3) = Some (199 / 20)"
    by (simp add: sample_hits_Scale)
  from rayCastGizmo_nearest_adjusted [OF ray, of ?S] mem cen hit big others
  have "\<exists>i. rayCastGizmo sampleHost (0, 0) ?S = Some i \<and> axis i = CENTER"
    by blast
  with ray show ?thesis by auto
qed

text \<open>
  C1 as stated fails: in the sample scale session the ray through the origin hits the
  prism of the Z handle at the entry distance 8.9, before the centre box at 9.95, and the
  handle returned is CENTER.
\<close>

theorem rayCastGizmo_prefers_center:
  "getPickRay sampleHost (0, 0) = Some (Ray (Cartesian3 0 0 10) (Cartesian3 0 0 (- 1)))
   \<and> hitDistance sampleHost (sampleSession Scale) (Ray (Cartesian3 0 0 10) (Cartesian3 0 0 (- 1)))
        (colliders (sampleSession Scale) ! 2) = Some 8.9
   \<and> cid (colliders (sampleSession Scale) ! 2) = GizmoId Z (ModeType Scale) ''SCALE_Z'' 1
   \<and> hitDistance sampleHost (sampleSession Scale) (Ray (Cartesian3 0 0 10) (Cartesian3 0 0 (- 1)))
        (colliders (sampleSession Scale) ! 3) = Some 9.95
   \<and> cid (colliders (sampleSession Scale) ! 3) = GizmoId CENTER (ModeType Scale) ''CENTER'' 1
   \<and> rayCastGizmo sampleHost (0, 0) (sampleSession Scale) = Some (GizmoId CENTER (ModeType Scale) ''CENTER'' 1)"
  by (simp add: sample_hits_Scale sample_ids_Scale sample_cast_Scale)

section \<open>Skipped drag ticks\<close>

text \<open>
  C9. During a drag, a pointer move whose position gives no pick ray, or whose ray does
  not meet the stored drag plane, is skipped: \<open>handleDrag\<close> returns the state it was
  given, so the model matrix of the bound object is the one before and nothing is added
  to the calls of \<open>onUpdate\<close>; the same holds for the mouse-move action while dragging.
\<close>

theorem handleDrag_skips_missed_plane:
  assumes "getPickRay h pos = None \<or>
           (\<exists>ray. getPickRay h pos = Some ray \<and> (\<forall>pl. dragPlane s = Some pl \<longrightarrow> rayPlane h ray pl = None))"
  shows "handleDrag h pos s = s \<and> objectMatrix (handleDrag h pos s) = objectMatrix s
         \<and> updates (handleDrag h pos s) = updates s
         \<and> (isDragging s \<longrightarrow> inputAction h (MOUSE_MOVE pos) s = s)"
proof -
  have "handleDrag h pos s = s"
    using assms by (auto simp: handleDrag_def split: option.splits)
  then show ?thesis by (simp add: inputAction_def)
qed

text \<open>
  An instance: the drag plane is the plane \<open>x = 0\<close> and the pick ray is vertical, hence
  parallel to it.
\<close>

theorem handleDrag_skips_missed_plane_witness:
  "getPickRay sampleHost (0, 0.4) = Some (Ray (Cartesian3 0 0.4 10) (Cartesian3 0 0 (- 1)))
   \<and> rayPlane sampleHost (Ray (Cartesian3 0 0.4 10) (Cartesian3 0 0 (- 1))) (Plane (Cartesian3 1 0 0) 0) = None
   \<and> handleDrag sampleHost (0, 0.4) ((sampleSession Translate)\<lparr>dragPlane := Some (Plane (Cartesian3 1 0 0) 0)\<rparr>)
     = (sampleSession Translate)\<lparr>dragPlane := Some (Plane (Cartesian3 1 0 0) 0)\<rparr>"
proof -
  have r: "getPickRay sampleHost (0, 0.4) = Some (Ray (Cartesian3 0 0.4 10) (Cartesian3 0 0 (- 1)))"
    by simp
  have p: "rayPlane sampleHost (Ray (Cartesian3 0 0.4 10) (Cartesian3 0 0 (- 1))) (Plane (Cartesian3 1 0 0) 0) = None"
    by (simp add: sampleRayPlane_def dot_def)
  show ?thesis
    using r p handleDrag_skips_missed_plane [of sampleHost "(0, 0.4)"
        "(sampleSession Translate)\<lparr>dragPlane := Some (Plane (Cartesian3 1 0 0) 0)\<rparr>"]
    by simp
qed

section \<open>Binding the object that is already bound\<close>

text \<open>
  C10. \<open>bindObject\<close> with the object that is already bound returns the state it was given:
  nothing is reset, nothing is rebuilt, the selection is not touched and \<open>onUpdate\<close> is not
  called. With a different object the drag state is reset, the camera controls are enabled,
  the handles are rebuilt, the selection of an existing outline stage becomes the new
  object, and \<open>onUpdate\<close> (when set) is called once with the new snapshot.
\<close>

theorem bindObject_same_object:
  "(object s = Some b \<longrightarrow> bindObject h (Some b) s = s) \<and>
   (object s \<noteq> Some b \<longrightarrow>
      object (bindObject h (Some b) s) = Some b
      \<and> \<not> isDragging (bindObject h (Some b) s)
      \<and> dragPlane (bindObject h (Some b) s) = None
      \<and> highlightedId (bindObject h (Some b) s) = None
      \<and> enableRotate (bindObject h (Some b) s) \<and> enableTranslate (bindObject h (Some b) s)
      \<and> built (bindObject h (Some b) s) = built s + 1
      \<and> (edgeDetectionStage s \<noteq> None \<longrightarrow> edgeDetectionStage (bindObject h (Some b) s) = Some [b])
      \<and> (hasOnUpdate s \<longrightarrow>
            updates (bindObject h (Some b) s) = updates s @ [getTransformState h (bindObject h (Some b) s)]))"
  by (auto simp add: bindObject_def Let_def)

theorem bindObject_same_object_witness:
  "object (sampleSession Translate) = Some (Model 1)
   \<and> bindObject sampleHost (Some (Model 1)) (sampleSession Translate) = sampleSession Translate
   \<and> object (sampleSession Translate) \<noteq> Some (Model 2)
   \<and> object (bindObject sampleHost (Some (Model 2)) (sampleSession Translate)) = Some (Model 2)
   \<and> built (bindObject sampleHost (Some (Model 2)) (sampleSession Translate)) = 2
   \<and> edgeDetectionStage (bindObject sampleHost (Some (Model 2)) (sampleSession Translate)) = Some [Model 2]
   \<and> length (updates (bindObject sampleHost (Some (Model 2)) (sampleSession Translate)))
       = length (updates (sampleSession Translate)) + 1"
  using bindObject_same_object [of "sampleSession Translate" "Model 1" sampleHost]
        bindObject_same_object [of "sampleSession Translate" "Model 2" sampleHost]
  by simp

section \<open>Starting a drag\<close>

lemma startDrag_rejected: "axis i = CENTER \<Longrightarrow> mode s \<noteq> Scale \<Longrightarrow> startDrag h i pos s = s"
  by (simp add: startDrag_def)

lemma startDrag_started:
  assumes "axis i \<noteq> CENTER \<or> mode s = Scale"
  shows "isDragging (startDrag h i pos s) \<and> \<not> enableRotate (startDrag h i pos s)
         \<and> \<not> enableTranslate (startDrag h i pos s) \<and> dragAxisName (startDrag h i pos s) = name i"
  using assms by (auto simp: startDrag_def Let_def split: option.splits)

text \<open>
  C8. On pointer-down, \<open>handleDown\<close> starts a drag exactly when a handle is resolved (by the
  ray cast, else by the pick of the host) and the handle is not CENTER or the mode is
  scale: then the engine is dragging that handle and both camera controls are disabled.
  With no handle, or with the CENTER handle in translate or rotate mode, the state is the
  one before. The pointer-down action is \<open>handleDown\<close> while an object is bound, and does
  nothing without one.
\<close>

theorem handleDown_starts_drag:
  "(pickedHandle h pos s = None \<longrightarrow> handleDown h pos s = s)
   \<and> (\<forall>i. pickedHandle h pos s = Some i \<and> (axis i \<noteq> CENTER \<or> mode s = Scale) \<longrightarrow>
          isDragging (handleDown h pos s) \<and> \<not> enableRotate (handleDown h pos s)
          \<and> \<not> enableTranslate (handleDown h pos s) \<and> dragAxisName (handleDown h pos s) = name i)
   \<and> (\<forall>i. pickedHandle h pos s = Some i \<and> axis i = CENTER \<and> mode s \<noteq> Scale \<longrightarrow>
          handleDown h pos s = s)
   \<and> (handler s \<and> object s \<noteq> None \<longrightarrow> inputAction h (LEFT_DOWN pos) s = handleDown h pos s)
   \<and> (object s = None \<longrightarrow> inputAction h (LEFT_DOWN pos) s = s)"
proof -
  have hd: "handleDown h pos s = (case pickedHandle h pos s of Some i \<Rightarrow> startDrag h i pos s | None \<Rightarrow> s)"
    by (simp add: handleDown_def pickedHandle_def)
  show ?thesis
    using startDrag_rejected [of _ s h pos] startDrag_started [of _ s h pos]
    by (auto simp: hd inputAction_def)
qed

lemma sample_picks:
  "pickedHandle sampleHost (5, 5) (sampleSession Scale) = None"
  "pickedHandle sampleHost (1 / 2, 0) (sampleSession Scale) = Some (GizmoId X (ModeType Scale) ''SCALE_X'' 1)"
  "pickedHandle sampleHost (0, 0) (sampleSession Rotate) = Some (GizmoId CENTER CenterType ''CENTER'' 1)"
  by (simp_all add: pickedHandle_def sample_cast_Scale_far sample_cast_Scale_X sample_cast_Rotate_origin)

text \<open>
  In the sample sessions: a pointer-down far from the handles, one over the X handle in
  scale mode, and one over the centre handle in rotate mode.
\<close>

theorem handleDown_starts_drag_witness:
  "pickedHandle sampleHost (5, 5) (sampleSession Scale) = None
   \<and> handleDown sampleHost (5, 5) (sampleSession Scale) = sampleSession Scale
   \<and> pickedHandle sampleHost (1 / 2, 0) (sampleSession Scale) = Some (GizmoId X (ModeType Scale) ''SCALE_X'' 1)
   \<and> isDragging (handleDown sampleHost (1 / 2, 0) (sampleSession Scale))
   \<and> \<not> enableRotate (handleDown sampleHost (1 / 2, 0) (sampleSession Scale))
   \<and> \<not> enableTranslate (handleDown sampleHost (1 / 2, 0) (sampleSession Scale))
   \<and> dragAxisName (handleDown sampleHost (1 / 2, 0) (sampleSession Scale)) = ''SCALE_X''
   \<and> pickedHandle sampleHost (0, 0) (sampleSession Rotate) = Some (GizmoId CENTER CenterType ''CENTER'' 1)
   \<and> handleDown sampleHost (0, 0) (sampleSession Rotate) = sampleSession Rotate
   \<and> inputAction sampleHost (LEFT_DOWN (1 / 2, 0)) (sampleSession Scale)
       = handleDown sampleHost (1 / 2, 0) (sampleSession Scale)
   \<and> inputAction sampleHost (LEFT_DOWN (1 / 2, 0)) ((sampleSession Scale)\<lparr>object := None\<rparr>)
       = (sampleSession Scale)\<lparr>object := None\<rparr>"
  using handleDown_starts_drag [of sampleHost "(5, 5)" "sampleSession Scale"]
        handleDown_starts_drag [of sampleHost "(1 / 2, 0)" "sampleSession Scale"]
        handleDown_starts_drag [of sampleHost "(0, 0)" "sampleSession Rotate"]
        handleDown_starts_drag [of sampleHost "(1 / 2, 0)" "(sampleSession Scale)\<lparr>object := None\<rparr>"]
  by (simp add: sample_picks)

section \<open>Leaving a drag other than by pointer-up\<close>

lemma destroy_handler [simp]: "handler (destroy s) = False"
  by (simp add: destroy_def Let_def)

lemma detach_resets:
  "\<not> isDragging (detach s) \<and> enableRotate (detach s) \<and> enableTranslate (detach s)"
  by (simp add: detach_def Let_def split: option.splits)

lemma rebind_resets:
  "object s \<noteq> Some b \<Longrightarrow>
   \<not> isDragging (bindObject h (Some b) s) \<and> enableRotate (bindObject h (Some b) s)
   \<and> enableTranslate (bindObject h (Some b) s)"
  by (simp add: bindObject_def Let_def)

text \<open>
  C2. Rebinding to another object and \<open>detach\<close> go through \<open>resetState\<close>, which leaves the
  drag and enables the camera controls (the two lemmas above). The setter of \<open>mode\<close> and
  \<open>destroy\<close> do not: here a drag is started on the X handle of the sample scale session;
  after setting the mode to translate, and after \<open>destroy\<close>, the engine is still dragging
  and both camera controls are still disabled, and after \<open>destroy\<close> a pointer-up is no
  longer handled.
\<close>

theorem mode_and_destroy_keep_drag:
  "isDragging (handleDown sampleHost (1 / 2, 0) (sampleSession Scale))
   \<and> \<not> enableRotate (handleDown sampleHost (1 / 2, 0) (sampleSession Scale))
   \<and> \<not> enableTranslate (handleDown sampleHost (1 / 2, 0) (sampleSession Scale))
   \<and> mode (set_mode Translate (handleDown sampleHost (1 / 2, 0) (sampleSession Scale))) = Translate
   \<and> isDragging (set_mode Translate (handleDown sampleHost (1 / 2, 0) (sampleSession Scale)))
   \<and> \<not> enableRotate (set_mode Translate (handleDown sampleHost (1 / 2, 0) (sampleSession Scale)))
   \<and> \<not> enableTranslate (set_mode Translate (handleDown sampleHost (1 / 2, 0) (sampleSession Scale)))
   \<and> isDragging (destroy (handleDown sampleHost (1 / 2, 0) (sampleSession Scale)))
   \<and> \<not> enableRotate (destroy (handleDown sampleHost (1 / 2, 0) (sampleSession Scale)))
   \<and> \<not> enableTranslate (destroy (handleDown sampleHost (1 / 2, 0) (sampleSession Scale)))
   \<and> inputAction sampleHost LEFT_UP (destroy (handleDown sampleHost (1 / 2, 0) (sampleSession Scale)))
       = destroy (handleDown sampleHost (1 / 2, 0) (sampleSession Scale))
   \<and> \<not> isDragging (detach (handleDown sampleHost (1 / 2, 0) (sampleSession Scale)))
   \<and> enableRotate (detach (handleDown sampleHost (1 / 2, 0) (sampleSession Scale)))
   \<and> enableTranslate (detach (handleDown sampleHost (1 / 2, 0) (sampleSession Scale)))"
proof -
  let ?D = "handleDown sampleHost (1 / 2, 0) (sampleSession Scale)"
  have hd: "?D = startDrag sampleHost (GizmoId X (ModeType Scale) ''SCALE_X'' 1) (1 / 2, 0) (sampleSession Scale)"
    using sample_picks(2) by (simp add: handleDown_def pickedHandle_def)
  have d: "isDragging ?D \<and> \<not> enableRotate ?D \<and> \<not> enableTranslate ?D"
    unfolding hd using startDrag_started [of "GizmoId X (ModeType Scale) ''SCALE_X'' 1" "sampleSession Scale"]
    by simp
  have m: "mode (set_mode Translate ?D) = Translate"
    by (simp add: set_mode_def)
  show ?thesis
    using d m detach_resets [of ?D] by (simp add: inputAction_def)
qed

section \<open>Sector colliders\<close>

text \<open>
  What the SECTOR branch tests once it is reached, for a Z-axis sector whose primitive is
  found, shown and invertible: the box interval is non-empty and its entry point lies
  within the radius plus four tube widths and has both in-plane coordinates at least
  \<open>-0.05\<close>.
\<close>

lemma sector_test_when_reached:
  assumes "axisPrimitives s (primitiveKey c) = Some p" "pshow p" "inverse4 h (modelMatrix p) = Some im"
    and "ctype c = SECTOR" "radius c = Some r" "tube c = Some tb" "tb \<noteq> 0" "ringNormalAxis c = Some 2"
  shows "hitDistance h s ray c = Some t \<longleftrightarrow>
         (\<exists>iv. rayAxisAlignedBoundingBox h
                 (Ray (multiplyByPoint im (origin ray)) (multiplyByPointAsVector im (direction ray)))
                 (localMin c) (localMax c) = Some iv
               \<and> t = start iv
               \<and> magnitude (getPoint (Ray (multiplyByPoint im (origin ray))
                                           (multiplyByPointAsVector im (direction ray))) t) \<le> r + tb * 4
               \<and> - 0.05 \<le> cx (getPoint (Ray (multiplyByPoint im (origin ray))
                                              (multiplyByPointAsVector im (direction ray))) t)
               \<and> - 0.05 \<le> cy (getPoint (Ray (multiplyByPoint im (origin ray))
                                              (multiplyByPointAsVector im (direction ray))) t))"
  using assms by (auto simp: hitDistance_def sectorMiss_def Let_def split: option.splits)

text \<open>
  The branch is not reached for the colliders that \<open>createRotationGizmo\<close> registers: each
  is registered under the key \<open>X\<close>, \<open>Y\<close> or \<open>Z\<close>, while the primitives are stored under
  \<open>X_fan\<close>, \<open>X_rim\<close> and so on, so the lookup of the primitive fails and the collider is
  skipped, for every host, frame and ray.
\<close>

lemma rotate_sectors_skipped:
  assumes "mode s = Rotate" "c \<in> set (colliders (update h' (createGizmo s)))" "ctype c = SECTOR"
  shows "hitDistance h (update h' (createGizmo s)) ray c = None"
proof -
  from assms(1,2) have "c \<in> set (colliders (createGizmo s))" by simp
  with assms(1,3) have "primitiveKey c \<in> {''X'', ''Y'', ''Z''}"
    by (auto simp: createGizmo_colliders_Rotate)
  then have "axisPrimitives (createGizmo s) (primitiveKey c) = None"
    using assms(1) by (auto simp: createGizmo_prims_Rotate)
  then have "axisPrimitives (update h' (createGizmo s)) (primitiveKey c) = None"
    by (simp add: update_dom)
  then show ?thesis by (simp add: hitDistance_def)
qed

lemma sample_sector_geometry:
  "rayAxisAlignedBoundingBox sampleHost (Ray (Cartesian3 (7 / 10) (7 / 10) 10) (Cartesian3 0 0 (- 1)))
        (localMin (colliders (sampleSession Rotate) ! 2)) (localMax (colliders (sampleSession Rotate) ! 2))
     = Some (Interval (199 / 20) (201 / 20))"
  "getPoint (Ray (Cartesian3 (7 / 10) (7 / 10) 10) (Cartesian3 0 0 (- 1))) (199 / 20)
     = Cartesian3 (7 / 10) (7 / 10) (1 / 20)"
    apply (simp_all add: sample_colliders_Rotate)
    apply (simp_all add: sampleBoxTest_def vec_defs)
  done

lemma sample_sector_inside:
  "\<not> sectorMiss (colliders (sampleSession Rotate) ! 2)
        (Ray (Cartesian3 (7 / 10) (7 / 10) 10) (Cartesian3 0 0 (- 1))) (Interval (199 / 20) (201 / 20))"
proof -
  have m: "magnitude (Cartesian3 (7 / 10) (7 / 10) (1 / 20)) \<le> 6 / 5"
    unfolding magnitude_def Cartesian3.sel
    by (rule real_le_lsqrt) (simp_all add: power2_eq_square)
  show ?thesis
    using m by (simp add: sample_colliders_Rotate sectorMiss_def sample_sector_geometry(2) Let_def not_less
        del: real_sqrt_le_iff)
qed

text \<open>
  C7. In the sample rotate session the vertical ray through \<open>(0.7, 0.7)\<close> enters the
  bounding box of the Z sector at \<open>(0.7, 0.7, 0.05)\<close>, at 45 degrees inside the wedge and
  within the radius, so the sector test passes; yet no primitive is stored under the
  collider's key \<open>Z\<close>, the collider is skipped and the ray cast returns no handle.
\<close>

theorem rotate_sector_skipped_in_session:
  "getPickRay sampleHost (7 / 10, 7 / 10) = Some (Ray (Cartesian3 (7 / 10) (7 / 10) 10) (Cartesian3 0 0 (- 1)))
   \<and> cid (colliders (sampleSession Rotate) ! 2) = GizmoId Z (ModeType Rotate) ''ROT_Z'' 1
   \<and> ctype (colliders (sampleSession Rotate) ! 2) = SECTOR
   \<and> radius (colliders (sampleSession Rotate) ! 2) = Some 1
   \<and> ringNormalAxis (colliders (sampleSession Rotate) ! 2) = Some 2
   \<and> rayAxisAlignedBoundingBox sampleHost (Ray (Cartesian3 (7 / 10) (7 / 10) 10) (Cartesian3 0 0 (- 1)))
        (localMin (colliders (sampleSession Rotate) ! 2)) (localMax (colliders (sampleSession Rotate) ! 2))
       = Some (Interval (199 / 20) (201 / 20))
   \<and> getPoint (Ray (Cartesian3 (7 / 10) (7 / 10) 10) (Cartesian3 0 0 (- 1))) (199 / 20)
       = Cartesian3 (7 / 10) (7 / 10) (1 / 20)
   \<and> \<not> sectorMiss (colliders (sampleSession Rotate) ! 2)
        (Ray (Cartesian3 (7 / 10) (7 / 10) 10) (Cartesian3 0 0 (- 1))) (Interval (199 / 20) (201 / 20))
   \<and> primitiveKey (colliders (sampleSession Rotate) ! 2) = ''Z''
   \<and> axisPrimitives (sampleSession Rotate) ''Z'' = None
   \<and> hitDistance sampleHost (sampleSession Rotate)
        (Ray (Cartesian3 (7 / 10) (7 / 10) 10) (Cartesian3 0 0 (- 1))) (colliders (sampleSession Rotate) ! 2) = None
   \<and> rayCastGizmo sampleHost (7 / 10, 7 / 10) (sampleSession Rotate) = None"
  using sample_sector_geometry sample_sector_inside sample_hits_Rotate_wedge(3) sample_cast_Rotate_wedge
        sample_prims_Rotate(3)
  by (simp add: sample_colliders_Rotate)

section \<open>The transform snapshot\<close>

lemma toFixed_nonneg:
  assumes "0 \<le> v" "v < 10 ^ 21"
  shows "toFixed d v = of_int \<lfloor>v * 10 ^ d + 1 / 2\<rfloor> / 10 ^ d"
proof (cases "v = 0")
  case True
  then show ?thesis by (simp add: toFixed_def)
next
  case False
  with assms have "0 < v" by simp
  then show ?thesis using assms by (simp add: toFixed_def)
qed

lemma toFixed_neg: "toFixed d (- v) = - toFixed d v"
  by (simp add: toFixed_def sgn_minus)

lemma decimalDigits_iff: "decimalDigits d out \<longleftrightarrow> (\<exists>n::int. out * 10 ^ d = of_int n)"
proof
  assume "decimalDigits d out"
  then have "of_int \<lfloor>out * 10 ^ d\<rfloor> = out * 10 ^ d" unfolding decimalDigits_def .
  then have "out * 10 ^ d = of_int \<lfloor>out * 10 ^ d\<rfloor>" by (rule sym)
  then show "\<exists>n::int. out * 10 ^ d = of_int n" by (rule exI)
next
  assume "\<exists>n::int. out * 10 ^ d = of_int n"
  then obtain n :: int where n: "out * 10 ^ d = of_int n" by blast
  show "decimalDigits d out" unfolding decimalDigits_def n by simp
qed

lemma decimalDigits_of_int: "decimalDigits d (of_int n / 10 ^ d)"
  by (simp add: decimalDigits_def)

lemma roundedTo_neg: "roundedTo d v out \<Longrightarrow> roundedTo d (- v) (- out)"
proof -
  assume a: "roundedTo d v out"
  then obtain n :: int where "out * 10 ^ d = of_int n"
    by (auto simp: roundedTo_def decimalDigits_iff)
  then have "- out * 10 ^ d = of_int (- n)" by simp
  then have "decimalDigits d (- out)" unfolding decimalDigits_iff ..
  moreover have "\<bar>- out - - v\<bar> = \<bar>out - v\<bar>" by simp
  ultimately show ?thesis using a by (simp add: roundedTo_def)
qed

lemma toFixed_rounds_nonneg:
  assumes "0 \<le> v" "v < 10 ^ 21"
  shows "roundedTo d v (toFixed d v)"
proof -
  let ?m = "\<lfloor>v * 10 ^ d + 1 / 2\<rfloor>"
  have p: "(0::real) < 10 ^ d" by simp
  have lo: "of_int ?m \<le> v * 10 ^ d + 1 / 2" by (rule of_int_floor_le)
  have hi: "v * 10 ^ d + 1 / 2 < of_int ?m + 1" by linarith
  have h: "\<bar>of_int ?m - v * 10 ^ d\<bar> \<le> 1 / 2" using lo hi by linarith
  have "\<bar>of_int ?m - v * 10 ^ d\<bar> / 10 ^ d \<le> (1 / 2) / 10 ^ d"
    by (rule divide_right_mono [OF h]) simp
  moreover have "\<bar>of_int ?m - v * 10 ^ d\<bar> / 10 ^ d = \<bar>of_int ?m / 10 ^ d - v\<bar>"
  proof -
    have "of_int ?m / 10 ^ d - v = (of_int ?m - v * 10 ^ d) / 10 ^ d"
      using p by (simp add: field_simps)
    then show ?thesis using p by (simp add: abs_divide del: of_int_diff)
  qed
  moreover have "(1 / 2) / (10::real) ^ d = 1 / (2 * 10 ^ d)" by simp
  ultimately have "\<bar>of_int ?m / 10 ^ d - v\<bar> \<le> 1 / (2 * 10 ^ d)" by simp
  then show ?thesis
    using assms by (simp add: toFixed_nonneg roundedTo_def decimalDigits_of_int)
qed

lemma toFixed_rounds:
  assumes "\<bar>v\<bar> < 10 ^ 21"
  shows "roundedTo d v (toFixed d v)"
proof (cases "0 \<le> v")
  case True
  with assms show ?thesis by (simp add: toFixed_rounds_nonneg)
next
  case False
  then have "0 \<le> - v" "- v < 10 ^ 21" using assms by simp_all
  from roundedTo_neg [OF toFixed_rounds_nonneg [OF this, of d]]
  show ?thesis by (simp add: toFixed_neg)
qed

lemma cleanScale_snap: "\<bar>v - 1\<bar> < 1 / 10 ^ 5 \<Longrightarrow> cleanScale v = 1"
  by (simp add: cleanScale_def)

lemma cleanScale_rounds:
  assumes "\<bar>v\<bar> < 10 ^ 21"
  shows "roundedTo 3 v (cleanScale v)"
proof (cases "\<bar>v - 1\<bar> < 1 / 10 ^ 5")
  case True
  then have "cleanScale v = 1" by (simp add: cleanScale_def)
  moreover have "\<bar>1 - v\<bar> \<le> 1 / (2 * 10 ^ 3)"
  proof -
    have "\<bar>1 - v\<bar> = \<bar>v - 1\<bar>" by simp
    with True show ?thesis by simp
  qed
  ultimately show ?thesis by (simp add: roundedTo_def decimalDigits_def)
next
  case False
  then have "cleanScale v = toFixed 3 v" by (simp add: cleanScale_def)
  with toFixed_rounds [OF assms, of 3] show ?thesis by simp
qed

lemma js_rem_range:
  assumes "0 < b"
  shows "- b < js_rem a b \<and> js_rem a b < b"
proof (cases "a / b < 0")
  case True
  have ab: "b * (a / b) = a" using assms by simp
  have "a / b \<le> of_int \<lceil>a / b\<rceil>" by (rule le_of_int_ceiling)
  then have "b * (a / b) \<le> b * of_int \<lceil>a / b\<rceil>"
    using assms by (intro mult_left_mono) simp_all
  moreover have "of_int \<lceil>a / b\<rceil> < a / b + 1" by linarith
  then have "b * of_int \<lceil>a / b\<rceil> < b * (a / b + 1)"
    using assms by (intro mult_strict_left_mono) simp_all
  ultimately have "a \<le> b * of_int \<lceil>a / b\<rceil>" "b * of_int \<lceil>a / b\<rceil> < a + b"
    using ab assms by (simp_all add: distrib_left)
  then show ?thesis using True assms by (simp add: js_rem_def)
next
  case False
  have ab: "b * (a / b) = a" using assms by simp
  have "of_int \<lfloor>a / b\<rfloor> \<le> a / b" by (rule of_int_floor_le)
  then have "b * of_int \<lfloor>a / b\<rfloor> \<le> b * (a / b)"
    using assms by (intro mult_left_mono) simp_all
  moreover have "a / b < of_int \<lfloor>a / b\<rfloor> + 1" by linarith
  then have "b * (a / b) < b * (of_int \<lfloor>a / b\<rfloor> + 1)"
    using assms by (intro mult_strict_left_mono) simp_all
  ultimately have "b * of_int \<lfloor>a / b\<rfloor> \<le> a" "a < b * of_int \<lfloor>a / b\<rfloor> + b"
    using ab assms by (simp_all add: distrib_left)
  then show ?thesis using False assms by (simp add: js_rem_def)
qed

lemma toDegrees_range:
  "0 \<le> toDegrees rad \<and> toDegrees rad < 360 \<and> decimalDigits 2 (toDegrees rad)"
proof -
  define rad1 where "rad1 = (if \<bar>rad\<bar> < 1 / 10 ^ 10 then 0 else rad)"
  define d0 where "d0 = js_rem (toDegreesMath rad1) 360"
  define d1 where "d1 = (if d0 < 0 then d0 + 360 else d0)"
  define d2 where "d2 = (if \<bar>d1 - 360\<bar> < 0.01 then 0 else d1)"
  define d3 where "d3 = (if \<bar>d2\<bar> < 0.01 then 0 else d2)"
  have td: "toDegrees rad = toFixed 2 d3"
    by (simp only: toDegrees_def Let_def rad1_def d0_def d1_def d2_def d3_def)
  have r0: "- 360 < d0 \<and> d0 < 360" unfolding d0_def by (rule js_rem_range) simp
  have r1: "0 \<le> d1 \<and> d1 < 360"
  proof (cases "d0 < 0")
    case True
    then have "d1 = d0 + 360" by (simp add: d1_def)
    with r0 True show ?thesis by simp
  next
    case False
    then have "d1 = d0" by (simp add: d1_def)
    with r0 False show ?thesis by simp
  qed
  have r2: "0 \<le> d2 \<and> d2 \<le> 35999 / 100"
  proof (cases "\<bar>d1 - 360\<bar> < 0.01")
    case True
    then have "d2 = 0" by (simp add: d2_def)
    then show ?thesis by simp
  next
    case False
    then have e: "d2 = d1" by (simp add: d2_def)
    from False have "\<not> \<bar>d1 - 360\<bar> < 1 / 100" by simp
    with r1 have "d1 \<le> 35999 / 100" by linarith
    with r1 e show ?thesis by simp
  qed
  have r3: "0 \<le> d3 \<and> d3 \<le> 35999 / 100"
  proof (cases "\<bar>d2\<bar> < 0.01")
    case True
    then have "d3 = 0" by (simp add: d3_def)
    then show ?thesis by simp
  next
    case False
    then have "d3 = d2" by (simp add: d3_def)
    with r2 show ?thesis by simp
  qed
  have small: "d3 < 10 ^ 21"
  proof -
    have "d3 < 360" using r3 by linarith
    also have "(360::real) < 10 ^ 21" by simp
    finally show ?thesis .
  qed
  let ?m = "\<lfloor>d3 * 10 ^ 2 + 1 / 2\<rfloor>"
  have tf: "toFixed 2 d3 = of_int ?m / 10 ^ 2"
    using r3 small by (simp add: toFixed_nonneg)
  have "d3 * 10 ^ 2 + 1 / 2 < 36000" using r3 by simp
  then have "?m < 36000" by (simp add: floor_less_iff)
  then have up: "of_int ?m < (36000::real)" by (metis of_int_less_iff of_int_numeral)
  have "0 \<le> d3 * 10 ^ 2 + 1 / 2" using r3 by simp
  then have "0 \<le> ?m" by (simp add: zero_le_floor)
  then have lo: "(0::real) \<le> of_int ?m" by simp
  have "0 \<le> toFixed 2 d3 \<and> toFixed 2 d3 < 360"
    unfolding tf using lo up by simp
  moreover have "decimalDigits 2 (toFixed 2 d3)"
    unfolding tf by (rule decimalDigits_of_int)
  ultimately show ?thesis by (simp add: td)
qed


lemma wrapDegrees_range: "0 \<le> wrapDegrees deg \<and> wrapDegrees deg < 360"
proof -
  have "of_int \<lfloor>deg / 360\<rfloor> \<le> deg / 360" by (rule of_int_floor_le)
  moreover have "deg / 360 < of_int \<lfloor>deg / 360\<rfloor> + 1" by linarith
  ultimately show ?thesis unfolding wrapDegrees_def by linarith
qed

lemma js_rem_wrap:
  "(if js_rem deg 360 < 0 then js_rem deg 360 + 360 else js_rem deg 360) = wrapDegrees deg"
proof (cases "deg / 360 < 0")
  case neg: True
  show ?thesis
  proof (cases "deg / 360 = of_int \<lfloor>deg / 360\<rfloor>")
    case True
    then have c: "\<lceil>deg / 360\<rceil> = \<lfloor>deg / 360\<rfloor>" by (simp add: ceiling_altdef)
    have "deg = 360 * of_int \<lfloor>deg / 360\<rfloor>" using True by linarith
    then have "js_rem deg 360 = 0" using neg c by (simp add: js_rem_def)
    moreover have "wrapDegrees deg = 0" using \<open>deg = 360 * of_int \<lfloor>deg / 360\<rfloor>\<close>
      by (simp add: wrapDegrees_def)
    ultimately show ?thesis by simp
  next
    case False
    then have c: "\<lceil>deg / 360\<rceil> = \<lfloor>deg / 360\<rfloor> + 1" by (simp add: ceiling_altdef)
    have j: "js_rem deg 360 = deg - 360 * of_int \<lfloor>deg / 360\<rfloor> - 360"
      using neg c by (simp add: js_rem_def)
    have "wrapDegrees deg < 360" using wrapDegrees_range by simp
    then have "js_rem deg 360 < 0" unfolding j wrapDegrees_def by linarith
    then show ?thesis using j by (simp add: wrapDegrees_def)
  qed
next
  case False
  then have j: "js_rem deg 360 = wrapDegrees deg" by (simp add: js_rem_def wrapDegrees_def)
  have "0 \<le> wrapDegrees deg" using wrapDegrees_range by simp
  then show ?thesis using j by simp
qed

lemma toDegrees_small:
  assumes "\<bar>rad\<bar> < 1 / 10 ^ 10"
  shows "toDegrees rad = 0"
    and "wrapDegrees (toDegreesMath rad) < 1 / 100 \<or> 35999 / 100 < wrapDegrees (toDegreesMath rad)"
proof -
  show "toDegrees rad = 0" using assms by (simp add: toDegrees_def toDegreesMath_def js_rem_def toFixed_def)
  have p: "2 \<le> pi" by (rule pi_ge_two)
  have "180 / pi \<le> 90" using p by (simp add: field_simps)
  have "\<bar>toDegreesMath rad\<bar> = \<bar>rad\<bar> * (180 / pi)" by (simp add: toDegreesMath_def abs_mult)
  also have "\<dots> \<le> \<bar>rad\<bar> * 90" using \<open>180 / pi \<le> 90\<close> by (intro mult_left_mono) simp_all
  also have "\<dots> < 1 / 100" using assms by simp
  finally have b: "\<bar>toDegreesMath rad\<bar> < 1 / 100" .
  show "wrapDegrees (toDegreesMath rad) < 1 / 100 \<or> 35999 / 100 < wrapDegrees (toDegreesMath rad)"
  proof (cases "0 \<le> toDegreesMath rad")
    case True
    then have "\<lfloor>toDegreesMath rad / 360\<rfloor> = 0" using b by (simp add: floor_eq_iff)
    then show ?thesis using b True by (simp add: wrapDegrees_def)
  next
    case False
    then have "\<lfloor>toDegreesMath rad / 360\<rfloor> = - 1" using b by (simp add: floor_eq_iff)
    then show ?thesis using b False by (simp add: wrapDegrees_def)
  qed
qed

lemma toDegrees_wrapped:
  "toDegrees rad =
     (if wrapDegrees (toDegreesMath rad) < 1 / 100 \<or> 35999 / 100 < wrapDegrees (toDegreesMath rad) then 0
      else toFixed 2 (wrapDegrees (toDegreesMath rad)))"
proof (cases "\<bar>rad\<bar> < 1 / 10 ^ 10")
  case True
  then show ?thesis using toDegrees_small [OF True] by simp
next
  case False
  define w where "w = wrapDegrees (toDegreesMath rad)"
  have r: "0 \<le> w \<and> w < 360" unfolding w_def by (rule wrapDegrees_range)
  have d1: "(if js_rem (toDegreesMath rad) 360 < 0 then js_rem (toDegreesMath rad) 360 + 360
             else js_rem (toDegreesMath rad) 360) = w"
    unfolding w_def by (rule js_rem_wrap)
  have td: "toDegrees rad =
      toFixed 2 (if \<bar>(if \<bar>w - 360\<bar> < 0.01 then 0 else w)\<bar> < 0.01 then 0 else (if \<bar>w - 360\<bar> < 0.01 then 0 else w))"
    using False d1 by (simp add: toDegrees_def Let_def)
  have z: "toFixed 2 0 = 0" by (simp add: toFixed_def)
  have a: "\<bar>w - 360\<bar> < 0.01 \<longleftrightarrow> 35999 / 100 < w"
  proof -
    have "\<bar>w - 360\<bar> = 360 - w" using r by simp
    moreover have "(0.01::real) = 1 / 100" by simp
    ultimately show ?thesis by linarith
  qed
  have b: "\<bar>w\<bar> < 0.01 \<longleftrightarrow> w < 1 / 100"
  proof -
    have "\<bar>w\<bar> = w" using r by simp
    moreover have "(0.01::real) = 1 / 100" by simp
    ultimately show ?thesis by linarith
  qed
  show ?thesis unfolding td w_def [symmetric]
    using a b z by auto
qed

lemma toDegrees_reported: "reportedAngle rad (toDegrees rad)"
proof -
  define w where "w = wrapDegrees (toDegreesMath rad)"
  have r: "0 \<le> w \<and> w < 360" unfolding w_def by (rule wrapDegrees_range)
  have "\<bar>w\<bar> < 360" using r by simp
  also have "(360::real) < 10 ^ 21" by simp
  finally have "roundedTo 2 w (toFixed 2 w)" by (rule toFixed_rounds)
  then show ?thesis
    using toDegrees_range [of rad] toDegrees_wrapped [of rad]
    by (simp add: reportedAngle_def Let_def w_def)
qed

text \<open>
  C3, as the code has it. With an object bound and a centre, and a model matrix none of
  whose three columns has length zero (\<open>normalize\<close> raises on such a column, and then there
  is no snapshot), \<open>getTransformState\<close> gives a snapshot in which each position component
  is the translation rounded to 2 decimal digits (the code calls \<open>toFixed(2)\<close>), each scale
  component is the column length rounded to 3 decimal digits and is exactly 1 when the
  length is within \<open>1e-5\<close> of 1, and each angle reports the heading, pitch or roll that
  the host finds for the rotation relative to the local frame: the angle in degrees,
  floor-wrapped into \<open>[0, 360)\<close>, given as 0 when it is less than 0.01 away from 0 or from
  360 and rounded to 2 decimal digits otherwise, so that every angle lies in \<open>[0, 360)\<close>.
  Rounding is stated for components below \<open>10^21\<close> in magnitude, where \<open>toFixed\<close> prints
  decimals.
\<close>

theorem getTransformState_rounding:
  assumes "object s = Some ob" "center s = Some c"
    and "\<not> normalizeRaises (m3c0 (getMatrix3 (objectMatrix s ob)))"
    and "\<not> normalizeRaises (m3c1 (getMatrix3 (objectMatrix s ob)))"
    and "\<not> normalizeRaises (m3c2 (getMatrix3 (objectMatrix s ob)))"
  shows "\<exists>st. getTransformState h s = Some st \<and>
           (let mm = objectMatrix s ob;
                p = getTranslation mm;
                k = getScale mm;
                r = getMatrix3 mm;
                hpr = hprFromRotation h
                        (multiply3 (inverse3 h (getMatrix3 (eastNorthUpToFixedFrame h p)))
                           (Matrix3 (normalize (m3c0 r)) (normalize (m3c1 r)) (normalize (m3c2 r))))
            in (\<bar>cx p\<bar> < 10 ^ 21 \<longrightarrow> roundedTo 2 (cx p) (cx (position st)))
             \<and> (\<bar>cy p\<bar> < 10 ^ 21 \<longrightarrow> roundedTo 2 (cy p) (cy (position st)))
             \<and> (\<bar>cz p\<bar> < 10 ^ 21 \<longrightarrow> roundedTo 2 (cz p) (cz (position st)))
             \<and> (\<bar>cx k\<bar> < 10 ^ 21 \<longrightarrow> roundedTo 3 (cx k) (cx (scale st)))
             \<and> (\<bar>cy k\<bar> < 10 ^ 21 \<longrightarrow> roundedTo 3 (cy k) (cy (scale st)))
             \<and> (\<bar>cz k\<bar> < 10 ^ 21 \<longrightarrow> roundedTo 3 (cz k) (cz (scale st)))
             \<and> (\<bar>cx k - 1\<bar> < 1 / 10 ^ 5 \<longrightarrow> cx (scale st) = 1)
             \<and> (\<bar>cy k - 1\<bar> < 1 / 10 ^ 5 \<longrightarrow> cy (scale st) = 1)
             \<and> (\<bar>cz k - 1\<bar> < 1 / 10 ^ 5 \<longrightarrow> cz (scale st) = 1)
             \<and> reportedAngle (heading hpr) (heading (rotation st))
             \<and> reportedAngle (pitch hpr) (pitch (rotation st))
             \<and> reportedAngle (roll hpr) (roll (rotation st)))"
  using assms(1,2) toDegrees_reported
  by (simp add: getTransformState_def Let_def toFixed_rounds cleanScale_rounds cleanScale_snap)

lemma toFixed_sample: "toFixed 2 1.2345 = 1.23"
  by (simp add: toFixed_def)

lemma turnedHost_simps:
  "eastNorthUpToFixedFrame turnedHost = fromTranslation"
  "inverse3 turnedHost = transpose3"
  "hprFromRotation turnedHost = verticalHpr"
  "boundingSphereCenter turnedHost ob = Cartesian3 0 0 0"
  by (simp_all add: turnedHost_def)

lemma unit_circle: "sqrt (cos a * cos a + sin a * sin a) = 1"
  by (simp add: power2_eq_square [symmetric])

lemma unit_circle2: "sqrt (sin a * sin a + cos a * cos a) = 1"
  by (simp add: power2_eq_square [symmetric])

lemma turnedSession_fields:
  "object (turnedSession deg) = Some (Model 1)"
  "center (turnedSession deg) = Some (Cartesian3 0 0 0)"
  "getTranslation (objectMatrix (turnedSession deg) ob) = Cartesian3 1.2345 0 0"
  "getMatrix3 (objectMatrix (turnedSession deg) ob) = fromRotationZ (- toRadians deg)"
  "getScale (objectMatrix (turnedSession deg) ob) = Cartesian3 1 1 1"
  by (simp_all add: turnedSession_def fresh_fields turnedHost_simps vec_defs fromRotationZ_def
       getMatrix3_def unit_circle unit_circle2)

lemma turned_columns:
  "normalize (m3c0 (fromRotationZ a)) = m3c0 (fromRotationZ a)"
  "normalize (m3c1 (fromRotationZ a)) = m3c1 (fromRotationZ a)"
  "normalize (m3c2 (fromRotationZ a)) = m3c2 (fromRotationZ a)"
  "\<not> normalizeRaises (m3c0 (fromRotationZ a))"
  "\<not> normalizeRaises (m3c1 (fromRotationZ a))"
  "\<not> normalizeRaises (m3c2 (fromRotationZ a))"
  by (simp_all add: fromRotationZ_def normalize_def normalizeRaises_def magnitude_def unit_circle unit_circle2)

lemma turned_local:
  "multiply3 (transpose3 (getMatrix3 (fromTranslation p))) (fromRotationZ a) = fromRotationZ a"
  by (simp add: vec_defs fromRotationZ_def getMatrix3_def transpose3_def multiply3_def multiplyByVector3_def)

lemma turned_heading:
  assumes "0 \<le> deg" "deg < 90"
  shows "verticalHpr (fromRotationZ (- toRadians deg)) = HeadingPitchRoll (toRadians deg) 0 0"
proof -
  have "deg * (pi / 180) < 90 * (pi / 180)"
    using assms by (intro mult_strict_right_mono) simp_all
  then have u: "toRadians deg < pi / 2" by (simp add: toRadians_def)
  have l: "0 \<le> toRadians deg" using assms by (simp add: toRadians_def)
  have c: "0 < cos (toRadians deg)" using l u by (intro cos_gt_zero_pi) simp_all
  have "arctan (tan (- toRadians deg)) = - toRadians deg"
    using l u by (intro arctan_tan) simp_all
  then have "arctan (- sin (toRadians deg) / cos (toRadians deg)) = - toRadians deg"
    by (simp add: tan_def)
  then show ?thesis using c by (simp add: verticalHpr_def fromRotationZ_def atan2_def)
qed

lemma degrees_back: "toDegreesMath (toRadians deg) = deg"
  by (simp add: toDegreesMath_def toRadians_def)

lemma wrap_small: "0 \<le> deg \<Longrightarrow> deg < 360 \<Longrightarrow> wrapDegrees deg = deg"
proof -
  assume "0 \<le> deg" "deg < 360"
  then have "\<lfloor>deg / 360\<rfloor> = 0" by (simp add: floor_eq_iff)
  then show ?thesis by (simp add: wrapDegrees_def)
qed

lemma turned_state:
  assumes "0 \<le> deg" "deg < 90"
  shows "map_option (heading \<circ> rotation) (getTransformState turnedHost (turnedSession deg))
           = Some (toDegrees (toRadians deg))"
    and "map_option (cx \<circ> position) (getTransformState turnedHost (turnedSession deg)) = Some 1.23"
  using turned_heading [OF assms] toFixed_sample
  by (simp_all add: getTransformState_def turnedSession_fields Let_def turnedHost_simps turned_columns
        turned_local)

lemma turned_reports:
  "toDegrees (toRadians (7 / 1000)) = 0"
  "toDegrees (toRadians (45678 / 1000)) = 4568 / 100"
  by (simp_all add: toDegrees_wrapped degrees_back wrap_small toFixed_def)


lemma reported_samples:
  "reportedAngle (toRadians (45678 / 1000)) out \<Longrightarrow> roundedTo 2 (45678 / 1000) out"
  "reportedAngle 0 out \<Longrightarrow> out = 0"
proof -
  have w: "wrapDegrees (toDegreesMath (toRadians (45678 / 1000))) = 45678 / 1000"
    unfolding degrees_back by (rule wrap_small) simp_all
  have z: "wrapDegrees (toDegreesMath 0) = 0"
    by (simp add: toDegreesMath_def wrapDegrees_def)
  show "reportedAngle (toRadians (45678 / 1000)) out \<Longrightarrow> roundedTo 2 (45678 / 1000) out"
    unfolding reportedAngle_def Let_def w by simp
  show "reportedAngle 0 out \<Longrightarrow> out = 0"
    unfolding reportedAngle_def Let_def z by simp
qed

text \<open>
  An instance: the model at \<open>x = 1.2345\<close> with a heading of 45.678 degrees, unscaled.
\<close>

theorem getTransformState_rounding_witness:
  "object (turnedSession (45678 / 1000)) = Some (Model 1)
   \<and> center (turnedSession (45678 / 1000)) = Some (Cartesian3 0 0 0)
   \<and> \<not> normalizeRaises (m3c0 (getMatrix3 (objectMatrix (turnedSession (45678 / 1000)) (Model 1))))
   \<and> \<not> normalizeRaises (m3c1 (getMatrix3 (objectMatrix (turnedSession (45678 / 1000)) (Model 1))))
   \<and> \<not> normalizeRaises (m3c2 (getMatrix3 (objectMatrix (turnedSession (45678 / 1000)) (Model 1))))
   \<and> (\<exists>st. getTransformState turnedHost (turnedSession (45678 / 1000)) = Some st
      \<and> roundedTo 2 1.2345 (cx (position st))
      \<and> roundedTo 3 1 (cx (scale st)) \<and> cx (scale st) = 1
      \<and> reportedAngle (toRadians (45678 / 1000)) (heading (rotation st))
      \<and> roundedTo 2 (45678 / 1000) (heading (rotation st))
      \<and> 0 \<le> heading (rotation st) \<and> heading (rotation st) < 360
      \<and> pitch (rotation st) = 0 \<and> roll (rotation st) = 0)"
proof -
  let ?S = "turnedSession (45678 / 1000)"
  have d: "(0::real) \<le> 45678 / 1000" "(45678 / 1000 :: real) < 90" by simp_all
  have o: "object ?S = Some (Model 1)" "center ?S = Some (Cartesian3 0 0 0)"
    by (rule turnedSession_fields)+
  have n: "\<not> normalizeRaises (m3c0 (getMatrix3 (objectMatrix ?S (Model 1))))"
    "\<not> normalizeRaises (m3c1 (getMatrix3 (objectMatrix ?S (Model 1))))"
    "\<not> normalizeRaises (m3c2 (getMatrix3 (objectMatrix ?S (Model 1))))"
    by (simp_all only: turnedSession_fields turned_columns not_False_eq_True)
  have hp: "hprFromRotation turnedHost
              (multiply3 (inverse3 turnedHost (getMatrix3 (eastNorthUpToFixedFrame turnedHost
                                                   (getTranslation (objectMatrix ?S (Model 1))))))
                 (Matrix3 (normalize (m3c0 (getMatrix3 (objectMatrix ?S (Model 1)))))
                          (normalize (m3c1 (getMatrix3 (objectMatrix ?S (Model 1)))))
                          (normalize (m3c2 (getMatrix3 (objectMatrix ?S (Model 1)))))))
            = HeadingPitchRoll (toRadians (45678 / 1000)) 0 0"
  proof -
    have m: "Matrix3 (m3c0 (fromRotationZ a)) (m3c1 (fromRotationZ a)) (m3c2 (fromRotationZ a)) = fromRotationZ a" for a
      by simp
    show ?thesis
      by (simp only: turnedSession_fields turned_columns turnedHost_simps m turned_local turned_heading [OF d])
  qed
  from getTransformState_rounding [OF o n, of turnedHost]
  obtain st where st: "getTransformState turnedHost ?S = Some st"
    and p: "roundedTo 2 1.2345 (cx (position st))"
    and k: "roundedTo 3 1 (cx (scale st))" "cx (scale st) = 1"
    and a: "reportedAngle (toRadians (45678 / 1000)) (heading (rotation st))"
      "reportedAngle 0 (pitch (rotation st))" "reportedAngle 0 (roll (rotation st))"
    unfolding Let_def hp by (auto simp: turnedSession_fields)
  have r: "0 \<le> heading (rotation st) \<and> heading (rotation st) < 360"
    using a(1) by (simp add: reportedAngle_def Let_def)
  show ?thesis
    using o n st p k a(1) reported_samples(1) [OF a(1)] r reported_samples(2) [OF a(2)]
      reported_samples(2) [OF a(3)]
    by simp
qed

text \<open>
  C3 as stated fails for the position and for small angles: for the model at
  \<open>x = 1.2345\<close> with a heading of 0.007 degrees the snapshot gives \<open>x = 1.23\<close>, which is not
  1.2345 rounded to 3 decimal digits, and the heading 0, which is not 0.007 rounded to 2
  decimal digits.
\<close>

theorem snapshot_rounding_differs:
  "cx (getTranslation (objectMatrix (turnedSession (7 / 1000)) (Model 1))) = 1.2345
   \<and> map_option (cx \<circ> position) (getTransformState turnedHost (turnedSession (7 / 1000))) = Some 1.23
   \<and> \<not> roundedTo 3 1.2345 1.23
   \<and> hprFromRotation turnedHost (getMatrix3 (objectMatrix (turnedSession (7 / 1000)) (Model 1)))
       = HeadingPitchRoll (toRadians (7 / 1000)) 0 0
   \<and> toDegreesMath (toRadians (7 / 1000)) = 7 / 1000
   \<and> map_option (heading \<circ> rotation) (getTransformState turnedHost (turnedSession (7 / 1000))) = Some 0
   \<and> \<not> roundedTo 2 (7 / 1000) 0"
proof -
  have d: "(0::real) \<le> 7 / 1000" "(7 / 1000 :: real) < 90" by simp_all
  have h: "hprFromRotation turnedHost (getMatrix3 (objectMatrix (turnedSession (7 / 1000)) (Model 1)))
       = HeadingPitchRoll (toRadians (7 / 1000)) 0 0"
    by (simp only: turnedSession_fields turnedHost_simps turned_heading [OF d])
  show ?thesis
    using turned_state [OF d] h
    by (simp add: turnedSession_fields turned_reports degrees_back roundedTo_def)
qed


section \<open>Quadrant snapping of the rotation handles\<close>

lemma snapAngle_first_quadrant: "0 \<le> angle \<Longrightarrow> angle < pi / 2 \<Longrightarrow> snapAngle angle = 0"
proof -
  assume a: "0 \<le> angle" "angle < pi / 2"
  have "0 \<le> angle / (pi / 2)" using a by simp
  moreover have "angle / (pi / 2) < 1" using a by (simp add: field_simps)
  ultimately have "\<lfloor>angle / (pi / 2)\<rfloor> = 0" by linarith
  then show ?thesis by (simp add: snapAngle_def)
qed

lemma snapAngle_right_angle: "snapAngle (pi / 2) = pi / 2"
  by (simp add: snapAngle_def)

lemma snapAngle_idem: "snapAngle (snapAngle angle) = snapAngle angle"
  by (simp add: snapAngle_def)

lemma atan2_first_quadrant: "0 < a \<Longrightarrow> 0 \<le> b \<Longrightarrow> 0 \<le> atan2 b a \<and> atan2 b a < pi / 2"
  using arctan_ubound [of "b / a"] by (simp add: atan2_def)

lemma atan2_up: "0 < b \<Longrightarrow> atan2 b 0 = pi / 2"
  by (simp add: atan2_def)

lemma axisLetter_keys:
  "axisLetter X = ''X''" "axisLetter Y = ''Y''" "axisLetter Z = ''Z''"
  by (simp_all add: axisLetter_def)

lemma updateAxis_Rotate_lookup:
  assumes "mode s = Rotate"
  shows "axisPrimitives (updateAxis h b e d s a) k =
     (if (k = axisLetter a @ ''_fan'' \<or> k = axisLetter a @ ''_rim'')
         \<and> axisPrimitives s (axisLetter a @ ''_fan'') \<noteq> None
         \<and> axisPrimitives s (axisLetter a @ ''_rim'') \<noteq> None
      then map_option (\<lambda>p. p\<lparr>modelMatrix :=
             multiply e (multiply (fromRotationTranslation (fromAxisAngle h (quadrantAxis a) (snapAngle (viewAngle a d))))
                                  (fromScale (Cartesian3 b b b)))\<rparr>) (axisPrimitives s k)
      else axisPrimitives s k)"
  using assms by (auto simp: updateAxis_def Let_def split: option.splits)

lemma update_Rotate_fan:
  assumes "mode s = Rotate" "center s = Some c"
    and "inverse4 h (eastNorthUpToFixedFrame h c) = Some inverseEnu"
    and "a \<in> {X, Y, Z}"
    and "axisPrimitives s (axisLetter a @ ''_fan'') = Some pFan"
    and "axisPrimitives s (axisLetter a @ ''_rim'') = Some pRim"
  shows "axisPrimitives (update h s) (axisLetter a @ ''_fan'') =
     Some (pFan\<lparr>modelMatrix :=
        multiply (eastNorthUpToFixedFrame h c)
          (multiply (fromRotationTranslation (fromAxisAngle h (quadrantAxis a)
               (snapAngle (viewAngle a (normalize (multiplyByPointAsVector inverseEnu (subtract (cameraPosition h) c)))))))
            (fromScale (Cartesian3 (getPixelSize h c (clientWidth h) (clientHeight h) * axisLength s)
                                   (getPixelSize h c (clientWidth h) (clientHeight h) * axisLength s)
                                   (getPixelSize h c (clientWidth h) (clientHeight h) * axisLength s))))\<rparr>)"
  using assms
  by (auto simp: update_def Let_def updateAxis_Rotate_lookup axisLetter_keys)


lemma update_Rotate_rim:
  assumes "mode s = Rotate" "center s = Some c"
    and "inverse4 h (eastNorthUpToFixedFrame h c) = Some inverseEnu"
    and "a \<in> {X, Y, Z}"
    and "axisPrimitives s (axisLetter a @ ''_fan'') = Some pFan"
    and "axisPrimitives s (axisLetter a @ ''_rim'') = Some pRim"
  shows "axisPrimitives (update h s) (axisLetter a @ ''_rim'') =
     Some (pRim\<lparr>modelMatrix :=
        multiply (eastNorthUpToFixedFrame h c)
          (multiply (fromRotationTranslation (fromAxisAngle h (quadrantAxis a)
               (snapAngle (viewAngle a (normalize (multiplyByPointAsVector inverseEnu (subtract (cameraPosition h) c)))))))
            (fromScale (Cartesian3 (getPixelSize h c (clientWidth h) (clientHeight h) * axisLength s)
                                   (getPixelSize h c (clientWidth h) (clientHeight h) * axisLength s)
                                   (getPixelSize h c (clientWidth h) (clientHeight h) * axisLength s))))\<rparr>)"
  using assms
  by (auto simp: update_def Let_def updateAxis_Rotate_lookup axisLetter_keys)

lemma update_Rotate_again:
  assumes "mode s = Rotate" "center s = Some c"
    and "inverse4 h (eastNorthUpToFixedFrame h c) = Some inverseEnu"
    and "a \<in> {X, Y, Z}"
    and "axisPrimitives s (axisLetter a @ ''_fan'') = Some pFan"
    and "axisPrimitives s (axisLetter a @ ''_rim'') = Some pRim"
  shows "axisPrimitives (update h (update h s)) (axisLetter a @ ''_fan'')
           = axisPrimitives (update h s) (axisLetter a @ ''_fan'')"
proof -
  let ?m = "multiply (eastNorthUpToFixedFrame h c)
          (multiply (fromRotationTranslation (fromAxisAngle h (quadrantAxis a)
               (snapAngle (viewAngle a (normalize (multiplyByPointAsVector inverseEnu (subtract (cameraPosition h) c)))))))
            (fromScale (Cartesian3 (getPixelSize h c (clientWidth h) (clientHeight h) * axisLength s)
                                   (getPixelSize h c (clientWidth h) (clientHeight h) * axisLength s)
                                   (getPixelSize h c (clientWidth h) (clientHeight h) * axisLength s))))"
  have f: "axisPrimitives (update h s) (axisLetter a @ ''_fan'') = Some (pFan\<lparr>modelMatrix := ?m\<rparr>)"
    by (rule update_Rotate_fan [OF assms])
  have r: "axisPrimitives (update h s) (axisLetter a @ ''_rim'') = Some (pRim\<lparr>modelMatrix := ?m\<rparr>)"
    by (rule update_Rotate_rim [OF assms])
  have m: "mode (update h s) = Rotate" "center (update h s) = Some c" using assms(1,2) by simp_all
  have "axisPrimitives (update h (update h s)) (axisLetter a @ ''_fan'')
          = Some (pFan\<lparr>modelMatrix := ?m\<rparr>\<lparr>modelMatrix := ?m\<rparr>)"
    using update_Rotate_fan [OF m assms(3,4) f r] by simp
  with f show ?thesis by simp
qed

text \<open>
  C4. In rotate mode, with the camera not at the centre (\<open>normalize\<close> raises on a camera
  direction of length zero, before anything is written), \<open>update\<close> places the fan and
  the rim of each rotation handle by the local frame, times the rotation about the
  handle's axis by the snapped angle, times the scale; the snapped angle is
  \<open>floor(angle / (\<pi>/2)) \<sqdot> (\<pi>/2)\<close> of the \<open>atan2\<close> angle of the normalised local camera
  direction in the handle's plane (\<open>atan2(y, x)\<close> for Z, \<open>atan2(z, y)\<close> for X,
  \<open>atan2(x, z)\<close> for Y). The snapped angle is 0 for every angle in \<open>[0, 90)\<close> degrees and is
  90 degrees at 90 degrees; snapping a snapped angle changes nothing, and a second
  \<open>update\<close> with the same camera leaves the placement as it is.
\<close>

theorem update_quadrant_snap:
  "(mode s = Rotate \<and> center s = Some c \<and> inverse4 h (eastNorthUpToFixedFrame h c) = Some inverseEnu
      \<and> a \<in> {X, Y, Z}
      \<and> axisPrimitives s (axisLetter a @ ''_fan'') = Some pFan
      \<and> axisPrimitives s (axisLetter a @ ''_rim'') = Some pRim
      \<and> \<not> normalizeRaises (multiplyByPointAsVector inverseEnu (subtract (cameraPosition h) c))
    \<longrightarrow> map_option modelMatrix (axisPrimitives (update h s) (axisLetter a @ ''_fan'')) =
          Some (multiply (eastNorthUpToFixedFrame h c)
            (multiply (fromRotationTranslation (fromAxisAngle h (quadrantAxis a)
               (of_int \<lfloor>viewAngle a (normalize (multiplyByPointAsVector inverseEnu (subtract (cameraPosition h) c)))
                          / (pi / 2)\<rfloor> * (pi / 2))))
              (fromScale (Cartesian3 (getPixelSize h c (clientWidth h) (clientHeight h) * axisLength s)
                                     (getPixelSize h c (clientWidth h) (clientHeight h) * axisLength s)
                                     (getPixelSize h c (clientWidth h) (clientHeight h) * axisLength s)))))
        \<and> map_option modelMatrix (axisPrimitives (update h s) (axisLetter a @ ''_rim''))
            = map_option modelMatrix (axisPrimitives (update h s) (axisLetter a @ ''_fan''))
        \<and> axisPrimitives (update h (update h s)) (axisLetter a @ ''_fan'')
            = axisPrimitives (update h s) (axisLetter a @ ''_fan''))
   \<and> viewAngle Z d = atan2 (cy d) (cx d)
   \<and> viewAngle X d = atan2 (cz d) (cy d)
   \<and> viewAngle Y d = atan2 (cx d) (cz d)
   \<and> snapAngle angle = of_int \<lfloor>angle / (pi / 2)\<rfloor> * (pi / 2)
   \<and> (0 \<le> angle \<and> angle < pi / 2 \<longrightarrow> snapAngle angle = 0)
   \<and> snapAngle (pi / 2) = pi / 2
   \<and> (0 \<le> deg \<and> deg < 90 \<longrightarrow> snapAngle (toRadians deg) = 0)
   \<and> toDegreesMath (snapAngle (toRadians 90)) = 90
   \<and> snapAngle (snapAngle angle) = snapAngle angle
   \<and> (0 < cx d \<and> 0 \<le> cy d \<longrightarrow> snapAngle (viewAngle Z d) = 0)
   \<and> (cx d = 0 \<and> 0 < cy d \<longrightarrow> snapAngle (viewAngle Z d) = pi / 2)"
proof -
  have upd: "mode s = Rotate \<and> center s = Some c \<and> inverse4 h (eastNorthUpToFixedFrame h c) = Some inverseEnu
      \<and> a \<in> {X, Y, Z}
      \<and> axisPrimitives s (axisLetter a @ ''_fan'') = Some pFan
      \<and> axisPrimitives s (axisLetter a @ ''_rim'') = Some pRim
      \<and> \<not> normalizeRaises (multiplyByPointAsVector inverseEnu (subtract (cameraPosition h) c))
    \<longrightarrow> map_option modelMatrix (axisPrimitives (update h s) (axisLetter a @ ''_fan'')) =
          Some (multiply (eastNorthUpToFixedFrame h c)
            (multiply (fromRotationTranslation (fromAxisAngle h (quadrantAxis a)
               (of_int \<lfloor>viewAngle a (normalize (multiplyByPointAsVector inverseEnu (subtract (cameraPosition h) c)))
                          / (pi / 2)\<rfloor> * (pi / 2))))
              (fromScale (Cartesian3 (getPixelSize h c (clientWidth h) (clientHeight h) * axisLength s)
                                     (getPixelSize h c (clientWidth h) (clientHeight h) * axisLength s)
                                     (getPixelSize h c (clientWidth h) (clientHeight h) * axisLength s)))))
        \<and> map_option modelMatrix (axisPrimitives (update h s) (axisLetter a @ ''_rim''))
            = map_option modelMatrix (axisPrimitives (update h s) (axisLetter a @ ''_fan''))
        \<and> axisPrimitives (update h (update h s)) (axisLetter a @ ''_fan'')
            = axisPrimitives (update h s) (axisLetter a @ ''_fan'')"
  proof (intro impI, elim conjE)
    assume h: "mode s = Rotate" "center s = Some c"
      "inverse4 h (eastNorthUpToFixedFrame h c) = Some inverseEnu" "a \<in> {X, Y, Z}"
      "axisPrimitives s (axisLetter a @ ''_fan'') = Some pFan"
      "axisPrimitives s (axisLetter a @ ''_rim'') = Some pRim"
    show "map_option modelMatrix (axisPrimitives (update h s) (axisLetter a @ ''_fan'')) =
          Some (multiply (eastNorthUpToFixedFrame h c)
            (multiply (fromRotationTranslation (fromAxisAngle h (quadrantAxis a)
               (of_int \<lfloor>viewAngle a (normalize (multiplyByPointAsVector inverseEnu (subtract (cameraPosition h) c)))
                          / (pi / 2)\<rfloor> * (pi / 2))))
              (fromScale (Cartesian3 (getPixelSize h c (clientWidth h) (clientHeight h) * axisLength s)
                                     (getPixelSize h c (clientWidth h) (clientHeight h) * axisLength s)
                                     (getPixelSize h c (clientWidth h) (clientHeight h) * axisLength s)))))
        \<and> map_option modelMatrix (axisPrimitives (update h s) (axisLetter a @ ''_rim''))
            = map_option modelMatrix (axisPrimitives (update h s) (axisLetter a @ ''_fan''))
        \<and> axisPrimitives (update h (update h s)) (axisLetter a @ ''_fan'')
            = axisPrimitives (update h s) (axisLetter a @ ''_fan'')"
      using update_Rotate_fan [OF h] update_Rotate_rim [OF h] update_Rotate_again [OF h]
      by (simp add: snapAngle_def Let_def)
  qed
  have deg: "0 \<le> deg \<and> deg < 90 \<longrightarrow> snapAngle (toRadians deg) = 0"
  proof (intro impI, elim conjE)
    assume a: "0 \<le> deg" "deg < 90"
    have "0 \<le> toRadians deg" using a by (simp add: toRadians_def)
    moreover have "deg * (pi / 180) < 90 * (pi / 180)"
      using a by (intro mult_strict_right_mono) simp_all
    then have "toRadians deg < pi / 2" by (simp add: toRadians_def)
    ultimately show "snapAngle (toRadians deg) = 0" by (rule snapAngle_first_quadrant)
  qed
  have r90: "toRadians 90 = pi / 2" by (simp add: toRadians_def)
  have d90: "toDegreesMath (snapAngle (toRadians 90)) = 90"
    by (simp add: r90 snapAngle_right_angle toDegreesMath_def)
  have q1: "0 < cx d \<and> 0 \<le> cy d \<longrightarrow> snapAngle (viewAngle Z d) = 0"
    using atan2_first_quadrant [of "cx d" "cy d"]
    by (auto simp: viewAngle_def intro: snapAngle_first_quadrant)
  have q2: "cx d = 0 \<and> 0 < cy d \<longrightarrow> snapAngle (viewAngle Z d) = pi / 2"
    by (auto simp: viewAngle_def atan2_up snapAngle_right_angle)
  have va: "viewAngle Z d = atan2 (cy d) (cx d)" "viewAngle X d = atan2 (cz d) (cy d)"
    "viewAngle Y d = atan2 (cx d) (cz d)"
    by (simp_all add: viewAngle_def)
  have sa: "snapAngle angle = of_int \<lfloor>angle / (pi / 2)\<rfloor> * (pi / 2)"
    by (simp add: snapAngle_def)
  have fq: "0 \<le> angle \<and> angle < pi / 2 \<longrightarrow> snapAngle angle = 0"
    by (auto intro: snapAngle_first_quadrant)
  show ?thesis
    using upd va sa fq snapAngle_right_angle deg d90 snapAngle_idem [of angle] q1 q2
    by blast
qed

lemma built_fan_rim:
  "mode (builtSession Rotate) = Rotate"
  "center (builtSession Rotate) = Some (Cartesian3 0 0 0)"
  "axisLength (builtSession Rotate) = 120"
  "axisPrimitives (builtSession Rotate) (axisLetter Z @ ''_fan'')
     = Some (newPrimitive (GizmoId Z (ModeType Rotate) ''ROT_Z'' 1) (withAlpha (colorOf Z) 0.2))"
  "axisPrimitives (builtSession Rotate) (axisLetter Z @ ''_rim'')
     = Some (newPrimitive (GizmoId Z (ModeType Rotate) ''ROT_Z'' 1) (colorOf Z))"
  by (simp_all add: builtSession_def fresh_fields fresh_defs Let_def createGizmo_prims_Rotate axisLetter_def)

lemma obliqueHost_simps:
  "cameraPosition obliqueHost = Cartesian3 (- 3) 4 12"
  "getPixelSize obliqueHost c w hgt = 1 / 120"
  "eastNorthUpToFixedFrame obliqueHost = fromTranslation"
  "inverse4 obliqueHost = sampleInverse"
  "fromAxisAngle obliqueHost = sampleAxisAngle"
  by (simp_all add: obliqueHost_def)

lemma snapAngle_second_quadrant: "pi / 2 \<le> angle \<Longrightarrow> angle < pi \<Longrightarrow> snapAngle angle = pi / 2"
proof -
  assume a: "pi / 2 \<le> angle" "angle < pi"
  have "1 \<le> angle / (pi / 2)" using a by (simp add: field_simps)
  moreover have "angle / (pi / 2) < 2" using a by (simp add: field_simps)
  ultimately have "\<lfloor>angle / (pi / 2)\<rfloor> = 1" by linarith
  then show ?thesis by (simp add: snapAngle_def)
qed

lemma snapAngle_fourth_quadrant: "- (pi / 2) \<le> angle \<Longrightarrow> angle < 0 \<Longrightarrow> snapAngle angle = - (pi / 2)"
proof -
  assume a: "- (pi / 2) \<le> angle" "angle < 0"
  have "- 1 \<le> angle / (pi / 2)" using a by (simp add: field_simps)
  moreover have "angle / (pi / 2) < 0" using a by (simp add: field_simps)
  ultimately have "\<lfloor>angle / (pi / 2)\<rfloor> = - 1" by linarith
  then show ?thesis by (simp add: snapAngle_def)
qed

lemma atan2_second_quadrant: "a < 0 \<Longrightarrow> 0 < b \<Longrightarrow> pi / 2 \<le> atan2 b a \<and> atan2 b a < pi"
proof -
  assume h: "a < 0" "0 < b"
  then have "b / a < 0" by (simp add: divide_neg_pos field_simps)
  then have "arctan (b / a) < 0" by (simp add: arctan_less_zero_iff)
  moreover have "- (pi / 2) < arctan (b / a)" by (rule arctan_lbound)
  ultimately show ?thesis using h by (simp add: atan2_def)
qed

lemma atan2_fourth_quadrant: "0 < a \<Longrightarrow> b < 0 \<Longrightarrow> - (pi / 2) \<le> atan2 b a \<and> atan2 b a < 0"
proof -
  assume h: "0 < a" "b < 0"
  then have "b / a < 0" by (simp add: field_simps)
  then have "arctan (b / a) < 0" by (simp add: arctan_less_zero_iff)
  moreover have "- (pi / 2) < arctan (b / a)" by (rule arctan_lbound)
  ultimately show ?thesis using h by (simp add: atan2_def)
qed

lemma sample_directions:
  "normalize (multiplyByPointAsVector IDENTITY (subtract (Cartesian3 0 0 10) (Cartesian3 0 0 0))) = Cartesian3 0 0 1"
  "normalize (multiplyByPointAsVector IDENTITY (subtract (Cartesian3 (- 3) 4 12) (Cartesian3 0 0 0)))
     = Cartesian3 (- 3 / 13) (4 / 13) (12 / 13)"
  "\<not> normalizeRaises (multiplyByPointAsVector IDENTITY (subtract (Cartesian3 0 0 10) (Cartesian3 0 0 0)))"
  "\<not> normalizeRaises (multiplyByPointAsVector IDENTITY (subtract (Cartesian3 (- 3) 4 12) (Cartesian3 0 0 0)))"
proof -
  have s: "sqrt 169 = 13" using real_sqrt_abs [of 13] by simp
  show "normalize (multiplyByPointAsVector IDENTITY (subtract (Cartesian3 0 0 10) (Cartesian3 0 0 0))) = Cartesian3 0 0 1"
    by (simp add: normalize_def subtract_def magnitude_def)
  show "normalize (multiplyByPointAsVector IDENTITY (subtract (Cartesian3 (- 3) 4 12) (Cartesian3 0 0 0)))
     = Cartesian3 (- 3 / 13) (4 / 13) (12 / 13)"
    by (simp add: normalize_def subtract_def magnitude_def s)
  show "\<not> normalizeRaises (multiplyByPointAsVector IDENTITY (subtract (Cartesian3 0 0 10) (Cartesian3 0 0 0)))"
    by (simp add: normalizeRaises_def subtract_def magnitude_def)
  show "\<not> normalizeRaises (multiplyByPointAsVector IDENTITY (subtract (Cartesian3 (- 3) 4 12) (Cartesian3 0 0 0)))"
    by (simp add: normalizeRaises_def subtract_def magnitude_def s)
qed

lemma sample_snaps:
  "snapAngle (viewAngle X (Cartesian3 0 0 1)) = pi / 2"
  "snapAngle (viewAngle Y (Cartesian3 0 0 1)) = 0"
  "snapAngle (viewAngle Z (Cartesian3 (- 3 / 13) (4 / 13) (12 / 13))) = pi / 2"
  "snapAngle (viewAngle X (Cartesian3 (- 3 / 13) (4 / 13) (12 / 13))) = 0"
  "snapAngle (viewAngle Y (Cartesian3 (- 3 / 13) (4 / 13) (12 / 13))) = - (pi / 2)"
proof -
  show "snapAngle (viewAngle X (Cartesian3 0 0 1)) = pi / 2"
    by (simp add: viewAngle_def atan2_up snapAngle_right_angle)
  show "snapAngle (viewAngle Y (Cartesian3 0 0 1)) = 0"
    by (simp add: viewAngle_def atan2_def snapAngle_def)
  show "snapAngle (viewAngle Z (Cartesian3 (- 3 / 13) (4 / 13) (12 / 13))) = pi / 2"
    using atan2_second_quadrant [of "- 3 / 13" "4 / 13"]
    by (simp add: viewAngle_def snapAngle_second_quadrant)
  show "snapAngle (viewAngle X (Cartesian3 (- 3 / 13) (4 / 13) (12 / 13))) = 0"
    using atan2_first_quadrant [of "4 / 13" "12 / 13"]
    by (simp add: viewAngle_def snapAngle_first_quadrant)
  show "snapAngle (viewAngle Y (Cartesian3 (- 3 / 13) (4 / 13) (12 / 13))) = - (pi / 2)"
    using atan2_fourth_quadrant [of "12 / 13" "- 3 / 13"]
    by (simp add: viewAngle_def snapAngle_fourth_quadrant)
qed

lemma sample_turns:
  "multiply (fromTranslation (Cartesian3 0 0 0))
     (multiply (fromRotationTranslation (sampleAxisAngle (quadrantAxis X) (pi / 2))) (fromScale (Cartesian3 1 1 1)))
   = Matrix4 (Cartesian4 1 0 0 0) (Cartesian4 0 0 1 0) (Cartesian4 0 (- 1) 0 0) (Cartesian4 0 0 0 1)"
  "multiply (fromTranslation (Cartesian3 0 0 0))
     (multiply (fromRotationTranslation (sampleAxisAngle (quadrantAxis Z) (pi / 2))) (fromScale (Cartesian3 1 1 1)))
   = Matrix4 (Cartesian4 0 1 0 0) (Cartesian4 (- 1) 0 0 0) (Cartesian4 0 0 1 0) (Cartesian4 0 0 0 1)"
  "multiply (fromTranslation (Cartesian3 0 0 0))
     (multiply (fromRotationTranslation (sampleAxisAngle k 0)) (fromScale (Cartesian3 1 1 1)))
   = IDENTITY"
  "multiply (fromTranslation (Cartesian3 0 0 0))
     (multiply (fromRotationTranslation (sampleAxisAngle (quadrantAxis Y) (- (pi / 2)))) (fromScale (Cartesian3 1 1 1)))
   = Matrix4 (Cartesian4 0 0 1 0) (Cartesian4 0 1 0 0) (Cartesian4 (- 1) 0 0 0) (Cartesian4 0 0 0 1)"
  by (simp_all add: vec_defs quadrantAxis_def sampleAxisAngle_def UNIT_X_def UNIT_Y_def UNIT_Z_def Let_def IDENTITY_def)

lemma built_fan_rim_XY:
  "axisPrimitives (builtSession Rotate) (axisLetter X @ ''_fan'')
     = Some (newPrimitive (GizmoId X (ModeType Rotate) ''ROT_X'' 1) (withAlpha (colorOf X) 0.2))"
  "axisPrimitives (builtSession Rotate) (axisLetter X @ ''_rim'')
     = Some (newPrimitive (GizmoId X (ModeType Rotate) ''ROT_X'' 1) (colorOf X))"
  "axisPrimitives (builtSession Rotate) (axisLetter Y @ ''_fan'')
     = Some (newPrimitive (GizmoId Y (ModeType Rotate) ''ROT_Y'' 1) (withAlpha (colorOf Y) 0.2))"
  "axisPrimitives (builtSession Rotate) (axisLetter Y @ ''_rim'')
     = Some (newPrimitive (GizmoId Y (ModeType Rotate) ''ROT_Y'' 1) (colorOf Y))"
  by (simp_all add: builtSession_def fresh_fields fresh_defs Let_def createGizmo_prims_Rotate axisLetter_def)


lemma snap_unfold: "of_int \<lfloor>angle / (pi / 2)\<rfloor> * (pi / 2) = snapAngle angle"
  by (simp add: snapAngle_def)

text \<open>
  In the sample rotate session as built. With the camera straight above, the direction
  is \<open>(0, 0, 1)\<close>: the angle in the plane of the X handle is 90 degrees and its fan and rim
  are turned by a quarter about X, while the Y handle stays as built. With the camera at
  \<open>(-3, 4, 12)\<close> the direction is \<open>(-3, 4, 12) / 13\<close>: the Z handle is turned by a quarter
  (its angle lies between 90 and 180 degrees), the X handle stays (between 0 and 90), the
  Y handle is turned back by a quarter (between -90 and 0). Then the angle 45 degrees and
  the camera directions \<open>(1, 0, 0)\<close> and \<open>(0, 1, 0)\<close>.
\<close>

theorem update_quadrant_snap_witness:
  "mode (builtSession Rotate) = Rotate
   \<and> center (builtSession Rotate) = Some (Cartesian3 0 0 0)
   \<and> inverse4 sampleHost (eastNorthUpToFixedFrame sampleHost (Cartesian3 0 0 0)) = Some IDENTITY
   \<and> inverse4 obliqueHost (eastNorthUpToFixedFrame obliqueHost (Cartesian3 0 0 0)) = Some IDENTITY
   \<and> \<not> normalizeRaises (multiplyByPointAsVector IDENTITY (subtract (cameraPosition sampleHost) (Cartesian3 0 0 0)))
   \<and> \<not> normalizeRaises (multiplyByPointAsVector IDENTITY (subtract (cameraPosition obliqueHost) (Cartesian3 0 0 0)))
   \<and> map_option modelMatrix (axisPrimitives (builtSession Rotate) ''X_fan'') = Some IDENTITY
   \<and> map_option modelMatrix (axisPrimitives (update sampleHost (builtSession Rotate)) ''X_fan'')
       = Some (Matrix4 (Cartesian4 1 0 0 0) (Cartesian4 0 0 1 0) (Cartesian4 0 (- 1) 0 0) (Cartesian4 0 0 0 1))
   \<and> map_option modelMatrix (axisPrimitives (update sampleHost (builtSession Rotate)) ''X_rim'')
       = Some (Matrix4 (Cartesian4 1 0 0 0) (Cartesian4 0 0 1 0) (Cartesian4 0 (- 1) 0 0) (Cartesian4 0 0 0 1))
   \<and> map_option modelMatrix (axisPrimitives (update sampleHost (builtSession Rotate)) ''Y_fan'') = Some IDENTITY
   \<and> map_option modelMatrix (axisPrimitives (update obliqueHost (builtSession Rotate)) ''Z_fan'')
       = Some (Matrix4 (Cartesian4 0 1 0 0) (Cartesian4 (- 1) 0 0 0) (Cartesian4 0 0 1 0) (Cartesian4 0 0 0 1))
   \<and> map_option modelMatrix (axisPrimitives (update obliqueHost (builtSession Rotate)) ''X_fan'') = Some IDENTITY
   \<and> map_option modelMatrix (axisPrimitives (update obliqueHost (builtSession Rotate)) ''Y_fan'')
       = Some (Matrix4 (Cartesian4 0 0 1 0) (Cartesian4 0 1 0 0) (Cartesian4 (- 1) 0 0 0) (Cartesian4 0 0 0 1))
   \<and> axisPrimitives (update obliqueHost (update obliqueHost (builtSession Rotate))) ''Z_fan''
       = axisPrimitives (update obliqueHost (builtSession Rotate)) ''Z_fan''
   \<and> snapAngle (pi / 4) = 0
   \<and> snapAngle (toRadians 45) = 0
   \<and> snapAngle (viewAngle Z (Cartesian3 1 0 0)) = 0
   \<and> snapAngle (viewAngle Z (Cartesian3 0 1 0)) = pi / 2"
proof -
  have i: "inverse4 sampleHost (eastNorthUpToFixedFrame sampleHost (Cartesian3 0 0 0)) = Some IDENTITY"
    "inverse4 obliqueHost (eastNorthUpToFixedFrame obliqueHost (Cartesian3 0 0 0)) = Some IDENTITY"
    by (simp_all add: obliqueHost_simps)
  have a: "0 \<le> pi / 4 \<and> pi / 4 < pi / 2" by simp
  have dg: "(0::real) \<le> 45 \<and> (45::real) < 90" by simp
  have q1: "0 < cx (Cartesian3 1 0 0) \<and> 0 \<le> cy (Cartesian3 1 0 0)" by simp
  have q2: "cx (Cartesian3 0 1 0) = 0 \<and> 0 < cy (Cartesian3 0 1 0)" by simp
  have n: "\<not> normalizeRaises (multiplyByPointAsVector IDENTITY (subtract (cameraPosition sampleHost) (Cartesian3 0 0 0)))"
    "\<not> normalizeRaises (multiplyByPointAsVector IDENTITY (subtract (cameraPosition obliqueHost) (Cartesian3 0 0 0)))"
    using sample_directions(3,4) by (simp_all add: obliqueHost_simps)
  have k: "axisLetter X @ ''_fan'' = ''X_fan''" "axisLetter X @ ''_rim'' = ''X_rim''"
    "axisLetter Y @ ''_fan'' = ''Y_fan''" "axisLetter Y @ ''_rim'' = ''Y_rim''"
    "axisLetter Z @ ''_fan'' = ''Z_fan''" "axisLetter Z @ ''_rim'' = ''Z_rim''"
    by (simp_all add: axisLetter_keys)
  have b0: "map_option modelMatrix (axisPrimitives (builtSession Rotate) ''X_fan'') = Some IDENTITY"
    using built_fan_rim_XY(1) by (simp add: axisLetter_keys newPrimitive_def)
  have sc: "getPixelSize sampleHost (Cartesian3 0 0 0) (clientWidth sampleHost) (clientHeight sampleHost)
              * axisLength (builtSession Rotate) = 1"
    "getPixelSize obliqueHost (Cartesian3 0 0 0) (clientWidth obliqueHost) (clientHeight obliqueHost)
              * axisLength (builtSession Rotate) = 1"
    by (simp_all add: built_fan_rim obliqueHost_simps)
  have ds: "normalize (multiplyByPointAsVector IDENTITY (subtract (cameraPosition sampleHost) (Cartesian3 0 0 0)))
              = Cartesian3 0 0 1"
    "normalize (multiplyByPointAsVector IDENTITY (subtract (cameraPosition obliqueHost) (Cartesian3 0 0 0)))
              = Cartesian3 (- 3 / 13) (4 / 13) (12 / 13)"
    using sample_directions(1,2) by (simp_all add: obliqueHost_simps)
  have e: "eastNorthUpToFixedFrame sampleHost (Cartesian3 0 0 0) = fromTranslation (Cartesian3 0 0 0)"
    "eastNorthUpToFixedFrame obliqueHost (Cartesian3 0 0 0) = fromTranslation (Cartesian3 0 0 0)"
    "fromAxisAngle sampleHost = sampleAxisAngle" "fromAxisAngle obliqueHost = sampleAxisAngle"
    by (simp_all add: obliqueHost_simps)
  have sx: "map_option modelMatrix (axisPrimitives (update sampleHost (builtSession Rotate)) ''X_fan'')
       = Some (Matrix4 (Cartesian4 1 0 0 0) (Cartesian4 0 0 1 0) (Cartesian4 0 (- 1) 0 0) (Cartesian4 0 0 0 1))
     \<and> map_option modelMatrix (axisPrimitives (update sampleHost (builtSession Rotate)) ''X_rim'')
       = map_option modelMatrix (axisPrimitives (update sampleHost (builtSession Rotate)) ''X_fan'')
     \<and> axisPrimitives (update sampleHost (update sampleHost (builtSession Rotate))) ''X_fan''
       = axisPrimitives (update sampleHost (builtSession Rotate)) ''X_fan''"
  proof -
    have hyp: "mode (builtSession Rotate) = Rotate \<and> center (builtSession Rotate) = Some (Cartesian3 0 0 0)
        \<and> inverse4 sampleHost (eastNorthUpToFixedFrame sampleHost (Cartesian3 0 0 0)) = Some IDENTITY
        \<and> X \<in> {X, Y, Z}
        \<and> axisPrimitives (builtSession Rotate) (axisLetter X @ ''_fan'')
            = Some (newPrimitive (GizmoId X (ModeType Rotate) ''ROT_X'' 1) (withAlpha (colorOf X) 0.2))
        \<and> axisPrimitives (builtSession Rotate) (axisLetter X @ ''_rim'')
            = Some (newPrimitive (GizmoId X (ModeType Rotate) ''ROT_X'' 1) (colorOf X))
        \<and> \<not> normalizeRaises (multiplyByPointAsVector IDENTITY (subtract (cameraPosition sampleHost) (Cartesian3 0 0 0)))"
      using built_fan_rim built_fan_rim_XY i(1) n(1) by simp
    from update_quadrant_snap [of "builtSession Rotate" "Cartesian3 0 0 0" sampleHost IDENTITY X
        "newPrimitive (GizmoId X (ModeType Rotate) ''ROT_X'' 1) (withAlpha (colorOf X) 0.2)"
        "newPrimitive (GizmoId X (ModeType Rotate) ''ROT_X'' 1) (colorOf X)"
        "Cartesian3 1 0 0" "pi / 4" 45, THEN conjunct1, THEN mp, OF hyp]
    show ?thesis
      by (simp only: k sc ds e snap_unfold sample_snaps sample_turns)
  qed
  have sy: "map_option modelMatrix (axisPrimitives (update sampleHost (builtSession Rotate)) ''Y_fan'')
       = Some (IDENTITY)
     \<and> map_option modelMatrix (axisPrimitives (update sampleHost (builtSession Rotate)) ''Y_rim'')
       = map_option modelMatrix (axisPrimitives (update sampleHost (builtSession Rotate)) ''Y_fan'')
     \<and> axisPrimitives (update sampleHost (update sampleHost (builtSession Rotate))) ''Y_fan''
       = axisPrimitives (update sampleHost (builtSession Rotate)) ''Y_fan''"
  proof -
    have hyp: "mode (builtSession Rotate) = Rotate \<and> center (builtSession Rotate) = Some (Cartesian3 0 0 0)
        \<and> inverse4 sampleHost (eastNorthUpToFixedFrame sampleHost (Cartesian3 0 0 0)) = Some IDENTITY
        \<and> Y \<in> {X, Y, Z}
        \<and> axisPrimitives (builtSession Rotate) (axisLetter Y @ ''_fan'')
            = Some (newPrimitive (GizmoId Y (ModeType Rotate) ''ROT_Y'' 1) (withAlpha (colorOf Y) 0.2))
        \<and> axisPrimitives (builtSession Rotate) (axisLetter Y @ ''_rim'')
            = Some (newPrimitive (GizmoId Y (ModeType Rotate) ''ROT_Y'' 1) (colorOf Y))
        \<and> \<not> normalizeRaises (multiplyByPointAsVector IDENTITY (subtract (cameraPosition sampleHost) (Cartesian3 0 0 0)))"
      using built_fan_rim built_fan_rim_XY i(1) n(1) by simp
    from update_quadrant_snap [of "builtSession Rotate" "Cartesian3 0 0 0" sampleHost IDENTITY Y
        "newPrimitive (GizmoId Y (ModeType Rotate) ''ROT_Y'' 1) (withAlpha (colorOf Y) 0.2)"
        "newPrimitive (GizmoId Y (ModeType Rotate) ''ROT_Y'' 1) (colorOf Y)"
        "Cartesian3 1 0 0" "pi / 4" 45, THEN conjunct1, THEN mp, OF hyp]
    show ?thesis
      by (simp only: k sc ds e snap_unfold sample_snaps sample_turns)
  qed
  have oz: "map_option modelMatrix (axisPrimitives (update obliqueHost (builtSession Rotate)) ''Z_fan'')
       = Some (Matrix4 (Cartesian4 0 1 0 0) (Cartesian4 (- 1) 0 0 0) (Cartesian4 0 0 1 0) (Cartesian4 0 0 0 1))
     \<and> map_option modelMatrix (axisPrimitives (update obliqueHost (builtSession Rotate)) ''Z_rim'')
       = map_option modelMatrix (axisPrimitives (update obliqueHost (builtSession Rotate)) ''Z_fan'')
     \<and> axisPrimitives (update obliqueHost (update obliqueHost (builtSession Rotate))) ''Z_fan''
       = axisPrimitives (update obliqueHost (builtSession Rotate)) ''Z_fan''"
  proof -
    have hyp: "mode (builtSession Rotate) = Rotate \<and> center (builtSession Rotate) = Some (Cartesian3 0 0 0)
        \<and> inverse4 obliqueHost (eastNorthUpToFixedFrame obliqueHost (Cartesian3 0 0 0)) = Some IDENTITY
        \<and> Z \<in> {X, Y, Z}
        \<and> axisPrimitives (builtSession Rotate) (axisLetter Z @ ''_fan'')
            = Some (newPrimitive (GizmoId Z (ModeType Rotate) ''ROT_Z'' 1) (withAlpha (colorOf Z) 0.2))
        \<and> axisPrimitives (builtSession Rotate) (axisLetter Z @ ''_rim'')
            = Some (newPrimitive (GizmoId Z (ModeType Rotate) ''ROT_Z'' 1) (colorOf Z))
        \<and> \<not> normalizeRaises (multiplyByPointAsVector IDENTITY (subtract (cameraPosition obliqueHost) (Cartesian3 0 0 0)))"
      using built_fan_rim built_fan_rim_XY i(2) n(2) by simp
    from update_quadrant_snap [of "builtSession Rotate" "Cartesian3 0 0 0" obliqueHost IDENTITY Z
        "newPrimitive (GizmoId Z (ModeType Rotate) ''ROT_Z'' 1) (withAlpha (colorOf Z) 0.2)"
        "newPrimitive (GizmoId Z (ModeType Rotate) ''ROT_Z'' 1) (colorOf Z)"
        "Cartesian3 1 0 0" "pi / 4" 45, THEN conjunct1, THEN mp, OF hyp]
    show ?thesis
      by (simp only: k sc ds e snap_unfold sample_snaps sample_turns)
  qed
  have ox: "map_option modelMatrix (axisPrimitives (update obliqueHost (builtSession Rotate)) ''X_fan'')
       = Some (IDENTITY)
     \<and> map_option modelMatrix (axisPrimitives (update obliqueHost (builtSession Rotate)) ''X_rim'')
       = map_option modelMatrix (axisPrimitives (update obliqueHost (builtSession Rotate)) ''X_fan'')
     \<and> axisPrimitives (update obliqueHost (update obliqueHost (builtSession Rotate))) ''X_fan''
       = axisPrimitives (update obliqueHost (builtSession Rotate)) ''X_fan''"
  proof -
    have hyp: "mode (builtSession Rotate) = Rotate \<and> center (builtSession Rotate) = Some (Cartesian3 0 0 0)
        \<and> inverse4 obliqueHost (eastNorthUpToFixedFrame obliqueHost (Cartesian3 0 0 0)) = Some IDENTITY
        \<and> X \<in> {X, Y, Z}
        \<and> axisPrimitives (builtSession Rotate) (axisLetter X @ ''_fan'')
            = Some (newPrimitive (GizmoId X (ModeType Rotate) ''ROT_X'' 1) (withAlpha (colorOf X) 0.2))
        \<and> axisPrimitives (builtSession Rotate) (axisLetter X @ ''_rim'')
            = Some (newPrimitive (GizmoId X (ModeType Rotate) ''ROT_X'' 1) (colorOf X))
        \<and> \<not> normalizeRaises (multiplyByPointAsVector IDENTITY (subtract (cameraPosition obliqueHost) (Cartesian3 0 0 0)))"
      using built_fan_rim built_fan_rim_XY i(2) n(2) by simp
    from update_quadrant_snap [of "builtSession Rotate" "Cartesian3 0 0 0" obliqueHost IDENTITY X
        "newPrimitive (GizmoId X (ModeType Rotate) ''ROT_X'' 1) (withAlpha (colorOf X) 0.2)"
        "newPrimitive (GizmoId X (ModeType Rotate) ''ROT_X'' 1) (colorOf X)"
        "Cartesian3 1 0 0" "pi / 4" 45, THEN conjunct1, THEN mp, OF hyp]
    show ?thesis
      by (simp only: k sc ds e snap_unfold sample_snaps sample_turns)
  qed
  have oy: "map_option modelMatrix (axisPrimitives (update obliqueHost (builtSession Rotate)) ''Y_fan'')
       = Some (Matrix4 (Cartesian4 0 0 1 0) (Cartesian4 0 1 0 0) (Cartesian4 (- 1) 0 0 0) (Cartesian4 0 0 0 1))
     \<and> map_option modelMatrix (axisPrimitives (update obliqueHost (builtSession Rotate)) ''Y_rim'')
       = map_option modelMatrix (axisPrimitives (update obliqueHost (builtSession Rotate)) ''Y_fan'')
     \<and> axisPrimitives (update obliqueHost (update obliqueHost (builtSession Rotate))) ''Y_fan''
       = axisPrimitives (update obliqueHost (builtSession Rotate)) ''Y_fan''"
  proof -
    have hyp: "mode (builtSession Rotate) = Rotate \<and> center (builtSession Rotate) = Some (Cartesian3 0 0 0)
        \<and> inverse4 obliqueHost (eastNorthUpToFixedFrame obliqueHost (Cartesian3 0 0 0)) = Some IDENTITY
        \<and> Y \<in> {X, Y, Z}
        \<and> axisPrimitives (builtSession Rotate) (axisLetter Y @ ''_fan'')
            = Some (newPrimitive (GizmoId Y (ModeType Rotate) ''ROT_Y'' 1) (withAlpha (colorOf Y) 0.2))
        \<and> axisPrimitives (builtSession Rotate) (axisLetter Y @ ''_rim'')
            = Some (newPrimitive (GizmoId Y (ModeType Rotate) ''ROT_Y'' 1) (colorOf Y))
        \<and> \<not> normalizeRaises (multiplyByPointAsVector IDENTITY (subtract (cameraPosition obliqueHost) (Cartesian3 0 0 0)))"
      using built_fan_rim built_fan_rim_XY i(2) n(2) by simp
    from update_quadrant_snap [of "builtSession Rotate" "Cartesian3 0 0 0" obliqueHost IDENTITY Y
        "newPrimitive (GizmoId Y (ModeType Rotate) ''ROT_Y'' 1) (withAlpha (colorOf Y) 0.2)"
        "newPrimitive (GizmoId Y (ModeType Rotate) ''ROT_Y'' 1) (colorOf Y)"
        "Cartesian3 1 0 0" "pi / 4" 45, THEN conjunct1, THEN mp, OF hyp]
    show ?thesis
      by (simp only: k sc ds e snap_unfold sample_snaps sample_turns)
  qed
  note gen = update_quadrant_snap [of "builtSession Rotate" "Cartesian3 0 0 0" sampleHost IDENTITY Z
        "newPrimitive (GizmoId Z (ModeType Rotate) ''ROT_Z'' 1) (withAlpha (colorOf Z) 0.2)"
        "newPrimitive (GizmoId Z (ModeType Rotate) ''ROT_Z'' 1) (colorOf Z)"]
  have g1: "snapAngle (pi / 4) = 0" "snapAngle (toRadians 45) = 0"
    using gen [of "Cartesian3 1 0 0" "pi / 4" 45] a dg by blast+
  have g2: "snapAngle (viewAngle Z (Cartesian3 1 0 0)) = 0"
    using gen [of "Cartesian3 1 0 0" "pi / 4" 45] q1 by blast
  have g3: "snapAngle (viewAngle Z (Cartesian3 0 1 0)) = pi / 2"
    using gen [of "Cartesian3 0 1 0" "pi / 4" 45] q2 by blast
  show ?thesis
    using built_fan_rim(1,2) i n b0 sx sy oz ox oy g1 g2 g3
    by simp
qed


section \<open>Scale and rotation ticks\<close>

lemma clamp_range: "lo \<le> hi \<Longrightarrow> lo \<le> clamp v lo hi \<and> clamp v lo hi \<le> hi"
  by (simp add: clamp_def)

text \<open>
  C5. In a scale tick with a centre and a handle of non-zero length on screen (so that the
  sensitivity \<open>1 / (axisLength \<sqdot> pixelSize)\<close> is a finite number), the factor is
  \<open>max(0.01, 1 + dot(delta, cameraUp) \<sqdot> sensitivity \<sqdot> 2)\<close> for the CENTER handle, applied to
  all three axes, and \<open>max(0.01, 1 + dot(delta, axisVector) \<sqdot> sensitivity)\<close> for an axis handle,
  applied to that axis in the local frame. Either factor is at least 0.01, and is exactly
  0.01 whenever the value under the \<open>max\<close> is below 0.01.
\<close>

theorem updateScale_factor_floor:
  assumes "center s = Some c"
    and "axisLength s * getPixelSize h c (canvasWidth h) (canvasHeight h) \<noteq> 0"
  shows "(let sensitivity = 1 / (axisLength s * getPixelSize h c (canvasWidth h) (canvasHeight h));
              moveVector = subtract newPoint (dragStartPoint s);
              rawCenter = 1 + dot moveVector (cameraUp h) * sensitivity * 2;
              fc = max 0.01 rawCenter;
              enuMatrix = eastNorthUpToFixedFrame h c;
              axisVector = normalize (axisColumn enuMatrix (nameAxis (dragAxisName s)));
              rawAxis = 1 + dot moveVector axisVector * sensitivity;
              fa = max 0.01 rawAxis;
              oriented = (\<lambda>v. fromRotationTranslation
                             (multiply3 (getMatrix3 enuMatrix) (multiply3 (fromScale3 v) (transpose3 (getMatrix3 enuMatrix)))))
          in (dragAxisName s = ''CENTER'' \<longrightarrow>
                updateScale h newPoint s
                  = applyTransform (fromScale (Cartesian3 fc fc fc)) (s\<lparr>activeScale := Cartesian3 fc fc fc\<rparr>)
                \<and> activeScale (updateScale h newPoint s) = Cartesian3 fc fc fc)
           \<and> (dragAxisName s \<noteq> ''CENTER'' \<and> nameAxis (dragAxisName s) = Some ''X'' \<longrightarrow>
                updateScale h newPoint s
                  = applyTransform (oriented (Cartesian3 fa 1 1))
                      (s\<lparr>activeScale := Cartesian3 fa (cy (activeScale s)) (cz (activeScale s))\<rparr>)
                \<and> cx (activeScale (updateScale h newPoint s)) = fa)
           \<and> (dragAxisName s \<noteq> ''CENTER'' \<and> nameAxis (dragAxisName s) = Some ''Y'' \<longrightarrow>
                updateScale h newPoint s
                  = applyTransform (oriented (Cartesian3 1 fa 1))
                      (s\<lparr>activeScale := Cartesian3 (cx (activeScale s)) fa (cz (activeScale s))\<rparr>)
                \<and> cy (activeScale (updateScale h newPoint s)) = fa)
           \<and> (dragAxisName s \<noteq> ''CENTER'' \<and> nameAxis (dragAxisName s) = Some ''Z'' \<longrightarrow>
                updateScale h newPoint s
                  = applyTransform (oriented (Cartesian3 1 1 fa))
                      (s\<lparr>activeScale := Cartesian3 (cx (activeScale s)) (cy (activeScale s)) fa\<rparr>)
                \<and> cz (activeScale (updateScale h newPoint s)) = fa)
           \<and> 0.01 \<le> fc \<and> 0.01 \<le> fa
           \<and> (rawCenter < 0.01 \<longrightarrow> fc = 0.01)
           \<and> (rawAxis < 0.01 \<longrightarrow> fa = 0.01)
           \<and> scaleFactorCenter (dot moveVector (cameraUp h)) (sensitivityAt h s c) = fc
           \<and> scaleFactorAxis (dot moveVector axisVector) (sensitivityAt h s c) = fa)"
  using assms
  by (simp add: updateScale_def Let_def scaleFactorCenter_def scaleFactorAxis_def sensitivityAt_def
      max_def)

lemma normalizeRaises_zero: "normalizeRaises (Cartesian3 0 0 0)"
  by (simp add: normalizeRaises_def magnitude_def)

text \<open>
  C6. In a rotate tick with a centre and a pointer point other than the centre, the angle
  is the arccos of the dot product of the start direction and the normalised current
  direction, clamped to \<open>[-1, 1]\<close>, hence in \<open>[0, \<pi>]\<close>. When it is zero the state, and
  with it the model matrix of the object, is the one before. Otherwise the axis vector is
  the column of the local frame that the drag name selects; when the name selects none
  (it is not \<open>..._X\<close>, \<open>..._Y\<close> or \<open>..._Z\<close>) the vector is zero and \<open>normalize\<close> raises.
  When \<open>normalize\<close> accepts the column, the rotation about the normalised axis by the
  signed angle is applied about the centre, the sign being negated exactly when the dot
  product of the cross product of the two directions with the axis vector is negative.
\<close>

theorem updateRotate_signed_angle:
  assumes "center s = Some c" and "newPoint \<noteq> c"
  shows "(let currentVector = normalize (subtract newPoint c);
              d = dot (dragVectorStart s) currentVector;
              angle = arccos (clamp d (- 1) 1);
              col = axisColumn (eastNorthUpToFixedFrame h c) (nameAxis (dragAxisName s));
              axisVector = normalize col;
              sign = dot (cross (dragVectorStart s) currentVector) axisVector;
              signed = (if sign < 0 then - angle else angle)
          in - 1 \<le> clamp d (- 1) 1 \<and> clamp d (- 1) 1 \<le> 1
           \<and> 0 \<le> angle \<and> angle \<le> pi
           \<and> rotateAngle (dragVectorStart s) currentVector = angle
           \<and> (angle = 0 \<longrightarrow>
                 updateRotate h newPoint s = s
                 \<and> objectMatrix (updateRotate h newPoint s) = objectMatrix s)
           \<and> (nameAxis (dragAxisName s) \<notin> {Some ''X'', Some ''Y'', Some ''Z''} \<longrightarrow> normalizeRaises col)
           \<and> (angle \<noteq> 0 \<and> \<not> normalizeRaises col \<longrightarrow>
                 updateRotate h newPoint s
                   = applyTransform (fromRotationTranslation (fromAxisAngle h axisVector signed)) s)
           \<and> (sign < 0 \<longrightarrow> signed = - angle)
           \<and> (\<not> sign < 0 \<longrightarrow> signed = angle))"
proof -
  have r: "- 1 \<le> clamp (dot (dragVectorStart s) (normalize (subtract newPoint c))) (- 1) 1
         \<and> clamp (dot (dragVectorStart s) (normalize (subtract newPoint c))) (- 1) 1 \<le> 1"
    by (rule clamp_range) simp
  then have a: "0 \<le> arccos (clamp (dot (dragVectorStart s) (normalize (subtract newPoint c))) (- 1) 1)
         \<and> arccos (clamp (dot (dragVectorStart s) (normalize (subtract newPoint c))) (- 1) 1) \<le> pi"
    by (simp add: arccos_lbound arccos_ubound)
  have z: "nameAxis (dragAxisName s) \<notin> {Some ''X'', Some ''Y'', Some ''Z''} \<longrightarrow>
             normalizeRaises (axisColumn (eastNorthUpToFixedFrame h c) (nameAxis (dragAxisName s)))"
    by (simp add: axisColumn_def normalizeRaises_zero)
  show ?thesis
    using assms(1) r a z
    by (simp add: updateRotate_def rotateAngle_def Let_def)
qed

lemma nameAxis_samples:
  "nameAxis ''SCALE_X'' = Some ''X''" "nameAxis ''ROT_Z'' = Some ''Z''" "nameAxis ''CENTER'' = None"
  by (simp_all add: nameAxis_def)

lemma sample_drag_X:
  "handleDown sampleHost (1 / 2, 0) (sampleSession Scale)
     = startDrag sampleHost (GizmoId X (ModeType Scale) ''SCALE_X'' 1) (1 / 2, 0) (sampleSession Scale)"
  using sample_picks(2) by (simp add: handleDown_def pickedHandle_def)

lemma sample_drag_X_fields:
  "center (handleDown sampleHost (1 / 2, 0) (sampleSession Scale)) = Some (Cartesian3 0 0 0)"
  "axisLength (handleDown sampleHost (1 / 2, 0) (sampleSession Scale)) = 120"
  "dragAxisName (handleDown sampleHost (1 / 2, 0) (sampleSession Scale)) = ''SCALE_X''"
  "dragStartPoint (handleDown sampleHost (1 / 2, 0) (sampleSession Scale)) = Cartesian3 (1 / 2) 0 0"
  "activeScale (handleDown sampleHost (1 / 2, 0) (sampleSession Scale)) = Cartesian3 1 1 1"
      apply (simp_all add: sample_drag_X startDrag_def Let_def)
      apply (simp_all add: sampleRayPlane_def vec_defs)
  done

text \<open>
  A drag on the X handle of the sample scale session, started at \<open>(0.5, 0, 0)\<close>: moving the
  pointer to \<open>x = -5\<close> gives the factor 0.01, moving it to \<open>x = 1.5\<close> gives the factor 2.
\<close>

theorem updateScale_factor_floor_witness:
  "center (handleDown sampleHost (1 / 2, 0) (sampleSession Scale)) = Some (Cartesian3 0 0 0)
   \<and> axisLength (handleDown sampleHost (1 / 2, 0) (sampleSession Scale))
        * getPixelSize sampleHost (Cartesian3 0 0 0) (canvasWidth sampleHost) (canvasHeight sampleHost) \<noteq> 0
   \<and> nameAxis (dragAxisName (handleDown sampleHost (1 / 2, 0) (sampleSession Scale))) = Some ''X''
   \<and> cx (activeScale (updateScale sampleHost (Cartesian3 (- 5) 0 0)
                          (handleDown sampleHost (1 / 2, 0) (sampleSession Scale)))) = 0.01
   \<and> cx (activeScale (updateScale sampleHost (Cartesian3 (3 / 2) 0 0)
                          (handleDown sampleHost (1 / 2, 0) (sampleSession Scale)))) = 2"
proof -
  let ?D = "handleDown sampleHost (1 / 2, 0) (sampleSession Scale)"
  have c: "center ?D = Some (Cartesian3 0 0 0)" by (rule sample_drag_X_fields)
  have n: "axisLength ?D * getPixelSize sampleHost (Cartesian3 0 0 0) (canvasWidth sampleHost) (canvasHeight sampleHost) \<noteq> 0"
    by (simp add: sample_drag_X_fields)
  have ax: "normalize (axisColumn (fromTranslation (Cartesian3 0 0 0)) (Some ''X'')) = Cartesian3 1 0 0"
    by (simp add: axisColumn_def vec_defs)
  show ?thesis
    using updateScale_factor_floor [OF c n, of "Cartesian3 (- 5) 0 0"]
          updateScale_factor_floor [OF c n, of "Cartesian3 (3 / 2) 0 0"]
    by (simp add: Let_def sample_drag_X_fields nameAxis_samples ax subtract_def dot_def)
qed

lemma pickHost_simps:
  "cameraPosition pickHost = Cartesian3 0 0 10"
  "cameraDirection pickHost = Cartesian3 0 0 (- 1)"
  "cameraUp pickHost = Cartesian3 0 1 0"
  "getPickRay pickHost p = Some (Ray (Cartesian3 (fst p) (snd p) 10) (Cartesian3 0 0 (- 1)))"
  "getPixelSize pickHost c w hgt = 1 / 120"
  "scenePick pickHost p = (if p = (1, 0) then Some (GizmoId Z (ModeType Rotate) ''ROT_Z'' 1) else None)"
  "eastNorthUpToFixedFrame pickHost = fromTranslation"
  "inverse4 pickHost = sampleInverse"
  "inverse3 pickHost = transpose3"
  "fromAxisAngle pickHost = sampleAxisAngle"
  "hprFromRotation pickHost m3 = HeadingPitchRoll 0 0 0"
  "rayPlane pickHost = sampleRayPlane"
  "rayAxisAlignedBoundingBox pickHost = sampleBoxTest"
  "boundingSphereCenter pickHost ob = Cartesian3 0 0 0"
  "isSilhouetteSupported pickHost = True"
  "clientWidth pickHost = 800" "clientHeight pickHost = 600"
  by (simp_all add: pickHost_def sampleHost_def)

lemma pick_getTransformState: "getTransformState (h\<lparr>scenePick := f\<rparr>) s = getTransformState h s"
  by (simp add: getTransformState_def cong: option.case_cong)

lemma pick_bindObject: "bindObject (h\<lparr>scenePick := f\<rparr>) ob s = bindObject h ob s"
  by (simp add: bindObject_def fireUpdate_def parseCenter_def pick_getTransformState cong: option.case_cong if_cong)

lemma pick_newGizmo: "newGizmo (h\<lparr>scenePick := f\<rparr>) m ob w md cb = newGizmo h m ob w md cb"
  by (simp add: newGizmo_def initOutlineStage_def pick_bindObject cong: option.case_cong)

lemma pick_updateAxis: "updateAxis (h\<lparr>scenePick := f\<rparr>) = updateAxis h"
  by (rule ext)+ (simp add: updateAxis_def cong: option.case_cong if_cong)

lemma pick_update: "update (h\<lparr>scenePick := f\<rparr>) s = update h s"
  by (simp add: update_def pick_updateAxis cong: option.case_cong)

lemma pickSession_sample: "pickSession = sampleSession Rotate"
  by (simp add: pickSession_def sampleSession_def pickHost_def pick_update pick_newGizmo)

lemma pick_castStep: "castStep (h\<lparr>scenePick := f\<rparr>) = castStep h"
  by (rule ext)+ (simp add: castStep_def cong: option.case_cong if_cong)

lemma pick_rayCastGizmo: "rayCastGizmo (h\<lparr>scenePick := f\<rparr>) pos s = rayCastGizmo h pos s"
  by (simp add: rayCastGizmo_def pick_castStep cong: option.case_cong if_cong)


lemma sample_hits_Rotate_rim:
  "hitDistance sampleHost (sampleSession Rotate) (Ray (Cartesian3 1 0 10) (Cartesian3 0 0 (- 1)))
     (colliders (sampleSession Rotate) ! 0) = None"
  "hitDistance sampleHost (sampleSession Rotate) (Ray (Cartesian3 1 0 10) (Cartesian3 0 0 (- 1)))
     (colliders (sampleSession Rotate) ! Suc 0) = None"
  "hitDistance sampleHost (sampleSession Rotate) (Ray (Cartesian3 1 0 10) (Cartesian3 0 0 (- 1)))
     (colliders (sampleSession Rotate) ! 2) = None"
  "hitDistance sampleHost (sampleSession Rotate) (Ray (Cartesian3 1 0 10) (Cartesian3 0 0 (- 1)))
     (colliders (sampleSession Rotate) ! 3) = None"
     apply (simp_all add: sample_colliders_Rotate)
     apply (simp_all add: hitDistance_def sample_prims_Rotate sample_center_Rotate)
     apply (simp_all add: sampleBoxTest_def)
  done

lemma sample_cast_Rotate_rim:
  "rayCastGizmo sampleHost (1, 0) (sampleSession Rotate) = None"
  by (subst rayCast_four [OF sample_four(2), of sampleHost _ "Ray (Cartesian3 1 0 10) (Cartesian3 0 0 (- 1))"])
     (simp_all add: castStep_hit sample_hits_Rotate_rim)

lemma rotateDrag_start:
  "rotateDrag = startDrag pickHost (GizmoId Z (ModeType Rotate) ''ROT_Z'' 1) (1, 0) (sampleSession Rotate)"
  using sample_cast_Rotate_rim
  by (simp add: rotateDrag_def pickSession_sample inputAction_def handleDown_def pickHost_simps
      pickHost_def pick_rayCastGizmo)

lemma rotateDrag_fields:
  "object rotateDrag = Some (Model 1)"
  "center rotateDrag = Some (Cartesian3 0 0 0)"
  "mode rotateDrag = Rotate"
  "isDragging rotateDrag"
  "dragAxisName rotateDrag = ''ROT_Z''"
  "dragPlane rotateDrag = Some (Plane (Cartesian3 0 0 1) 0)"
  "dragStartPoint rotateDrag = Cartesian3 1 0 0"
  "dragVectorStart rotateDrag = Cartesian3 1 0 0"
  "initialModelMatrix rotateDrag = IDENTITY"
  "objectMatrix rotateDrag = (\<lambda>ob. IDENTITY)"
  "handler rotateDrag"
  "hasOnUpdate rotateDrag"
      apply (simp_all add: rotateDrag_start startDrag_def Let_def pickHost_simps)
      apply (simp_all add: sampleRayPlane_def vec_defs getColumn_def fromTranslation_def fromPointNormal_def getPoint_def)
  done


lemma handleDrag_rotate:
  assumes "dragPlane s = Some pl" "center s = Some c" "getPickRay h pos = Some ray"
    and "rayPlane h ray pl = Some newPoint" "mode s = Rotate"
  shows "objectMatrix (handleDrag h pos s) = objectMatrix (updateRotate h newPoint s)"
proof -
  have m: "mode (updateRotate h newPoint s) = Rotate"
    using assms(5) by (simp add: updateRotate_def Let_def split: option.splits)
  show ?thesis using assms m by (simp add: handleDrag_def Let_def)
qed

lemma rotate_ticks:
  "sampleRayPlane (Ray (Cartesian3 0 1 10) (Cartesian3 0 0 (- 1))) (Plane (Cartesian3 0 0 1) 0) = Some (Cartesian3 0 1 0)"
  by (simp add: sampleRayPlane_def vec_defs getPoint_def)


lemma quarter_turns:
  "objectMatrix (applyTransform (fromRotationTranslation (sampleAxisAngle (Cartesian3 0 0 1) (pi / 2))) rotateDrag) (Model 1)
     = Matrix4 (Cartesian4 0 1 0 0) (Cartesian4 (- 1) 0 0 0) (Cartesian4 0 0 1 0) (Cartesian4 0 0 0 1)"
  "objectMatrix (applyTransform (fromRotationTranslation (sampleAxisAngle (Cartesian3 0 0 1) (- (pi / 2)))) rotateDrag) (Model 1)
     = Matrix4 (Cartesian4 0 (- 1) 0 0) (Cartesian4 1 0 0 0) (Cartesian4 0 0 1 0) (Cartesian4 0 0 0 1)"
  by (simp_all add: applyTransform_def setObjectMatrix_def rotateDrag_fields Let_def sampleAxisAngle_def
        vec_defs fromTranslation_def fromRotationTranslation_def IDENTITY_def)

text \<open>
  A drag on the Z handle of the sample rotate session, started by a pointer-down at
  \<open>(1, 0)\<close>: the start direction is \<open>(1, 0, 0)\<close> and the object has the identity matrix.
  The pointer at \<open>(0, 1, 0)\<close> gives the angle 90 degrees and turns the object by a quarter
  about Z, the pointer at \<open>(0, -1, 0)\<close> turns it by a quarter the other way, and the
  pointer at \<open>(2, 0, 0)\<close> gives the angle zero and changes nothing. The pointer-move event
  at \<open>(0, 1)\<close> is the first of these ticks.
\<close>

theorem updateRotate_signed_angle_witness:
  "center rotateDrag = Some (Cartesian3 0 0 0)
   \<and> Cartesian3 0 1 0 \<noteq> Cartesian3 0 0 0
   \<and> isDragging rotateDrag
   \<and> dragAxisName rotateDrag = ''ROT_Z''
   \<and> dragVectorStart rotateDrag = Cartesian3 1 0 0
   \<and> initialModelMatrix rotateDrag = IDENTITY
   \<and> objectMatrix rotateDrag (Model 1) = IDENTITY
   \<and> \<not> normalizeRaises (axisColumn (eastNorthUpToFixedFrame pickHost (Cartesian3 0 0 0))
                            (nameAxis (dragAxisName rotateDrag)))
   \<and> rotateAngle (dragVectorStart rotateDrag) (normalize (subtract (Cartesian3 0 1 0) (Cartesian3 0 0 0))) = pi / 2
   \<and> objectMatrix (updateRotate pickHost (Cartesian3 0 1 0) rotateDrag) (Model 1)
       = Matrix4 (Cartesian4 0 1 0 0) (Cartesian4 (- 1) 0 0 0) (Cartesian4 0 0 1 0) (Cartesian4 0 0 0 1)
   \<and> objectMatrix (updateRotate pickHost (Cartesian3 0 (- 1) 0) rotateDrag) (Model 1)
       = Matrix4 (Cartesian4 0 (- 1) 0 0) (Cartesian4 1 0 0 0) (Cartesian4 0 0 1 0) (Cartesian4 0 0 0 1)
   \<and> rotateAngle (dragVectorStart rotateDrag) (normalize (subtract (Cartesian3 2 0 0) (Cartesian3 0 0 0))) = 0
   \<and> updateRotate pickHost (Cartesian3 2 0 0) rotateDrag = rotateDrag
   \<and> objectMatrix (inputAction pickHost (MOUSE_MOVE (0, 1)) rotateDrag) (Model 1)
       = Matrix4 (Cartesian4 0 1 0 0) (Cartesian4 (- 1) 0 0 0) (Cartesian4 0 0 1 0) (Cartesian4 0 0 0 1)"
proof -
  have c: "center rotateDrag = Some (Cartesian3 0 0 0)" by (rule rotateDrag_fields)
  have n1: "Cartesian3 0 1 0 \<noteq> Cartesian3 0 0 0" by simp
  have n2: "Cartesian3 0 (- 1) 0 \<noteq> Cartesian3 0 0 0" by simp
  have n3: "Cartesian3 2 0 0 \<noteq> Cartesian3 0 0 0" by simp
  have v: "normalize (subtract (Cartesian3 0 1 0) (Cartesian3 0 0 0)) = Cartesian3 0 1 0"
    "normalize (subtract (Cartesian3 0 (- 1) 0) (Cartesian3 0 0 0)) = Cartesian3 0 (- 1) 0"
    "normalize (subtract (Cartesian3 2 0 0) (Cartesian3 0 0 0)) = Cartesian3 1 0 0"
    by (simp_all add: vec_defs)
  have col: "axisColumn (eastNorthUpToFixedFrame pickHost (Cartesian3 0 0 0)) (nameAxis (dragAxisName rotateDrag))
               = Cartesian3 0 0 1"
    by (simp add: rotateDrag_fields nameAxis_samples pickHost_simps axisColumn_def getColumn_def
        fromTranslation_def xyz_def)
  have col': "axisColumn (fromTranslation (Cartesian3 0 0 0)) (nameAxis ''ROT_Z'') = Cartesian3 0 0 1"
    using col by (simp add: rotateDrag_fields pickHost_simps)
  have ax: "normalize (Cartesian3 0 0 1) = Cartesian3 0 0 1" "\<not> normalizeRaises (Cartesian3 0 0 1)"
    by (simp_all add: normalize_def normalizeRaises_def magnitude_def)
  have t1: "rotateAngle (dragVectorStart rotateDrag) (normalize (subtract (Cartesian3 0 1 0) (Cartesian3 0 0 0))) = pi / 2
      \<and> updateRotate pickHost (Cartesian3 0 1 0) rotateDrag
          = applyTransform (fromRotationTranslation (sampleAxisAngle (Cartesian3 0 0 1) (pi / 2))) rotateDrag"
    using updateRotate_signed_angle [OF c n1, of pickHost]
    by (simp add: Let_def v col' ax rotateDrag_fields pickHost_simps dot_def cross_def clamp_def rotateAngle_def)
  have t2: "updateRotate pickHost (Cartesian3 0 (- 1) 0) rotateDrag
          = applyTransform (fromRotationTranslation (sampleAxisAngle (Cartesian3 0 0 1) (- (pi / 2)))) rotateDrag"
    using updateRotate_signed_angle [OF c n2, of pickHost]
    by (simp add: Let_def v col' ax rotateDrag_fields pickHost_simps dot_def cross_def clamp_def rotateAngle_def)
  have t3: "rotateAngle (dragVectorStart rotateDrag) (normalize (subtract (Cartesian3 2 0 0) (Cartesian3 0 0 0))) = 0
      \<and> updateRotate pickHost (Cartesian3 2 0 0) rotateDrag = rotateDrag"
    using updateRotate_signed_angle [OF c n3, of pickHost]
    by (simp add: Let_def v col' ax rotateDrag_fields pickHost_simps dot_def cross_def clamp_def rotateAngle_def)
  have mv: "objectMatrix (inputAction pickHost (MOUSE_MOVE (0, 1)) rotateDrag)
              = objectMatrix (updateRotate pickHost (Cartesian3 0 1 0) rotateDrag)"
    using handleDrag_rotate [of rotateDrag "Plane (Cartesian3 0 0 1) 0" "Cartesian3 0 0 0" pickHost "(0, 1)"
              "Ray (Cartesian3 0 1 10) (Cartesian3 0 0 (- 1))" "Cartesian3 0 1 0"]
    by (simp add: inputAction_def rotateDrag_fields pickHost_simps rotate_ticks)
  show ?thesis
    using t1 t2 t3 mv col ax(2) quarter_turns
    by (simp add: rotateDrag_fields)
qed


end
